theory Spec2Isabelle
  imports Complex_Main "HOL-Library.Multiset"
begin

section \<open>JavaScript values and the built-in operations the services use\<close>

text \<open>
  The two service modules receive dynamically typed arguments. A value is one of the
  primitive values of the language; objects, arrays, symbols and big integers are outside
  the model. A Number is \<open>NaN\<close>, an infinity or a finite value, which is given by its
  exact rational value; the conversions from strings round to the binary64 format, with
  its underflow and overflow. The negative zero is identified with zero (the operations
  used below do not distinguish them). A string is a sequence of code units below 256.
\<close>

datatype jsnum = NaN | Fin rat | PosInf | NegInf

datatype jsval = JUndefined | JNull | JBool bool | JNum jsnum | JStr string

text \<open>\<open>!v\<close> is \<open>\<not> truthy v\<close> (the abstract operation ToBoolean).\<close>

fun truthy :: "jsval \<Rightarrow> bool" where
  "truthy JUndefined = False"
| "truthy JNull = False"
| "truthy (JBool b) = b"
| "truthy (JNum NaN) = False"
| "truthy (JNum (Fin q)) = (q \<noteq> 0)"
| "truthy (JNum PosInf) = True"
| "truthy (JNum NegInf) = True"
| "truthy (JStr s) = (s \<noteq> [])"

subsection \<open>Characters and digits\<close>

text \<open>White space and line terminators among the code units below 256:
  TAB, LF, VT, FF, CR, SP and NBSP.\<close>

definition isWhiteSpace :: "char \<Rightarrow> bool" where
  "isWhiteSpace c = (of_char c \<in> {9, 10, 11, 12, 13, 32, 160 :: nat})"

definition trimStart :: "string \<Rightarrow> string" where
  "trimStart s = dropWhile isWhiteSpace s"

definition trim :: "string \<Rightarrow> string" where
  "trim s = rev (dropWhile isWhiteSpace (rev (dropWhile isWhiteSpace s)))"

text \<open>The value of a character as a digit in the given radix, if it is one.\<close>

definition digitVal :: "nat \<Rightarrow> char \<Rightarrow> nat option" where
  "digitVal radix c =
     (let n = (of_char c :: nat);
          v = (if 48 \<le> n \<and> n \<le> 57 then Some (n - 48)
               else if 97 \<le> n \<and> n \<le> 122 then Some (n - 87)
               else if 65 \<le> n \<and> n \<le> 90 then Some (n - 55)
               else None)
      in case v of None \<Rightarrow> None | Some d \<Rightarrow> if d < radix then Some d else None)"

definition isDigit :: "nat \<Rightarrow> char \<Rightarrow> bool" where
  "isDigit radix c = (digitVal radix c \<noteq> None)"

definition digitsVal :: "nat \<Rightarrow> string \<Rightarrow> nat" where
  "digitsVal radix ds = foldl (\<lambda>a c. a * radix + (case digitVal radix c of None \<Rightarrow> 0 | Some d \<Rightarrow> d)) 0 ds"

text \<open>A non-empty run of digits and nothing else.\<close>

definition allDigits :: "nat \<Rightarrow> string \<Rightarrow> bool" where
  "allDigits radix ds = (ds \<noteq> [] \<and> list_all (isDigit radix) ds)"

subsection \<open>The binary64 format\<close>

definition negate :: "jsnum \<Rightarrow> jsnum" where
  "negate x = (case x of NaN \<Rightarrow> NaN | Fin q \<Rightarrow> Fin (- q) | PosInf \<Rightarrow> NegInf | NegInf \<Rightarrow> PosInf)"

definition pow2 :: "int \<Rightarrow> rat" where
  "pow2 e = (if 0 \<le> e then 2 ^ nat e else 1 / 2 ^ nat (- e))"

text \<open>The number of binary digits of a natural number.\<close>

fun bitLength :: "nat \<Rightarrow> nat" where
  "bitLength n = (if n = 0 then 0 else Suc (bitLength (n div 2)))"

declare bitLength.simps [simp del]

text \<open>The binary exponent of a positive rational: the \<open>e\<close> with \<open>2\<^sup>e \<le> x < 2\<^sup>e\<^sup>+\<^sup>1\<close>.\<close>

definition ilog2 :: "rat \<Rightarrow> int" where
  "ilog2 x =
     (if 1 \<le> x then int (bitLength (nat \<lfloor>x\<rfloor>)) - 1
      else - int (bitLength (nat \<lceil>1 / x\<rceil> - 1)))"

text \<open>Rounding to the nearest integer, a tie going to the even one.\<close>

definition roundHalfEven :: "rat \<Rightarrow> int" where
  "roundHalfEven m =
     (let f = \<lfloor>m\<rfloor>; d = m - of_int f
      in if d < 1 / 2 then f else if 1 / 2 < d then f + 1 else if even f then f else f + 1)"

text \<open>The Number nearest to a rational. A value of the format is a multiple of
  \<open>2\<^sup>e\<^sup>-\<^sup>5\<^sup>2\<close> where \<open>e\<close> is its binary exponent, which is at least \<open>-1022\<close>; a rational
  is rounded to such a multiple, a tie to the even one. What rounds to \<open>2\<^sup>1\<^sup>0\<^sup>2\<^sup>4\<close> or
  above is an infinity, and what rounds to no multiple but zero is zero.\<close>

definition roundPositive :: "rat \<Rightarrow> jsnum" where
  "roundPositive x =
     (let e = max (ilog2 x) (- 1022);
          ulp = pow2 (e - 52);
          y = of_int (roundHalfEven (x / ulp)) * ulp
      in if pow2 1024 \<le> y then PosInf else Fin y)"

definition toDouble :: "rat \<Rightarrow> jsnum" where
  "toDouble x =
     (if x = 0 then Fin 0
      else if 0 < x then roundPositive x
      else negate (roundPositive (- x)))"

subsection \<open>ToNumber\<close>

text \<open>The exponent part of a decimal literal: empty, or \<open>e\<close>/\<open>E\<close> followed by an
  optionally signed non-empty run of decimal digits. \<open>None\<close> when the text is neither.\<close>

definition exponentPart :: "string \<Rightarrow> int option" where
  "exponentPart s =
     (case s of
        [] \<Rightarrow> Some 0
      | c # t \<Rightarrow>
          if c = CHR ''e'' \<or> c = CHR ''E'' then
            (case t of
               [] \<Rightarrow> None
             | d # u \<Rightarrow>
                 if d = CHR ''+'' then (if allDigits 10 u then Some (int (digitsVal 10 u)) else None)
                 else if d = CHR ''-'' then (if allDigits 10 u then Some (- int (digitsVal 10 u)) else None)
                 else (if allDigits 10 t then Some (int (digitsVal 10 t)) else None))
          else None)"

definition scale10 :: "rat \<Rightarrow> int \<Rightarrow> rat" where
  "scale10 m e = (if 0 \<le> e then m * 10 ^ nat e else m / 10 ^ nat (- e))"

text \<open>An unsigned decimal literal: \<open>Infinity\<close>, or digits with an optional fraction
  (at least one digit before or after the point) and an optional exponent. Its value
  is the Number nearest to the number it spells.\<close>

definition strUnsignedDecimalLiteral :: "string \<Rightarrow> jsnum" where
  "strUnsignedDecimalLiteral s =
     (if s = ''Infinity'' then PosInf
      else
        let ip = takeWhile (isDigit 10) s;
            r1 = dropWhile (isDigit 10) s;
            fp = (case r1 of [] \<Rightarrow> [] | c # t \<Rightarrow> if c = CHR ''.'' then takeWhile (isDigit 10) t else []);
            r2 = (case r1 of [] \<Rightarrow> [] | c # t \<Rightarrow> if c = CHR ''.'' then dropWhile (isDigit 10) t else r1)
        in if ip = [] \<and> fp = [] then NaN
           else case exponentPart r2 of
                  None \<Rightarrow> NaN
                | Some e \<Rightarrow>
                    toDouble (scale10 (of_nat (digitsVal 10 ip)
                                       + of_nat (digitsVal 10 fp) / 10 ^ length fp) e))"

text \<open>A hexadecimal, octal or binary integer literal (\<open>0x\<close>, \<open>0o\<close>, \<open>0b\<close>, in either
  case), which takes no sign.\<close>

definition nonDecimalIntegerLiteral :: "string \<Rightarrow> jsnum option" where
  "nonDecimalIntegerLiteral s =
     (case s of
        a # b # ds \<Rightarrow>
          if a = CHR ''0'' \<and> (b = CHR ''x'' \<or> b = CHR ''X'') then
            Some (if allDigits 16 ds then toDouble (of_nat (digitsVal 16 ds)) else NaN)
          else if a = CHR ''0'' \<and> (b = CHR ''o'' \<or> b = CHR ''O'') then
            Some (if allDigits 8 ds then toDouble (of_nat (digitsVal 8 ds)) else NaN)
          else if a = CHR ''0'' \<and> (b = CHR ''b'' \<or> b = CHR ''B'') then
            Some (if allDigits 2 ds then toDouble (of_nat (digitsVal 2 ds)) else NaN)
          else None
      | _ \<Rightarrow> None)"

text \<open>ToNumber applied to a string: surrounding white space is dropped; the empty
  string is 0; anything that is not a numeric literal is \<open>NaN\<close>.\<close>

definition stringToNumber :: "string \<Rightarrow> jsnum" where
  "stringToNumber str =
     (let s = trim str in
      case s of
        [] \<Rightarrow> Fin 0
      | c # t \<Rightarrow>
          (case nonDecimalIntegerLiteral s of
             Some x \<Rightarrow> x
           | None \<Rightarrow>
               if c = CHR ''+'' then strUnsignedDecimalLiteral t
               else if c = CHR ''-'' then negate (strUnsignedDecimalLiteral t)
               else strUnsignedDecimalLiteral s))"

fun toNumber :: "jsval \<Rightarrow> jsnum" where
  "toNumber JUndefined = NaN"
| "toNumber JNull = Fin 0"
| "toNumber (JBool b) = Fin (if b then 1 else 0)"
| "toNumber (JNum x) = x"
| "toNumber (JStr s) = stringToNumber s"

text \<open>The global \<open>isNaN(v)\<close>.\<close>

definition isNaN :: "jsval \<Rightarrow> bool" where
  "isNaN v = (toNumber v = NaN)"

subsection \<open>Comparison with a Number literal\<close>

text \<open>\<open>v < k\<close>, \<open>v > k\<close> and \<open>v <= k\<close> for a finite Number \<open>k\<close>: the left operand is
  converted with ToNumber, and every comparison with \<open>NaN\<close> is false.\<close>

definition ltNum :: "jsval \<Rightarrow> rat \<Rightarrow> bool" where
  "ltNum v k = (case toNumber v of NaN \<Rightarrow> False | Fin q \<Rightarrow> q < k | PosInf \<Rightarrow> False | NegInf \<Rightarrow> True)"

definition gtNum :: "jsval \<Rightarrow> rat \<Rightarrow> bool" where
  "gtNum v k = (case toNumber v of NaN \<Rightarrow> False | Fin q \<Rightarrow> k < q | PosInf \<Rightarrow> True | NegInf \<Rightarrow> False)"

definition leNum :: "jsval \<Rightarrow> rat \<Rightarrow> bool" where
  "leNum v k = (case toNumber v of NaN \<Rightarrow> False | Fin q \<Rightarrow> q \<le> k | PosInf \<Rightarrow> False | NegInf \<Rightarrow> True)"

subsection \<open>parseInt\<close>

text \<open>The result of \<open>parseInt\<close> is a Number with an integer value, \<open>NaN\<close> or an
  infinity. The services pass it to the client only, which refuses \<open>NaN\<close> and the
  infinities alike: both are \<open>None\<close> here, and an integer is its exact value.\<close>

text \<open>\<open>parseInt(string)\<close> without a radix: leading white space is dropped, a sign is
  read, a \<open>0x\<close> prefix selects radix 16, and the longest run of digits is read as a
  Number; whatever follows is ignored.\<close>

definition parseIntStr :: "string \<Rightarrow> int option" where
  "parseIntStr str =
     (let s1 = trimStart str;
          neg = (case s1 of [] \<Rightarrow> False | c # _ \<Rightarrow> c = CHR ''-'');
          s2 = (case s1 of [] \<Rightarrow> [] | c # t \<Rightarrow> if c = CHR ''-'' \<or> c = CHR ''+'' then t else s1);
          hex = (case s2 of a # b # _ \<Rightarrow> a = CHR ''0'' \<and> (b = CHR ''x'' \<or> b = CHR ''X'') | _ \<Rightarrow> False);
          radix = (if hex then 16 else 10);
          s3 = (if hex then drop 2 s2 else s2);
          ds = takeWhile (isDigit radix) s3
      in if ds = [] then None
         else case toDouble (of_nat (digitsVal radix ds)) of
                Fin q \<Rightarrow> Some ((if neg then - 1 else 1) * \<lfloor>q\<rfloor>)
              | _ \<Rightarrow> None)"

text \<open>The first decimal digit of a positive natural number.\<close>

fun leadingDigit :: "nat \<Rightarrow> nat" where
  "leadingDigit n = (if n < 10 then n else leadingDigit (n div 10))"

fun numDigits :: "nat \<Rightarrow> nat" where
  "numDigits n = (if n < 10 then 1 else Suc (numDigits (n div 10)))"

declare leadingDigit.simps [simp del] numDigits.simps [simp del]

text \<open>The decimal exponent of a positive rational: the \<open>n\<close> with
  \<open>10\<^sup>n\<^sup>-\<^sup>1 \<le> x < 10\<^sup>n\<close>.\<close>

definition decimalExponent :: "rat \<Rightarrow> int" where
  "decimalExponent x =
     (if 1 \<le> x then int (numDigits (nat \<lfloor>x\<rfloor>))
      else let n = 1 - int (numDigits (nat \<lceil>1 / x\<rceil>))
           in if scale10 1 n \<le> x then n + 1 else n)"

text \<open>The digits of a positive Number in its string form: the integer \<open>s\<close> with the
  fewest digits \<open>k\<close> such that \<open>s \<times> 10\<^sup>n\<^sup>-\<^sup>k\<close> is read back as the same Number, the
  nearest one to the Number when several have \<open>k\<close> digits, the even one of two equally
  near. Seventeen digits always suffice for a value of the format; the search is given
  that many steps and ends on the digits of the exact value.\<close>

fun shortestDigits :: "rat \<Rightarrow> int \<Rightarrow> nat \<Rightarrow> nat \<Rightarrow> nat" where
  "shortestDigits x n k 0 = nat \<lfloor>scale10 x (int k - n)\<rfloor>"
| "shortestDigits x n k (Suc fuel) =
     (let y = scale10 x (int k - n);
          lo = \<lfloor>y\<rfloor>;
          hi = lo + 1;
          okLo = (toDouble (scale10 (of_int lo) (n - int k)) = Fin x);
          okHi = (toDouble (scale10 (of_int hi) (n - int k)) = Fin x);
          dLo = y - of_int lo;
          dHi = of_int hi - y
      in if okLo \<and> okHi then (if dLo < dHi then nat lo else if dHi < dLo then nat hi
                               else if even lo then nat lo else nat hi)
         else if okLo then nat lo
         else if okHi then nat hi
         else shortestDigits x n (Suc k) fuel)"

declare shortestDigits.simps [simp del]

text \<open>The first digit of the string form of a positive Number.\<close>

definition firstSignificant :: "rat \<Rightarrow> nat" where
  "firstSignificant x = leadingDigit (shortestDigits x (decimalExponent x) 1 17)"

text \<open>\<open>parseInt\<close> of a Number goes through its string form. From \<open>10\<^sup>-\<^sup>6\<close> up to
  \<open>10\<^sup>2\<^sup>1\<close> that form is plain decimal notation, of which \<open>parseInt\<close> reads the integer
  part; the Number of the literal \<open>1e-6\<close>, whose exact value lies a little below
  \<open>10\<^sup>-\<^sup>6\<close>, is written \<open>0.000001\<close> too. Outside that range the form is exponent notation,
  \<open>d.ddde+n\<close>, of which \<open>parseInt\<close> reads the first digit only. The strings \<open>NaN\<close>,
  \<open>Infinity\<close> and \<open>-Infinity\<close> hold no digit.\<close>

definition plainNotation :: "rat \<Rightarrow> bool" where
  "plainNotation x = ((1 / 10 ^ 6 \<le> x \<or> toDouble (1 / 10 ^ 6) = Fin x) \<and> x < 10 ^ 21)"

definition parseIntNum :: "jsnum \<Rightarrow> int option" where
  "parseIntNum x =
     (case x of
        NaN \<Rightarrow> None
      | PosInf \<Rightarrow> None
      | NegInf \<Rightarrow> None
      | Fin q \<Rightarrow>
          if q = 0 then Some 0
          else if plainNotation \<bar>q\<bar> then Some ((if q < 0 then - 1 else 1) * \<lfloor>\<bar>q\<bar>\<rfloor>)
          else Some ((if q < 0 then - 1 else 1) * int (firstSignificant \<bar>q\<bar>)))"

text \<open>\<open>parseInt(v)\<close>: the argument is converted to a string first, so \<open>undefined\<close>,
  \<open>null\<close> and the booleans give \<open>NaN\<close>.\<close>

fun parseInt :: "jsval \<Rightarrow> int option" where
  "parseInt JUndefined = None"
| "parseInt JNull = None"
| "parseInt (JBool b) = None"
| "parseInt (JNum x) = parseIntNum x"
| "parseInt (JStr s) = parseIntStr s"

section \<open>The record store\<close>

text \<open>
  Modelled from the spec: the database client and the schema of the two tables. Both
  modules reach the database through the client object \<open>prisma\<close> imported from
  \<open>../config/database.js\<close>. That module and the schema are not among the sources, so
  the client is modelled here from sections 3 and 6 of the specification: a table is the
  list of its rows in insertion order together with the next identifier to assign; the
  columns and their types are those of the data model; the time of a write is an
  explicit argument \<open>now\<close>. Where the specification is silent (the integers an
  identifier can be, a value of the wrong type, an update whose data are empty) the
  model follows the client library that the modules import. Referential integrity
  between the tables and the uniqueness constraints of the store are not modelled: the
  services look for duplicates themselves before they write.
\<close>

record row =
  id' :: int
  ativa :: bool
  createdAt :: nat
  updatedAt :: nat

record question = row +
  enunciado :: string
  dificuldade :: int
  respostaCorreta :: string
  disciplinaId :: int
  autorId :: int

record subject = row +
  nome :: string
  professorId :: int

record 'r table =
  rows :: "'r list"
  nextId :: int

text \<open>A value read from a column, an object returned by the client (its properties in
  the order of the selection), and an object passed as an argument (a property that is
  not there reads as \<open>undefined\<close>).\<close>

datatype dbval = DInt int | DStr string | DBool bool | DDate nat

type_synonym obj = "(string \<times> dbval) list"

type_synonym jsobj = "string \<Rightarrow> jsval"

definition emptyObj :: jsobj where
  "emptyObj = (\<lambda>_. JUndefined)"

text \<open>Every \<open>throw new Error(...)\<close> of the two modules, one constructor for each message,
  and \<open>PrismaError\<close> for an exception raised by the client itself.\<close>

datatype error =
    IdInvalido
  | CamposObrigatorios
  | DificuldadeForaDoIntervalo
  | EnunciadoJaCadastrado
  | EnunciadoEmUso
  | QuestaoNaoEncontrada
  | NomeEProfessorObrigatorios
  | NomeJaCadastrado
  | NomeEmUso
  | DisciplinaNaoEncontrada
  | PrismaError

text \<open>The error kinds of section 7 of the specification.\<close>

datatype errorKind = InvalidArgument | ValidationError | Conflict | NotFound | StoreFailure

fun kind :: "error \<Rightarrow> errorKind" where
  "kind IdInvalido = InvalidArgument"
| "kind CamposObrigatorios = ValidationError"
| "kind DificuldadeForaDoIntervalo = ValidationError"
| "kind EnunciadoJaCadastrado = Conflict"
| "kind EnunciadoEmUso = Conflict"
| "kind QuestaoNaoEncontrada = NotFound"
| "kind NomeEProfessorObrigatorios = ValidationError"
| "kind NomeJaCadastrado = Conflict"
| "kind NomeEmUso = Conflict"
| "kind DisciplinaNaoEncontrada = NotFound"
| "kind PrismaError = StoreFailure"

subsection \<open>Selections\<close>

definition rowCol :: "'a row_scheme \<Rightarrow> string \<Rightarrow> dbval option" where
  "rowCol r f =
     (if f = ''id'' then Some (DInt (id' r))
      else if f = ''ativa'' then Some (DBool (ativa r))
      else if f = ''createdAt'' then Some (DDate (createdAt r))
      else if f = ''updatedAt'' then Some (DDate (updatedAt r))
      else None)"

definition questionCol :: "question \<Rightarrow> string \<Rightarrow> dbval option" where
  "questionCol r f =
     (if f = ''enunciado'' then Some (DStr (enunciado r))
      else if f = ''dificuldade'' then Some (DInt (dificuldade r))
      else if f = ''respostaCorreta'' then Some (DStr (respostaCorreta r))
      else if f = ''disciplinaId'' then Some (DInt (disciplinaId r))
      else if f = ''autorId'' then Some (DInt (autorId r))
      else rowCol r f)"

definition subjectCol :: "subject \<Rightarrow> string \<Rightarrow> dbval option" where
  "subjectCol r f =
     (if f = ''nome'' then Some (DStr (nome r))
      else if f = ''professorId'' then Some (DInt (professorId r))
      else rowCol r f)"

text \<open>\<open>select: {f: true, ...}\<close>: the object holding the selected columns of a row.\<close>

definition select :: "('r \<Rightarrow> string \<Rightarrow> dbval option) \<Rightarrow> string list \<Rightarrow> 'r \<Rightarrow> obj" where
  "select col fs r = List.map_filter (\<lambda>f. map_option (Pair f) (col r f)) fs"

subsection \<open>Arguments of a write\<close>

text \<open>The integers that an Int column and an identifier can hold are those of 64
  bits with a sign.\<close>

definition fitsInt64 :: "int \<Rightarrow> bool" where
  "fitsInt64 k = (- (2 ^ 63) \<le> k \<and> k < 2 ^ 63)"

text \<open>A String column takes a string, an Int column a Number with an integer value
  that fits it, a Boolean column a boolean; the client refuses anything else.\<close>

definition asString :: "jsval \<Rightarrow> string option" where
  "asString v = (case v of JStr s \<Rightarrow> Some s | _ \<Rightarrow> None)"

definition asInt :: "jsval \<Rightarrow> int option" where
  "asInt v =
     (case v of
        JNum (Fin q) \<Rightarrow> if of_int \<lfloor>q\<rfloor> = q \<and> fitsInt64 \<lfloor>q\<rfloor> then Some \<lfloor>q\<rfloor> else None
      | _ \<Rightarrow> None)"

definition asBool :: "jsval \<Rightarrow> bool option" where
  "asBool v = (case v of JBool b \<Rightarrow> Some b | _ \<Rightarrow> None)"

text \<open>In the data of an update a property that is \<open>undefined\<close> leaves its column alone.\<close>

definition patchOk :: "(jsval \<Rightarrow> 'a option) \<Rightarrow> jsval \<Rightarrow> bool" where
  "patchOk conv v = (v = JUndefined \<or> conv v \<noteq> None)"

definition patched :: "(jsval \<Rightarrow> 'a option) \<Rightarrow> jsval \<Rightarrow> 'a \<Rightarrow> 'a" where
  "patched conv v old = (case conv v of None \<Rightarrow> old | Some x \<Rightarrow> x)"

subsection \<open>Operations of the client\<close>

datatype sortOrder = Asc | Desc

text \<open>\<open>findMany({select, orderBy})\<close>, with no \<open>where\<close>, \<open>take\<close> or \<open>skip\<close>.\<close>

definition findMany :: "'r table \<Rightarrow> ('r \<Rightarrow> 'b) \<Rightarrow> ('r \<Rightarrow> nat) \<Rightarrow> sortOrder \<Rightarrow> 'b list" where
  "findMany t sel key ord =
     map sel (case ord of Asc \<Rightarrow> sort_key key (rows t) | Desc \<Rightarrow> rev (sort_key key (rows t)))"

text \<open>The identifier of a \<open>where: {id}\<close> is the result of \<open>parseInt\<close>. The client
  refuses \<open>NaN\<close>, an infinity and an integer that does not fit the column, and looks
  for a row otherwise.\<close>

definition whereId :: "int option \<Rightarrow> int option" where
  "whereId n = (case n of None \<Rightarrow> None | Some k \<Rightarrow> if fitsInt64 k then Some k else None)"

text \<open>\<open>findUnique({where: {id}, select})\<close>.\<close>

definition findUniqueById ::
  "('a row_scheme) table \<Rightarrow> int option \<Rightarrow> ('a row_scheme \<Rightarrow> 'b) \<Rightarrow> error + 'b option" where
  "findUniqueById t n sel =
     (case whereId n of
        None \<Rightarrow> Inl PrismaError
      | Some k \<Rightarrow> Inr (map_option sel (find (\<lambda>r. id' r = k) (rows t))))"

text \<open>\<open>findUnique({where: {enunciado}})\<close> and \<open>findUnique({where: {nome}})\<close>.\<close>

definition findUniqueByEnunciado :: "question table \<Rightarrow> jsval \<Rightarrow> error + question option" where
  "findUniqueByEnunciado t v =
     (case asString v of
        None \<Rightarrow> Inl PrismaError
      | Some s \<Rightarrow> Inr (find (\<lambda>r. enunciado r = s) (rows t)))"

definition findUniqueByNome :: "subject table \<Rightarrow> jsval \<Rightarrow> error + subject option" where
  "findUniqueByNome t v =
     (case asString v of
        None \<Rightarrow> Inl PrismaError
      | Some s \<Rightarrow> Inr (find (\<lambda>r. nome r = s) (rows t)))"

text \<open>\<open>create({data, select})\<close>: the new row takes the next identifier and the time of
  the write as both timestamps.\<close>

definition questionCreate ::
  "nat \<Rightarrow> question table \<Rightarrow> jsobj \<Rightarrow> (question \<Rightarrow> 'b) \<Rightarrow> (error + 'b) \<times> question table" where
  "questionCreate now t d sel =
     (case (asString (d ''enunciado''), asInt (d ''dificuldade''), asString (d ''respostaCorreta''),
            asInt (d ''disciplinaId''), asInt (d ''autorId''), asBool (d ''ativa'')) of
        (Some e, Some di, Some rc, Some ds, Some au, Some av) \<Rightarrow>
          let r = \<lparr>id' = nextId t, ativa = av, createdAt = now, updatedAt = now,
                   enunciado = e, dificuldade = di, respostaCorreta = rc,
                   disciplinaId = ds, autorId = au\<rparr>
          in (Inr (sel r), t\<lparr>rows := rows t @ [r], nextId := nextId t + 1\<rparr>)
      | _ \<Rightarrow> (Inl PrismaError, t))"

definition subjectCreate ::
  "nat \<Rightarrow> subject table \<Rightarrow> jsobj \<Rightarrow> (subject \<Rightarrow> 'b) \<Rightarrow> (error + 'b) \<times> subject table" where
  "subjectCreate now t d sel =
     (case (asString (d ''nome''), asBool (d ''ativa''), asInt (d ''professorId'')) of
        (Some n, Some av, Some p) \<Rightarrow>
          let r = \<lparr>id' = nextId t, ativa = av, createdAt = now, updatedAt = now,
                   nome = n, professorId = p\<rparr>
          in (Inr (sel r), t\<lparr>rows := rows t @ [r], nextId := nextId t + 1\<rparr>)
      | _ \<Rightarrow> (Inl PrismaError, t))"

text \<open>\<open>update({where: {id}, data, select})\<close>: the columns named in the data are
  overwritten and \<open>updatedAt\<close> becomes the time of the write. When the data name no
  column at all the client writes nothing, and \<open>updatedAt\<close> keeps its value. The client
  raises when no row has the identifier or a value has the wrong type, and then writes
  nothing either.\<close>

definition noData :: "string list \<Rightarrow> jsobj \<Rightarrow> bool" where
  "noData fs d = list_all (\<lambda>f. d f = JUndefined) fs"

definition questionPatch :: "nat \<Rightarrow> jsobj \<Rightarrow> question \<Rightarrow> question" where
  "questionPatch now d r =
     r\<lparr>enunciado := patched asString (d ''enunciado'') (enunciado r),
       dificuldade := patched asInt (d ''dificuldade'') (dificuldade r),
       respostaCorreta := patched asString (d ''respostaCorreta'') (respostaCorreta r),
       disciplinaId := patched asInt (d ''disciplinaId'') (disciplinaId r),
       autorId := patched asInt (d ''autorId'') (autorId r),
       ativa := patched asBool (d ''ativa'') (ativa r),
       updatedAt := (if noData [''enunciado'', ''dificuldade'', ''respostaCorreta'',
                                ''disciplinaId'', ''autorId'', ''ativa''] d
                     then updatedAt r else now)\<rparr>"

definition questionUpdate ::
  "nat \<Rightarrow> question table \<Rightarrow> int option \<Rightarrow> jsobj \<Rightarrow> (question \<Rightarrow> 'b)
     \<Rightarrow> (error + 'b) \<times> question table" where
  "questionUpdate now t n d sel =
     (case whereId n of
        None \<Rightarrow> (Inl PrismaError, t)
      | Some k \<Rightarrow>
          (case find (\<lambda>r. id' r = k) (rows t) of
             None \<Rightarrow> (Inl PrismaError, t)
           | Some r \<Rightarrow>
               if patchOk asString (d ''enunciado'') \<and> patchOk asInt (d ''dificuldade'')
                  \<and> patchOk asString (d ''respostaCorreta'') \<and> patchOk asInt (d ''disciplinaId'')
                  \<and> patchOk asInt (d ''autorId'') \<and> patchOk asBool (d ''ativa'')
               then (Inr (sel (questionPatch now d r)),
                     t\<lparr>rows := map (\<lambda>x. if id' x = k then questionPatch now d x else x) (rows t)\<rparr>)
               else (Inl PrismaError, t)))"

definition subjectPatch :: "nat \<Rightarrow> jsobj \<Rightarrow> subject \<Rightarrow> subject" where
  "subjectPatch now d r =
     r\<lparr>nome := patched asString (d ''nome'') (nome r),
       ativa := patched asBool (d ''ativa'') (ativa r),
       professorId := patched asInt (d ''professorId'') (professorId r),
       updatedAt := (if noData [''nome'', ''ativa'', ''professorId''] d
                     then updatedAt r else now)\<rparr>"

definition subjectUpdate ::
  "nat \<Rightarrow> subject table \<Rightarrow> int option \<Rightarrow> jsobj \<Rightarrow> (subject \<Rightarrow> 'b)
     \<Rightarrow> (error + 'b) \<times> subject table" where
  "subjectUpdate now t n d sel =
     (case whereId n of
        None \<Rightarrow> (Inl PrismaError, t)
      | Some k \<Rightarrow>
          (case find (\<lambda>r. id' r = k) (rows t) of
             None \<Rightarrow> (Inl PrismaError, t)
           | Some r \<Rightarrow>
               if patchOk asString (d ''nome'') \<and> patchOk asBool (d ''ativa'')
                  \<and> patchOk asInt (d ''professorId'')
               then (Inr (sel (subjectPatch now d r)),
                     t\<lparr>rows := map (\<lambda>x. if id' x = k then subjectPatch now d x else x) (rows t)\<rparr>)
               else (Inl PrismaError, t)))"

text \<open>\<open>delete({where: {id}})\<close>: the client raises when no row has the identifier.\<close>

definition deleteById ::
  "('a row_scheme) table \<Rightarrow> int option \<Rightarrow> (error + 'a row_scheme) \<times> ('a row_scheme) table" where
  "deleteById t n =
     (case whereId n of
        None \<Rightarrow> (Inl PrismaError, t)
      | Some k \<Rightarrow>
          (case find (\<lambda>r. id' r = k) (rows t) of
             None \<Rightarrow> (Inl PrismaError, t)
           | Some r \<Rightarrow> (Inr r, t\<lparr>rows := filter (\<lambda>x. id' x \<noteq> k) (rows t)\<rparr>)))"

section \<open>The question service\<close>

text \<open>
  Each exported function is translated with its statements in the order of the source.
  A function that writes takes the table and returns the new table beside its outcome;
  an outcome is \<open>Inl\<close> of the error thrown or \<open>Inr\<close> of the value returned.
\<close>

text \<open>\<open>a ?? b\<close>\<close>

definition nullish :: "jsval \<Rightarrow> jsval \<Rightarrow> jsval" where
  "nullish a b = (if a = JUndefined \<or> a = JNull then b else a)"

definition getAllQuestions :: "question table \<Rightarrow> obj list" where
  "getAllQuestions t =
     findMany t
       (select questionCol [''id'', ''enunciado'', ''dificuldade'', ''respostaCorreta'', ''disciplinaId'',
            ''autorId'', ''ativa'', ''createdAt'', ''updatedAt''])
       createdAt Desc"

definition getQuestionById :: "question table \<Rightarrow> jsval \<Rightarrow> error + obj option" where
  "getQuestionById t questionId =
     (if \<not> truthy questionId \<or> isNaN questionId \<or> leNum questionId 0 then Inl IdInvalido
      else findUniqueById t (parseInt questionId)
             (select questionCol [''id'', ''enunciado'', ''dificuldade'', ''respostaCorreta'', ''disciplinaId'',
            ''autorId'', ''ativa'', ''createdAt'', ''updatedAt'']))"

definition enunciadoExists :: "question table \<Rightarrow> jsval \<Rightarrow> error + bool" where
  "enunciadoExists t enunciado' =
     (case findUniqueByEnunciado t enunciado' of
        Inl e \<Rightarrow> Inl e
      | Inr questao \<Rightarrow> Inr (questao \<noteq> None))"

definition validateQuestionData :: "jsobj \<Rightarrow> error + unit" where
  "validateQuestionData questionData =
     (if \<not> truthy (questionData ''enunciado'') \<or> \<not> truthy (questionData ''dificuldade'')
         \<or> \<not> truthy (questionData ''respostaCorreta'') \<or> \<not> truthy (questionData ''disciplinaId'')
         \<or> \<not> truthy (questionData ''autorId'')
      then Inl CamposObrigatorios
      else if ltNum (questionData ''dificuldade'') 1 \<or> gtNum (questionData ''dificuldade'') 5
      then Inl DificuldadeForaDoIntervalo
      else Inr ())"

definition createQuestion ::
  "nat \<Rightarrow> question table \<Rightarrow> jsobj \<Rightarrow> (error + obj) \<times> question table" where
  "createQuestion now t questionData =
     (case validateQuestionData questionData of
        Inl e \<Rightarrow> (Inl e, t)
      | Inr _ \<Rightarrow>
          (case enunciadoExists t (questionData ''enunciado'') of
             Inl e \<Rightarrow> (Inl e, t)
           | Inr enunciadoJaExiste \<Rightarrow>
               if enunciadoJaExiste then (Inl EnunciadoJaCadastrado, t)
               else questionCreate now t
                      (emptyObj
                         (''enunciado'' := questionData ''enunciado'',
                          ''dificuldade'' := questionData ''dificuldade'',
                          ''respostaCorreta'' := questionData ''respostaCorreta'',
                          ''disciplinaId'' := questionData ''disciplinaId'',
                          ''autorId'' := questionData ''autorId'',
                          ''ativa'' := nullish (questionData ''ativa'') (JBool True)))
                      (select questionCol [''id'', ''enunciado'', ''dificuldade'', ''respostaCorreta'', ''disciplinaId'',
            ''autorId'', ''ativa'', ''createdAt'', ''updatedAt''])))"

text \<open>The properties copied into \<open>dadosAtualizacao\<close>.\<close>

definition questionDadosAtualizacao :: "jsobj \<Rightarrow> jsobj" where
  "questionDadosAtualizacao questionData =
     (let d0 = emptyObj;
          d1 = (if truthy (questionData ''enunciado'')
                then d0(''enunciado'' := questionData ''enunciado'') else d0);
          d2 = (if truthy (questionData ''dificuldade'')
                then d1(''dificuldade'' := questionData ''dificuldade'') else d1);
          d3 = (if truthy (questionData ''respostaCorreta'')
                then d2(''respostaCorreta'' := questionData ''respostaCorreta'') else d2);
          d4 = (if truthy (questionData ''disciplinaId'')
                then d3(''disciplinaId'' := questionData ''disciplinaId'') else d3);
          d5 = (if truthy (questionData ''autorId'')
                then d4(''autorId'' := questionData ''autorId'') else d4);
          d6 = (if questionData ''ativa'' \<noteq> JUndefined
                then d5(''ativa'' := questionData ''ativa'') else d5)
      in d6)"

definition updateQuestion ::
  "nat \<Rightarrow> question table \<Rightarrow> jsval \<Rightarrow> jsobj \<Rightarrow> (error + obj) \<times> question table" where
  "updateQuestion now t questionId questionData =
     (if \<not> truthy questionId \<or> isNaN questionId \<or> leNum questionId 0 then (Inl IdInvalido, t)
      else
        case findUniqueById t (parseInt questionId) (\<lambda>r. r) of
          Inl e \<Rightarrow> (Inl e, t)
        | Inr None \<Rightarrow> (Inl QuestaoNaoEncontrada, t)
        | Inr (Some questaoExistente) \<Rightarrow>
            (case (if truthy (questionData ''enunciado'')
                      \<and> questionData ''enunciado'' \<noteq> JStr (enunciado questaoExistente)
                   then (case enunciadoExists t (questionData ''enunciado'') of
                           Inl e \<Rightarrow> Inl e
                         | Inr enunciadoJaExiste \<Rightarrow>
                             if enunciadoJaExiste then Inl EnunciadoEmUso else Inr ())
                   else Inr ()) of
               Inl e \<Rightarrow> (Inl e, t)
             | Inr _ \<Rightarrow>
                 if truthy (questionData ''dificuldade'')
                    \<and> (ltNum (questionData ''dificuldade'') 1 \<or> gtNum (questionData ''dificuldade'') 5)
                 then (Inl DificuldadeForaDoIntervalo, t)
                 else questionUpdate now t (parseInt questionId)
                        (questionDadosAtualizacao questionData)
                        (select questionCol [''id'', ''enunciado'', ''dificuldade'', ''respostaCorreta'', ''disciplinaId'',
            ''autorId'', ''ativa'', ''createdAt'', ''updatedAt''])))"

definition deleteQuestion :: "question table \<Rightarrow> jsval \<Rightarrow> (error + obj) \<times> question table" where
  "deleteQuestion t questionId =
     (if \<not> truthy questionId \<or> isNaN questionId \<or> leNum questionId 0 then (Inl IdInvalido, t)
      else
        case findUniqueById t (parseInt questionId)
               (select questionCol
                  [''id'', ''enunciado'', ''dificuldade'', ''respostaCorreta'', ''disciplinaId'',
                   ''autorId'']) of
          Inl e \<Rightarrow> (Inl e, t)
        | Inr None \<Rightarrow> (Inl QuestaoNaoEncontrada, t)
        | Inr (Some questaoExistente) \<Rightarrow>
            (case deleteById t (parseInt questionId) of
               (Inl e, t') \<Rightarrow> (Inl e, t')
             | (Inr _, t') \<Rightarrow> (Inr questaoExistente, t')))"

section \<open>The subject service\<close>

definition getAllSubjects :: "subject table \<Rightarrow> obj list" where
  "getAllSubjects t =
     findMany t
       (select subjectCol [''id'', ''nome'', ''ativa'', ''professorId'', ''createdAt'', ''updatedAt''])
       createdAt Desc"

definition getSubjectById :: "subject table \<Rightarrow> jsval \<Rightarrow> error + obj option" where
  "getSubjectById t subjectId =
     (if \<not> truthy subjectId \<or> isNaN subjectId \<or> leNum subjectId 0 then Inl IdInvalido
      else findUniqueById t (parseInt subjectId)
             (select subjectCol [''id'', ''nome'', ''ativa'', ''professorId'', ''createdAt'', ''updatedAt'']))"

definition nomeExists :: "subject table \<Rightarrow> jsval \<Rightarrow> error + bool" where
  "nomeExists t nome' =
     (case findUniqueByNome t nome' of
        Inl e \<Rightarrow> Inl e
      | Inr disciplina \<Rightarrow> Inr (disciplina \<noteq> None))"

definition validateSubjectData :: "jsobj \<Rightarrow> error + unit" where
  "validateSubjectData subjectData =
     (if \<not> truthy (subjectData ''nome'') \<or> \<not> truthy (subjectData ''professorId'')
      then Inl NomeEProfessorObrigatorios
      else Inr ())"

definition createSubject ::
  "nat \<Rightarrow> subject table \<Rightarrow> jsobj \<Rightarrow> (error + obj) \<times> subject table" where
  "createSubject now t subjectData =
     (case validateSubjectData subjectData of
        Inl e \<Rightarrow> (Inl e, t)
      | Inr _ \<Rightarrow>
          (case nomeExists t (subjectData ''nome'') of
             Inl e \<Rightarrow> (Inl e, t)
           | Inr nomeJaExiste \<Rightarrow>
               if nomeJaExiste then (Inl NomeJaCadastrado, t)
               else subjectCreate now t
                      (emptyObj
                         (''nome'' := subjectData ''nome'',
                          ''ativa'' := nullish (subjectData ''ativa'') (JBool True),
                          ''professorId'' := subjectData ''professorId''))
                      (select subjectCol [''id'', ''nome'', ''ativa'', ''professorId'', ''createdAt'', ''updatedAt''])))"

definition subjectDadosAtualizacao :: "jsobj \<Rightarrow> jsobj" where
  "subjectDadosAtualizacao subjectData =
     (let d0 = emptyObj;
          d1 = (if truthy (subjectData ''nome'')
                then d0(''nome'' := subjectData ''nome'') else d0);
          d2 = (if subjectData ''ativa'' \<noteq> JUndefined
                then d1(''ativa'' := subjectData ''ativa'') else d1);
          d3 = (if truthy (subjectData ''professorId'')
                then d2(''professorId'' := subjectData ''professorId'') else d2)
      in d3)"

definition updateSubject ::
  "nat \<Rightarrow> subject table \<Rightarrow> jsval \<Rightarrow> jsobj \<Rightarrow> (error + obj) \<times> subject table" where
  "updateSubject now t subjectId subjectData =
     (if \<not> truthy subjectId \<or> isNaN subjectId \<or> leNum subjectId 0 then (Inl IdInvalido, t)
      else
        case findUniqueById t (parseInt subjectId) (\<lambda>r. r) of
          Inl e \<Rightarrow> (Inl e, t)
        | Inr None \<Rightarrow> (Inl DisciplinaNaoEncontrada, t)
        | Inr (Some disciplinaExistente) \<Rightarrow>
            (case (if truthy (subjectData ''nome'')
                      \<and> subjectData ''nome'' \<noteq> JStr (nome disciplinaExistente)
                   then (case nomeExists t (subjectData ''nome'') of
                           Inl e \<Rightarrow> Inl e
                         | Inr nomeJaExiste \<Rightarrow>
                             if nomeJaExiste then Inl NomeEmUso else Inr ())
                   else Inr ()) of
               Inl e \<Rightarrow> (Inl e, t)
             | Inr _ \<Rightarrow>
                 subjectUpdate now t (parseInt subjectId)
                   (subjectDadosAtualizacao subjectData)
                   (select subjectCol [''id'', ''nome'', ''ativa'', ''professorId'', ''createdAt'', ''updatedAt''])))"

definition deleteSubject :: "subject table \<Rightarrow> jsval \<Rightarrow> (error + obj) \<times> subject table" where
  "deleteSubject t subjectId =
     (if \<not> truthy subjectId \<or> isNaN subjectId \<or> leNum subjectId 0 then (Inl IdInvalido, t)
      else
        case findUniqueById t (parseInt subjectId)
               (select subjectCol [''id'', ''nome'', ''ativa'', ''professorId'']) of
          Inl e \<Rightarrow> (Inl e, t)
        | Inr None \<Rightarrow> (Inl DisciplinaNaoEncontrada, t)
        | Inr (Some disciplinaExistente) \<Rightarrow>
            (case deleteById t (parseInt subjectId) of
               (Inl e, t') \<Rightarrow> (Inl e, t')
             | (Inr _, t') \<Rightarrow> (Inr disciplinaExistente, t')))"

section \<open>Notation for the statements\<close>

text \<open>The selection shared by the functions that list, read, create and update.\<close>

abbreviation questionFields :: "string list" where
  "questionFields \<equiv>
     [''id'', ''enunciado'', ''dificuldade'', ''respostaCorreta'', ''disciplinaId'',
      ''autorId'', ''ativa'', ''createdAt'', ''updatedAt'']"

abbreviation subjectFields :: "string list" where
  "subjectFields \<equiv> [''id'', ''nome'', ''ativa'', ''professorId'', ''createdAt'', ''updatedAt'']"

text \<open>An identifier that passes the check at the head of the functions that take one:
  its Number value is above zero.\<close>

definition positiveNumeric :: "jsval \<Rightarrow> bool" where
  "positiveNumeric v =
     (case toNumber v of NaN \<Rightarrow> False | Fin q \<Rightarrow> 0 < q | PosInf \<Rightarrow> True | NegInf \<Rightarrow> False)"

text \<open>An outcome that is an error of the given kind.\<close>

definition failsWith :: "error + 'a \<Rightarrow> errorKind \<Rightarrow> bool" where
  "failsWith r k = (case r of Inl e \<Rightarrow> kind e = k | Inr _ \<Rightarrow> False)"

section \<open>Example tables\<close>

text \<open>Two questions and one subject, on which the statements below are evaluated.\<close>

definition exQuestion1 :: question where
  "exQuestion1 = \<lparr>id' = 1, ativa = True, createdAt = 10, updatedAt = 10,
     enunciado = ''2+2=?'', dificuldade = 1, respostaCorreta = ''4'', disciplinaId = 1, autorId = 3\<rparr>"

definition exQuestion2 :: question where
  "exQuestion2 = \<lparr>id' = 3, ativa = False, createdAt = 12, updatedAt = 15,
     enunciado = ''3*3=?'', dificuldade = 2, respostaCorreta = ''9'', disciplinaId = 1, autorId = 3\<rparr>"

definition exQuestions :: "question table" where
  "exQuestions = \<lparr>rows = [exQuestion1, exQuestion2], nextId = 4\<rparr>"

definition exSubject1 :: subject where
  "exSubject1 = \<lparr>id' = 1, ativa = True, createdAt = 5, updatedAt = 5, nome = ''Algebra'', professorId = 7\<rparr>"

definition exSubjects :: "subject table" where
  "exSubjects = \<lparr>rows = [exSubject1], nextId = 2\<rparr>"

text \<open>The data of a new question and of a new subject, neither with an \<open>ativa\<close>
  property.\<close>

definition exQuestionData :: jsobj where
  "exQuestionData = emptyObj
     (''enunciado'' := JStr ''5-3=?'', ''dificuldade'' := JNum (Fin 2),
      ''respostaCorreta'' := JStr ''2'', ''disciplinaId'' := JNum (Fin 1),
      ''autorId'' := JNum (Fin 3))"

definition exSubjectData :: jsobj where
  "exSubjectData = emptyObj(''nome'' := JStr ''Geometry'', ''professorId'' := JNum (Fin 7))"

lemmas ex_defs = exQuestion1_def exQuestion2_def exQuestions_def exSubject1_def exSubjects_def

lemmas js_eval = isNaN_def leNum_def ltNum_def gtNum_def parseIntNum_def plainNotation_def
  positiveNumeric_def

lemmas str_eval = stringToNumber_def trim_def trimStart_def isWhiteSpace_def
  nonDecimalIntegerLiteral_def strUnsignedDecimalLiteral_def exponentPart_def scale10_def
  negate_def isDigit_def digitVal_def digitsVal_def allDigits_def parseIntStr_def

lemmas create_eval = createQuestion_def createSubject_def validateQuestionData_def
  validateSubjectData_def enunciadoExists_def nomeExists_def findUniqueByEnunciado_def
  findUniqueByNome_def questionCreate_def subjectCreate_def asString_def asInt_def asBool_def
  fitsInt64_def   nullish_def emptyObj_def exQuestionData_def exSubjectData_def

lemmas store_eval = findUniqueById_def whereId_def fitsInt64_def select_def questionCol_def
  subjectCol_def rowCol_def deleteById_def

section \<open>The check of the identifier\<close>

lemma stringToNumber_Nil: "stringToNumber [] = Fin 0"
  by (simp add: stringToNumber_def trim_def)

lemma guard_num:
  "(\<not> truthy (JNum x) \<or> isNaN (JNum x) \<or> leNum (JNum x) 0) = (\<not> positiveNumeric (JNum x))"
  by (cases x) (auto simp: isNaN_def leNum_def positiveNumeric_def)

lemma guard_str:
  "(\<not> truthy (JStr s) \<or> isNaN (JStr s) \<or> leNum (JStr s) 0) = (\<not> positiveNumeric (JStr s))"
proof (cases "s = []")
  case True
  then show ?thesis
    by (simp add: isNaN_def leNum_def positiveNumeric_def stringToNumber_Nil)
next
  case False
  then show ?thesis
    by (cases "stringToNumber s") (auto simp: isNaN_def leNum_def positiveNumeric_def)
qed

lemma guard_iff: "(\<not> truthy v \<or> isNaN v \<or> leNum v 0) = (\<not> positiveNumeric v)"
proof (cases v)
  case (JNum x)
  then show ?thesis by (simp only: guard_num)
next
  case (JStr s)
  then show ?thesis by (simp only: guard_str)
qed (simp_all add: isNaN_def leNum_def positiveNumeric_def)

text \<open>A natural number below \<open>2\<^sup>5\<^sup>3\<close> is a value of the binary64 format.\<close>

lemma bitLength_le: "n < 2 ^ k \<Longrightarrow> bitLength n \<le> k"
proof (induction k arbitrary: n)
  case 0
  then show ?case by (simp add: bitLength.simps)
next
  case (Suc k)
  show ?case
  proof (cases "n = 0")
    case True
    then show ?thesis by (simp add: bitLength.simps)
  next
    case False
    from Suc.prems have "n div 2 < 2 ^ k" by simp
    then have "bitLength (n div 2) \<le> k" by (rule Suc.IH)
    with False show ?thesis by (subst bitLength.simps) simp
  qed
qed

lemma roundHalfEven_of_int: "roundHalfEven (of_int k) = k"
  by (simp add: roundHalfEven_def)

lemma roundPositive_of_nat:
  assumes "0 < n" "n < 2 ^ 53"
  shows "roundPositive (of_nat n) = Fin (of_nat n)"
proof -
  define e where "e = max (ilog2 (of_nat n)) (- 1022)"
  define j where "j = nat (52 - e)"
  have "bitLength n \<le> 53" using assms(2) by (rule bitLength_le)
  moreover have "ilog2 (of_nat n) = int (bitLength n) - 1"
    using assms(1) by (simp add: ilog2_def)
  ultimately have "e \<le> 52" by (simp add: e_def)
  then have ulp: "pow2 (e - 52) = 1 / 2 ^ j"
    by (simp add: pow2_def j_def)
  have "(of_nat n :: rat) / (1 / 2 ^ j) = of_int (int n * 2 ^ j)" by simp
  then have r: "roundHalfEven (of_nat n / (1 / 2 ^ j)) = int n * 2 ^ j"
    by (simp only: roundHalfEven_of_int)
  have y: "(of_int (int n * 2 ^ j) :: rat) * (1 / 2 ^ j) = of_nat n" by simp
  have "(of_nat n :: rat) < of_nat (2 ^ 53)" using assms(2) by (simp only: of_nat_less_iff)
  also have "\<dots> \<le> 2 ^ 1024" by simp
  finally have "\<not> pow2 1024 \<le> (of_nat n :: rat)" by (simp add: pow2_def)
  then show ?thesis
    unfolding roundPositive_def Let_def e_def [symmetric] ulp r y by simp
qed

lemma toDouble_of_nat:
  assumes "n < 2 ^ 53"
  shows "toDouble (of_nat n) = Fin (of_nat n)"
proof (cases "n = 0")
  case True
  then show ?thesis by (simp add: toDouble_def)
next
  case False
  then have "0 < n" by simp
  from roundPositive_of_nat [OF this assms] False show ?thesis
    by (simp add: toDouble_def)
qed

lemma toDouble_numeral:
  "numeral k < (2 ^ 53 :: nat) \<Longrightarrow> toDouble (numeral k) = Fin (numeral k)"
  using toDouble_of_nat [of "numeral k"] by simp

lemma floor_rat_numeral_div:
  "\<lfloor>numeral a / numeral b :: rat\<rfloor> = numeral a div numeral b"
  by (metis floor_divide_of_int_eq of_int_numeral)

lemma toDouble_0: "toDouble 0 = Fin 0"
  by (simp add: toDouble_def)

lemma toDouble_1: "toDouble 1 = Fin 1"
  using toDouble_of_nat [of 1] by simp

lemmas toDouble_eval = toDouble_numeral toDouble_0 toDouble_1

text \<open>From \<open>10\<^sup>-\<^sup>6\<close> up to \<open>10\<^sup>2\<^sup>1\<close>, \<open>parseInt\<close> of a Number is its integer part.\<close>

lemma parseInt_floor:
  fixes q :: rat
  assumes "1 / 10 ^ 6 \<le> q" "q < 10 ^ 21"
  shows "parseInt (JNum (Fin q)) = Some \<lfloor>q\<rfloor>"
proof -
  have "(0::rat) < 1 / 10 ^ 6" by simp
  from this assms(1) have "0 < q" by (rule less_le_trans)
  then have "\<bar>q\<bar> = q" "q \<noteq> 0" "\<not> q < 0" by simp_all
  then show ?thesis
    using assms
    by (simp only: parseInt.simps parseIntNum_def plainNotation_def jsnum.case if_False if_True
        simp_thms mult_1)
qed

lemma parseInt_of_int:
  assumes "0 < n" "n < 10 ^ 21"
  shows "parseInt (JNum (Fin (of_int n))) = Some n"
proof -
  have "(1::rat) / 10 ^ 6 \<le> 1" by simp
  also have "\<dots> \<le> of_int n" using assms(1) by simp
  finally have a: "(1::rat) / 10 ^ 6 \<le> of_int n" .
  have "(of_int n :: rat) < of_int (10 ^ 21)" using assms(2) by (simp only: of_int_less_iff)
  then have b: "(of_int n :: rat) < 10 ^ 21" by simp
  from parseInt_floor [OF a b] show ?thesis by simp
qed

text \<open>Outside that range \<open>parseInt\<close> of a Number reads the first digit of the exponent
  notation: \<open>parseInt(1e21)\<close> is 1.\<close>

lemma toDouble_1e21:
  "toDouble 1000000000000000000000 = Fin 1000000000000000000000"
  "toDouble 2000000000000000000000 = Fin 2000000000000000000000"
proof -
  have "bitLength 1000000000000000000000 = 70" "bitLength 2000000000000000000000 = 71"
    by (simp_all add: bitLength.simps)
  then have "ilog2 1000000000000000000000 = 69" "ilog2 2000000000000000000000 = 70"
    by (simp_all add: ilog2_def)
  then show "toDouble 1000000000000000000000 = Fin 1000000000000000000000"
    "toDouble 2000000000000000000000 = Fin 2000000000000000000000"
    by (simp_all add: toDouble_def roundPositive_def pow2_def Let_def roundHalfEven_def
          floor_rat_numeral_div)
qed

lemma firstSignificant_1e21: "firstSignificant 1000000000000000000000 = 1"
proof -
  have s: "(17::nat) = Suc 16" by simp
  show ?thesis
    unfolding firstSignificant_def s shortestDigits.simps(2)
    by (simp add: decimalExponent_def numDigits.simps Let_def scale10_def toDouble_1e21
          leadingDigit.simps)
qed

lemma parseInt_1e21: "parseInt (JNum (Fin (10 ^ 21))) = Some 1"
  by (simp add: parseIntNum_def plainNotation_def firstSignificant_1e21)

text \<open>A string that spells a positive number below half of the least positive value of
  the format is zero as a Number.\<close>

lemma toDouble_1e_324: "toDouble (1 / 10 ^ 324) = Fin 0"
proof -
  have c: "nat \<lceil>1 / (1 / 10 ^ 324 :: rat)\<rceil> - 1 = 10 ^ 324 - 1" by simp
  have "bitLength (10 ^ 324 - 1) = 1077" by (simp add: bitLength.simps)
  then have "ilog2 (1 / 10 ^ 324) = - 1077" unfolding ilog2_def c by simp
  then show ?thesis
    by (simp add: toDouble_def roundPositive_def pow2_def Let_def roundHalfEven_def
          floor_rat_numeral_div)
qed

lemma toNumber_1e_324: "toNumber (JStr ''1e-324'') = Fin 0"
proof -
  have "toNumber (JStr ''1e-324'') = toDouble (scale10 1 (- 324))"
    by (simp add: stringToNumber_def trim_def isWhiteSpace_def nonDecimalIntegerLiteral_def
          strUnsignedDecimalLiteral_def exponentPart_def isDigit_def digitVal_def digitsVal_def
          allDigits_def)
  also have "scale10 1 (- 324) = 1 / 10 ^ 324" by (simp add: scale10_def)
  finally show ?thesis by (simp only: toDouble_1e_324)
qed

text \<open>A string of decimal digits converts to the Number nearest to the number it
  spells, by \<open>ToNumber\<close> and by \<open>parseInt\<close> alike, which is that number when it is below
  \<open>2\<^sup>5\<^sup>3\<close>.\<close>

lemma isDigit10_char:
  assumes "isDigit 10 c"
  shows "\<not> isWhiteSpace c" "c \<noteq> CHR ''+''" "c \<noteq> CHR ''-''" "c \<noteq> CHR ''I''"
    "c \<noteq> CHR ''x''" "c \<noteq> CHR ''X''" "c \<noteq> CHR ''o''" "c \<noteq> CHR ''O''"
    "c \<noteq> CHR ''b''" "c \<noteq> CHR ''B''"
  using assms
  by (auto simp: isDigit_def digitVal_def isWhiteSpace_def Let_def split: if_splits)

lemma allDigits_Cons: "allDigits 10 s \<Longrightarrow> \<exists>c t. s = c # t \<and> isDigit 10 c \<and> list_all (isDigit 10) t"
  by (cases s) (auto simp: allDigits_def)

lemma allDigits_take: "allDigits 10 s \<Longrightarrow> takeWhile (isDigit 10) s = s \<and> dropWhile (isDigit 10) s = []"
  by (auto simp: allDigits_def list_all_iff takeWhile_eq_all_conv)

lemma allDigits_trim:
  assumes "allDigits 10 s"
  shows "trim s = s" "trimStart s = s"
proof -
  from assms obtain c t where s: "s = c # t" "isDigit 10 c" "list_all (isDigit 10) t"
    using allDigits_Cons by blast
  then have 1: "dropWhile isWhiteSpace s = s" by (simp add: isDigit10_char)
  have ne: "s \<noteq> []" using s(1) by simp
  have "isDigit 10 (last s)" using assms by (auto simp: allDigits_def list_all_iff)
  moreover have "hd (rev s) = last s" using ne by (simp add: hd_rev)
  ultimately have "\<not> isWhiteSpace (hd (rev s))" by (simp add: isDigit10_char)
  moreover have "rev s \<noteq> []" using ne by simp
  ultimately have "dropWhile isWhiteSpace (rev s) = rev s"
    by (cases "rev s") simp_all
  with 1 show "trim s = s" by (simp add: trim_def)
  from 1 show "trimStart s = s" by (simp add: trimStart_def)
qed

lemma digit_string_toNumber_round:
  assumes "allDigits 10 s"
  shows "toNumber (JStr s) = toDouble (of_nat (digitsVal 10 s))"
proof -
  from assms obtain c t where s: "s = c # t" "isDigit 10 c" "list_all (isDigit 10) t"
    using allDigits_Cons by blast
  have nd: "nonDecimalIntegerLiteral s = None"
  proof (cases t)
    case Nil
    with s show ?thesis by (simp add: nonDecimalIntegerLiteral_def)
  next
    case (Cons b ds)
    with s have "isDigit 10 b" by simp
    with Cons s show ?thesis by (simp add: nonDecimalIntegerLiteral_def isDigit10_char)
  qed
  have ninf: "s \<noteq> ''Infinity''" using s by (auto simp: isDigit10_char)
  have tk: "takeWhile (isDigit 10) s = s" and dr: "dropWhile (isDigit 10) s = []"
    using allDigits_take [OF assms] by simp_all
  have ne: "s \<noteq> []" using s by simp
  have "strUnsignedDecimalLiteral s = toDouble (of_nat (digitsVal 10 s))"
    unfolding strUnsignedDecimalLiteral_def Let_def tk dr
    using ninf ne by (simp add: exponentPart_def scale10_def digitsVal_def)
  then show ?thesis
    using s nd allDigits_trim(1) [OF assms]
    by (simp add: stringToNumber_def isDigit10_char)
qed

lemma digit_string_toNumber:
  assumes "allDigits 10 s" "digitsVal 10 s < 2 ^ 53"
  shows "toNumber (JStr s) = Fin (of_nat (digitsVal 10 s))"
  using digit_string_toNumber_round [OF assms(1)] toDouble_of_nat [OF assms(2)] by simp

lemma digit_string_parseInt_round:
  assumes "allDigits 10 s"
  shows "parseInt (JStr s) =
    (case toDouble (of_nat (digitsVal 10 s)) of Fin q \<Rightarrow> Some \<lfloor>q\<rfloor> | _ \<Rightarrow> None)"
proof -
  from assms obtain c t where s: "s = c # t" "isDigit 10 c" "list_all (isDigit 10) t"
    using allDigits_Cons by blast
  have hex: "(case s of a # b # _ \<Rightarrow> a = CHR ''0'' \<and> (b = CHR ''x'' \<or> b = CHR ''X'') | _ \<Rightarrow> False) = False"
  proof (cases t)
    case Nil
    with s show ?thesis by simp
  next
    case (Cons b ds)
    with s have "isDigit 10 b" by simp
    with Cons s show ?thesis by (simp add: isDigit10_char)
  qed
  have tk: "takeWhile (isDigit 10) s = s"
    using allDigits_take [OF assms] by simp
  have sg: "(case s of [] \<Rightarrow> False | c # _ \<Rightarrow> c = CHR ''-'') = False"
    "(case s of [] \<Rightarrow> [] | c # t \<Rightarrow> if c = CHR ''-'' \<or> c = CHR ''+'' then t else s) = s"
    using s by (simp_all add: isDigit10_char)
  have ne: "s \<noteq> []" using s by simp
  show ?thesis
    unfolding parseInt.simps parseIntStr_def Let_def allDigits_trim(2) [OF assms] sg hex
      if_False tk
    using ne by (simp split: jsnum.split)
qed

lemma digit_string_parseInt:
  assumes "allDigits 10 s" "digitsVal 10 s < 2 ^ 53"
  shows "parseInt (JStr s) = Some (int (digitsVal 10 s))"
  using digit_string_parseInt_round [OF assms(1)] toDouble_of_nat [OF assms(2)] by simp

section \<open>Reading and deleting by identifier\<close>

lemma whereId_Some_iff: "whereId x = Some n \<longleftrightarrow> x = Some n \<and> fitsInt64 n"
  by (auto simp: whereId_def split: option.splits if_splits)

lemma whereId_None_iff: "whereId x = None \<longleftrightarrow> x = None \<or> (\<exists>k. x = Some k \<and> \<not> fitsInt64 k)"
  by (auto simp: whereId_def split: option.splits if_splits)

lemma whereId_Some: "fitsInt64 n \<Longrightarrow> whereId (Some n) = Some n"
  by (simp add: whereId_def)

lemma fitsInt64_safe: "0 \<le> n \<Longrightarrow> n < 2 ^ 53 \<Longrightarrow> fitsInt64 n"
  by (simp add: fitsInt64_def)

lemma whereId_parseInt_of_int:
  assumes "0 < n" "n < 2 ^ 53"
  shows "whereId (parseInt (JNum (Fin (of_int n)))) = Some n"
proof -
  have "n < 10 ^ 21" using assms(2) by simp
  with assms(1) have "parseInt (JNum (Fin (of_int n))) = Some n" by (rule parseInt_of_int)
  moreover have "fitsInt64 n" using assms by (simp add: fitsInt64_safe)
  ultimately show ?thesis by (simp only: whereId_Some)
qed

lemma whereId_parseInt_digits:
  assumes "allDigits 10 s" "digitsVal 10 s < 2 ^ 53"
  shows "whereId (parseInt (JStr s)) = Some (int (digitsVal 10 s))"
proof -
  have "int (digitsVal 10 s) < int (2 ^ 53)" using assms(2) by (simp only: of_nat_less_iff)
  then have "fitsInt64 (int (digitsVal 10 s))" by (simp add: fitsInt64_safe)
  with digit_string_parseInt [OF assms] show ?thesis by (simp only: whereId_Some)
qed

lemma getQuestionById_alt:
  "getQuestionById t v =
     (if positiveNumeric v
      then findUniqueById t (parseInt v) (select questionCol questionFields)
      else Inl IdInvalido)"
  unfolding getQuestionById_def guard_iff by simp

lemma getSubjectById_alt:
  "getSubjectById t v =
     (if positiveNumeric v
      then findUniqueById t (parseInt v) (select subjectCol subjectFields)
      else Inl IdInvalido)"
  unfolding getSubjectById_def guard_iff by simp

lemma getQuestionById_found:
  assumes "positiveNumeric v" "whereId (parseInt v) = Some n" "find (\<lambda>r. id' r = n) (rows t) = Some r"
  shows "getQuestionById t v = Inr (Some (select questionCol questionFields r))"
  using assms by (simp add: getQuestionById_alt findUniqueById_def)

lemma getQuestionById_absent:
  assumes "positiveNumeric v" "whereId (parseInt v) = Some n" "find (\<lambda>r. id' r = n) (rows t) = None"
  shows "getQuestionById t v = Inr None"
  using assms by (simp add: getQuestionById_alt findUniqueById_def)

lemma getSubjectById_found:
  assumes "positiveNumeric v" "whereId (parseInt v) = Some n" "find (\<lambda>r. id' r = n) (rows t) = Some r"
  shows "getSubjectById t v = Inr (Some (select subjectCol subjectFields r))"
  using assms by (simp add: getSubjectById_alt findUniqueById_def)

lemma getSubjectById_absent:
  assumes "positiveNumeric v" "whereId (parseInt v) = Some n" "find (\<lambda>r. id' r = n) (rows t) = None"
  shows "getSubjectById t v = Inr None"
  using assms by (simp add: getSubjectById_alt findUniqueById_def)

lemma getQuestionById_Some_iff:
  "getQuestionById t v = Inr (Some ob) \<longleftrightarrow>
     positiveNumeric v \<and>
     (\<exists>n r. whereId (parseInt v) = Some n \<and> find (\<lambda>r. id' r = n) (rows t) = Some r
            \<and> ob = select questionCol questionFields r)"
  by (auto simp: getQuestionById_alt findUniqueById_def split: option.splits)

lemma getQuestionById_None_iff:
  "getQuestionById t v = Inr None \<longleftrightarrow>
     positiveNumeric v \<and> (\<exists>n. whereId (parseInt v) = Some n \<and> find (\<lambda>r. id' r = n) (rows t) = None)"
  by (auto simp: getQuestionById_alt findUniqueById_def split: option.splits)

lemma getSubjectById_Some_iff:
  "getSubjectById t v = Inr (Some ob) \<longleftrightarrow>
     positiveNumeric v \<and>
     (\<exists>n r. whereId (parseInt v) = Some n \<and> find (\<lambda>r. id' r = n) (rows t) = Some r
            \<and> ob = select subjectCol subjectFields r)"
  by (auto simp: getSubjectById_alt findUniqueById_def split: option.splits)

lemma getSubjectById_None_iff:
  "getSubjectById t v = Inr None \<longleftrightarrow>
     positiveNumeric v \<and> (\<exists>n. whereId (parseInt v) = Some n \<and> find (\<lambda>r. id' r = n) (rows t) = None)"
  by (auto simp: getSubjectById_alt findUniqueById_def split: option.splits)

lemma find_filter_None: "find (\<lambda>r. id' r = n) (filter (\<lambda>x. id' x \<noteq> n) xs) = None"
  by (simp add: find_None_iff)

lemma deleteQuestion_cases:
  "deleteQuestion t v =
     (if \<not> positiveNumeric v then (Inl IdInvalido, t)
      else case whereId (parseInt v) of
        None \<Rightarrow> (Inl PrismaError, t)
      | Some n \<Rightarrow>
          (case find (\<lambda>r. id' r = n) (rows t) of
             None \<Rightarrow> (Inl QuestaoNaoEncontrada, t)
           | Some r \<Rightarrow>
               (Inr (select questionCol
                       [''id'', ''enunciado'', ''dificuldade'', ''respostaCorreta'',
                        ''disciplinaId'', ''autorId''] r),
                t\<lparr>rows := filter (\<lambda>x. id' x \<noteq> n) (rows t)\<rparr>)))"
  unfolding deleteQuestion_def guard_iff
  by (simp add: findUniqueById_def deleteById_def split: option.splits)

lemma deleteSubject_cases:
  "deleteSubject t v =
     (if \<not> positiveNumeric v then (Inl IdInvalido, t)
      else case whereId (parseInt v) of
        None \<Rightarrow> (Inl PrismaError, t)
      | Some n \<Rightarrow>
          (case find (\<lambda>r. id' r = n) (rows t) of
             None \<Rightarrow> (Inl DisciplinaNaoEncontrada, t)
           | Some r \<Rightarrow>
               (Inr (select subjectCol [''id'', ''nome'', ''ativa'', ''professorId''] r),
                t\<lparr>rows := filter (\<lambda>x. id' x \<noteq> n) (rows t)\<rparr>)))"
  unfolding deleteSubject_def guard_iff
  by (simp add: findUniqueById_def deleteById_def split: option.splits)

lemma select_question_restrict:
  "filter (\<lambda>p. fst p \<in> set [''id'', ''enunciado'', ''dificuldade'', ''respostaCorreta'',
                        ''disciplinaId'', ''autorId''])
      (select questionCol questionFields r)
   = select questionCol [''id'', ''enunciado'', ''dificuldade'', ''respostaCorreta'',
                        ''disciplinaId'', ''autorId''] r"
  by (simp add: select_def questionCol_def rowCol_def)

lemma select_subject_restrict:
  "filter (\<lambda>p. fst p \<in> set [''id'', ''nome'', ''ativa'', ''professorId''])
      (select subjectCol subjectFields r)
   = select subjectCol [''id'', ''nome'', ''ativa'', ''professorId''] r"
  by (simp add: select_def subjectCol_def rowCol_def)

lemma positiveNumeric_int: "positiveNumeric (JNum (Fin (of_int n))) = (0 < n)"
  by (simp add: positiveNumeric_def)

lemma positiveNumeric_digits:
  "allDigits 10 s \<Longrightarrow> digitsVal 10 s < 2 ^ 53 \<Longrightarrow> positiveNumeric (JStr s) = (0 < digitsVal 10 s)"
  using digit_string_toNumber [of s] by (simp add: positiveNumeric_def)

lemma not_positive:
  assumes "v = JUndefined \<or> v = JNull \<or> toNumber v = NaN \<or> toNumber v = NegInf
           \<or> (\<exists>q. toNumber v = Fin q \<and> q \<le> 0)"
  shows "\<not> positiveNumeric v"
  using assms by (auto simp: positiveNumeric_def)

lemma find_absent: "(\<forall>r \<in> set xs. id' r \<noteq> n) \<Longrightarrow> find (\<lambda>r. id' r = n) xs = None"
  by (simp add: find_None_iff)

lemma getQuestionById_never_NotFound: "\<not> failsWith (getQuestionById t v) NotFound"
  by (simp add: getQuestionById_alt findUniqueById_def failsWith_def split: option.splits)

lemma getSubjectById_never_NotFound: "\<not> failsWith (getSubjectById t v) NotFound"
  by (simp add: getSubjectById_alt findUniqueById_def failsWith_def split: option.splits)

section \<open>Updating\<close>

lemma questionDados_apply:
  "questionDadosAtualizacao d f =
     (if f \<in> set [''enunciado'', ''dificuldade'', ''respostaCorreta'', ''disciplinaId'', ''autorId'']
      then (if truthy (d f) then d f else JUndefined)
      else if f = ''ativa'' then d ''ativa'' else JUndefined)"
  by (simp add: questionDadosAtualizacao_def emptyObj_def Let_def)

lemma subjectDados_apply:
  "subjectDadosAtualizacao d f =
     (if f \<in> set [''nome'', ''professorId'']
      then (if truthy (d f) then d f else JUndefined)
      else if f = ''ativa'' then d ''ativa'' else JUndefined)"
  by (simp add: subjectDadosAtualizacao_def emptyObj_def Let_def)

lemma enunciadoExists_eq:
  "enunciadoExists t x =
     (case asString x of
        None \<Rightarrow> Inl PrismaError
      | Some s \<Rightarrow> Inr (\<exists>r \<in> set (rows t). enunciado r = s))"
  by (auto simp: enunciadoExists_def findUniqueByEnunciado_def find_None_iff split: option.splits)

lemma nomeExists_eq:
  "nomeExists t x =
     (case asString x of
        None \<Rightarrow> Inl PrismaError
      | Some s \<Rightarrow> Inr (\<exists>r \<in> set (rows t). nome r = s))"
  by (auto simp: nomeExists_def findUniqueByNome_def find_None_iff split: option.splits)

lemma asString_Some_iff: "asString x = Some s \<longleftrightarrow> x = JStr s"
  by (cases x) (simp_all add: asString_def)

lemma asString_None_iff: "asString x = None \<longleftrightarrow> (\<forall>s. x \<noteq> JStr s)"
  by (cases x) (simp_all add: asString_def)

lemma updateQuestion_found:
  assumes "positiveNumeric v" "whereId (parseInt v) = Some n" "find (\<lambda>r. id' r = n) (rows t) = Some r"
  shows "updateQuestion now t v d =
     (if truthy (d ''enunciado'') \<and> d ''enunciado'' \<noteq> JStr (enunciado r)
         \<and> asString (d ''enunciado'') = None
      then (Inl PrismaError, t)
      else if truthy (d ''enunciado'') \<and> d ''enunciado'' \<noteq> JStr (enunciado r)
         \<and> (\<exists>x \<in> set (rows t). JStr (enunciado x) = d ''enunciado'')
      then (Inl EnunciadoEmUso, t)
      else if truthy (d ''dificuldade'')
         \<and> (ltNum (d ''dificuldade'') 1 \<or> gtNum (d ''dificuldade'') 5)
      then (Inl DificuldadeForaDoIntervalo, t)
      else questionUpdate now t (Some n) (questionDadosAtualizacao d)
             (select questionCol questionFields))"
proof -
  have g: "truthy v" "\<not> isNaN v" "\<not> leNum v 0"
    using assms(1) guard_iff [of v] by auto
  from assms(2) have pv: "parseInt v = Some n" and fit: "fitsInt64 n"
    by (simp_all add: whereId_Some_iff)
  have f: "findUniqueById t (Some n) (\<lambda>r. r) = Inr (Some r)"
    using assms(3) fit by (simp add: findUniqueById_def whereId_def)
  show ?thesis
  proof (cases "asString (d ''enunciado'')")
    case None
    then have "d ''enunciado'' \<noteq> JStr (enunciado r)" by (simp add: asString_None_iff)
    with None show ?thesis
      unfolding updateQuestion_def
      by (auto simp: g f pv enunciadoExists_eq)
  next
    case (Some s)
    then have "d ''enunciado'' = JStr s" by (simp add: asString_Some_iff)
    with Some show ?thesis
      unfolding updateQuestion_def
      by (auto simp: g f pv enunciadoExists_eq)
  qed
qed

lemma updateSubject_found:
  assumes "positiveNumeric v" "whereId (parseInt v) = Some n" "find (\<lambda>r. id' r = n) (rows t) = Some r"
  shows "updateSubject now t v d =
     (if truthy (d ''nome'') \<and> d ''nome'' \<noteq> JStr (nome r) \<and> asString (d ''nome'') = None
      then (Inl PrismaError, t)
      else if truthy (d ''nome'') \<and> d ''nome'' \<noteq> JStr (nome r)
         \<and> (\<exists>x \<in> set (rows t). JStr (nome x) = d ''nome'')
      then (Inl NomeEmUso, t)
      else subjectUpdate now t (Some n) (subjectDadosAtualizacao d)
             (select subjectCol subjectFields))"
proof -
  have g: "truthy v" "\<not> isNaN v" "\<not> leNum v 0"
    using assms(1) guard_iff [of v] by auto
  from assms(2) have pv: "parseInt v = Some n" and fit: "fitsInt64 n"
    by (simp_all add: whereId_Some_iff)
  have f: "findUniqueById t (Some n) (\<lambda>r. r) = Inr (Some r)"
    using assms(3) fit by (simp add: findUniqueById_def whereId_def)
  show ?thesis
  proof (cases "asString (d ''nome'')")
    case None
    then have "d ''nome'' \<noteq> JStr (nome r)" by (simp add: asString_None_iff)
    with None show ?thesis
      unfolding updateSubject_def
      by (auto simp: g f pv nomeExists_eq)
  next
    case (Some s)
    then have "d ''nome'' = JStr s" by (simp add: asString_Some_iff)
    with Some show ?thesis
      unfolding updateSubject_def
      by (auto simp: g f pv nomeExists_eq)
  qed
qed

lemma updateQuestion_not_found:
  "updateQuestion now t v d =
     (if \<not> positiveNumeric v then (Inl IdInvalido, t)
      else case whereId (parseInt v) of
        None \<Rightarrow> (Inl PrismaError, t)
      | Some n \<Rightarrow>
          (case find (\<lambda>r. id' r = n) (rows t) of
             None \<Rightarrow> (Inl QuestaoNaoEncontrada, t)
           | Some r \<Rightarrow> updateQuestion now t v d))"
proof (cases "positiveNumeric v")
  case False
  then show ?thesis unfolding updateQuestion_def guard_iff by simp
next
  case True
  then show ?thesis
    unfolding updateQuestion_def guard_iff
    by (simp add: findUniqueById_def split: option.splits)
qed

lemma updateSubject_not_found:
  "updateSubject now t v d =
     (if \<not> positiveNumeric v then (Inl IdInvalido, t)
      else case whereId (parseInt v) of
        None \<Rightarrow> (Inl PrismaError, t)
      | Some n \<Rightarrow>
          (case find (\<lambda>r. id' r = n) (rows t) of
             None \<Rightarrow> (Inl DisciplinaNaoEncontrada, t)
           | Some r \<Rightarrow> updateSubject now t v d))"
proof (cases "positiveNumeric v")
  case False
  then show ?thesis unfolding updateSubject_def guard_iff by simp
next
  case True
  then show ?thesis
    unfolding updateSubject_def guard_iff
    by (simp add: findUniqueById_def split: option.splits)
qed

section \<open>The empty patch and the active flag\<close>

lemma questionUpdate_found:
  assumes "find (\<lambda>r. id' r = n) (rows t) = Some r" "fitsInt64 n"
  shows "questionUpdate now t (Some n) p sel =
     (if patchOk asString (p ''enunciado'') \<and> patchOk asInt (p ''dificuldade'')
         \<and> patchOk asString (p ''respostaCorreta'') \<and> patchOk asInt (p ''disciplinaId'')
         \<and> patchOk asInt (p ''autorId'') \<and> patchOk asBool (p ''ativa'')
      then (Inr (sel (questionPatch now p r)),
            t\<lparr>rows := map (\<lambda>x. if id' x = n then questionPatch now p x else x) (rows t)\<rparr>)
      else (Inl PrismaError, t))"
  using assms by (simp add: questionUpdate_def whereId_def)

lemma subjectUpdate_found:
  assumes "find (\<lambda>r. id' r = n) (rows t) = Some r" "fitsInt64 n"
  shows "subjectUpdate now t (Some n) p sel =
     (if patchOk asString (p ''nome'') \<and> patchOk asBool (p ''ativa'')
         \<and> patchOk asInt (p ''professorId'')
      then (Inr (sel (subjectPatch now p r)),
            t\<lparr>rows := map (\<lambda>x. if id' x = n then subjectPatch now p x else x) (rows t)\<rparr>)
      else (Inl PrismaError, t))"
  using assms by (simp add: subjectUpdate_def whereId_def)

lemma patch_undefined [simp]:
  "patchOk conv JUndefined" "patched asString JUndefined x = x" "patched asInt JUndefined k = k"
  "patched asBool JUndefined b = b"
  by (simp_all add: patchOk_def patched_def asString_def asInt_def asBool_def)

lemma patch_bool [simp]: "patchOk asBool (JBool b)" "patched asBool (JBool b) c = b"
  by (simp_all add: patchOk_def patched_def asBool_def)

lemma questionDados_empty: "questionDadosAtualizacao emptyObj = emptyObj"
  by (rule ext) (simp add: questionDados_apply emptyObj_def)

lemma subjectDados_empty: "subjectDadosAtualizacao emptyObj = emptyObj"
  by (rule ext) (simp add: subjectDados_apply emptyObj_def)

lemma questionDados_ativa:
  "questionDadosAtualizacao (emptyObj(''ativa'' := x)) = emptyObj(''ativa'' := x)"
  by (rule ext) (simp add: questionDados_apply emptyObj_def)

lemma subjectDados_ativa:
  "subjectDadosAtualizacao (emptyObj(''ativa'' := x)) = emptyObj(''ativa'' := x)"
  by (rule ext) (simp add: subjectDados_apply emptyObj_def)

lemma questionPatch_empty: "questionPatch now emptyObj r = r"
  by (simp add: questionPatch_def noData_def emptyObj_def)

lemma subjectPatch_empty: "subjectPatch now emptyObj r = r"
  by (simp add: subjectPatch_def noData_def emptyObj_def)

lemma questionPatch_ativa:
  "questionPatch now (emptyObj(''ativa'' := JBool b)) r = r\<lparr>ativa := b, updatedAt := now\<rparr>"
  by (simp add: questionPatch_def noData_def emptyObj_def)

lemma subjectPatch_ativa:
  "subjectPatch now (emptyObj(''ativa'' := JBool b)) r = r\<lparr>ativa := b, updatedAt := now\<rparr>"
  by (simp add: subjectPatch_def noData_def emptyObj_def)

lemma updateQuestion_empty:
  assumes "positiveNumeric v" "whereId (parseInt v) = Some n" "find (\<lambda>r. id' r = n) (rows t) = Some r"
  shows "updateQuestion now t v emptyObj = (Inr (select questionCol questionFields r), t)"
proof -
  from assms(2) have fit: "fitsInt64 n" by (simp add: whereId_Some_iff)
  have "updateQuestion now t v emptyObj =
      questionUpdate now t (Some n) emptyObj (select questionCol questionFields)"
    by (simp add: updateQuestion_found [OF assms] questionDados_empty) (simp add: emptyObj_def)
  also have "\<dots> = (Inr (select questionCol questionFields r), t)"
    unfolding questionUpdate_found [OF assms(3) fit] questionPatch_empty
    by (simp add: emptyObj_def)
  finally show ?thesis .
qed

lemma updateQuestion_ativa:
  assumes "positiveNumeric v" "whereId (parseInt v) = Some n" "find (\<lambda>r. id' r = n) (rows t) = Some r"
  shows "updateQuestion now t v (emptyObj(''ativa'' := JBool b)) =
      (Inr (select questionCol questionFields (r\<lparr>ativa := b, updatedAt := now\<rparr>)),
       t\<lparr>rows := map (\<lambda>x. if id' x = n then x\<lparr>ativa := b, updatedAt := now\<rparr> else x) (rows t)\<rparr>)"
proof -
  from assms(2) have fit: "fitsInt64 n" by (simp add: whereId_Some_iff)
  have "updateQuestion now t v (emptyObj(''ativa'' := JBool b)) =
      questionUpdate now t (Some n) (emptyObj(''ativa'' := JBool b))
        (select questionCol questionFields)"
    by (simp add: updateQuestion_found [OF assms] questionDados_ativa) (simp add: emptyObj_def)
  then show ?thesis
    by (simp add: questionUpdate_found [OF assms(3) fit] questionPatch_ativa) (simp add: emptyObj_def)
qed

lemma updateSubject_empty:
  assumes "positiveNumeric v" "whereId (parseInt v) = Some n" "find (\<lambda>r. id' r = n) (rows t) = Some r"
  shows "updateSubject now t v emptyObj = (Inr (select subjectCol subjectFields r), t)"
proof -
  from assms(2) have fit: "fitsInt64 n" by (simp add: whereId_Some_iff)
  have "updateSubject now t v emptyObj =
      subjectUpdate now t (Some n) emptyObj (select subjectCol subjectFields)"
    by (simp add: updateSubject_found [OF assms] subjectDados_empty) (simp add: emptyObj_def)
  also have "\<dots> = (Inr (select subjectCol subjectFields r), t)"
    unfolding subjectUpdate_found [OF assms(3) fit] subjectPatch_empty
    by (simp add: emptyObj_def)
  finally show ?thesis .
qed

lemma updateSubject_ativa:
  assumes "positiveNumeric v" "whereId (parseInt v) = Some n" "find (\<lambda>r. id' r = n) (rows t) = Some r"
  shows "updateSubject now t v (emptyObj(''ativa'' := JBool b)) =
      (Inr (select subjectCol subjectFields (r\<lparr>ativa := b, updatedAt := now\<rparr>)),
       t\<lparr>rows := map (\<lambda>x. if id' x = n then x\<lparr>ativa := b, updatedAt := now\<rparr> else x) (rows t)\<rparr>)"
proof -
  from assms(2) have fit: "fitsInt64 n" by (simp add: whereId_Some_iff)
  have "updateSubject now t v (emptyObj(''ativa'' := JBool b)) =
      subjectUpdate now t (Some n) (emptyObj(''ativa'' := JBool b))
        (select subjectCol subjectFields)"
    by (simp add: updateSubject_found [OF assms] subjectDados_ativa) (simp add: emptyObj_def)
  then show ?thesis
    by (simp add: subjectUpdate_found [OF assms(3) fit] subjectPatch_ativa) (simp add: emptyObj_def)
qed

text \<open>
  Claim C2 does not hold as it is written: on the question 1 of the example, written at
  time 10 and active, the update with the empty object at time 20 stores the row as it
  was, and the update with \<open>{ativa: false}\<close> stores it with \<open>ativa\<close> false and \<open>updatedAt\<close>
  20. The two differ in two columns.
\<close>

theorem update_active_false_differs_in_two_columns:
  "rows (snd (updateQuestion 20 exQuestions (JNum (Fin 1)) emptyObj))
     = [exQuestion1, exQuestion2]
   \<and> rows (snd (updateQuestion 20 exQuestions (JNum (Fin 1)) (emptyObj(''ativa'' := JBool False))))
     = [exQuestion1\<lparr>ativa := False, updatedAt := 20\<rparr>, exQuestion2]
   \<and> ativa exQuestion1 = True \<and> updatedAt exQuestion1 = 10"
proof -
  have pos: "positiveNumeric (JNum (Fin 1))" by (simp add: positiveNumeric_def)
  have w: "whereId (parseInt (JNum (Fin 1))) = Some 1"
    using whereId_parseInt_of_int [of 1] by simp
  have f: "find (\<lambda>x. id' x = 1) (rows exQuestions) = Some exQuestion1" by (simp add: ex_defs)
  show ?thesis
    unfolding updateQuestion_empty [OF pos w f] updateQuestion_ativa [OF pos w f]
    by (simp add: ex_defs)
qed

text \<open>
  Claim C2, amended. For the identifier of an existing record, \<open>update\<close> with the empty
  object writes nothing: it returns the record as the read does and leaves the table as
  it was, \<open>updatedAt\<close> included. \<open>update\<close> with \<open>{ativa: false}\<close> returns and stores the
  record with \<open>ativa\<close> false and \<open>updatedAt\<close> set to the time of the write, every other
  column as it was, and leaves every other row alone. The two therefore differ in
  \<open>updatedAt\<close> too, and not in \<open>ativa\<close> alone.
\<close>

theorem update_empty_patch_and_active_false:
  "(getQuestionById t v = Inr (Some ob) \<longrightarrow>
      (\<exists>n r. parseInt v = Some n \<and> find (\<lambda>x. id' x = n) (rows t) = Some r
         \<and> ob = select questionCol questionFields r
         \<and> updateQuestion now t v emptyObj = (Inr ob, t)
         \<and> updateQuestion now t v (emptyObj(''ativa'' := JBool False)) =
             (Inr (select questionCol questionFields (r\<lparr>ativa := False, updatedAt := now\<rparr>)),
              t\<lparr>rows := map (\<lambda>x. if id' x = n then x\<lparr>ativa := False, updatedAt := now\<rparr> else x)
                            (rows t)\<rparr>)))
   \<and> (getSubjectById u w = Inr (Some sb) \<longrightarrow>
      (\<exists>n r. parseInt w = Some n \<and> find (\<lambda>x. id' x = n) (rows u) = Some r
         \<and> sb = select subjectCol subjectFields r
         \<and> updateSubject now u w emptyObj = (Inr sb, u)
         \<and> updateSubject now u w (emptyObj(''ativa'' := JBool False)) =
             (Inr (select subjectCol subjectFields (r\<lparr>ativa := False, updatedAt := now\<rparr>)),
              u\<lparr>rows := map (\<lambda>x. if id' x = n then x\<lparr>ativa := False, updatedAt := now\<rparr> else x)
                            (rows u)\<rparr>)))"
proof (intro conjI impI)
  assume "getQuestionById t v = Inr (Some ob)"
  then obtain n r where h: "positiveNumeric v" "whereId (parseInt v) = Some n"
      "find (\<lambda>r. id' r = n) (rows t) = Some r"
    and ob: "ob = select questionCol questionFields r"
    by (auto simp: getQuestionById_Some_iff)
  from h(2) have p: "parseInt v = Some n" by (simp add: whereId_Some_iff)
  from p h(3) ob updateQuestion_empty [OF h] updateQuestion_ativa [OF h]
  show "\<exists>n r. parseInt v = Some n \<and> find (\<lambda>x. id' x = n) (rows t) = Some r
         \<and> ob = select questionCol questionFields r
         \<and> updateQuestion now t v emptyObj = (Inr ob, t)
         \<and> updateQuestion now t v (emptyObj(''ativa'' := JBool False)) =
             (Inr (select questionCol questionFields (r\<lparr>ativa := False, updatedAt := now\<rparr>)),
              t\<lparr>rows := map (\<lambda>x. if id' x = n then x\<lparr>ativa := False, updatedAt := now\<rparr> else x)
                            (rows t)\<rparr>)"
    by blast
next
  assume "getSubjectById u w = Inr (Some sb)"
  then obtain n r where h: "positiveNumeric w" "whereId (parseInt w) = Some n"
      "find (\<lambda>r. id' r = n) (rows u) = Some r"
    and sb: "sb = select subjectCol subjectFields r"
    by (auto simp: getSubjectById_Some_iff)
  from h(2) have p: "parseInt w = Some n" by (simp add: whereId_Some_iff)
  from p h(3) sb updateSubject_empty [OF h] updateSubject_ativa [OF h]
  show "\<exists>n r. parseInt w = Some n \<and> find (\<lambda>x. id' x = n) (rows u) = Some r
         \<and> sb = select subjectCol subjectFields r
         \<and> updateSubject now u w emptyObj = (Inr sb, u)
         \<and> updateSubject now u w (emptyObj(''ativa'' := JBool False)) =
             (Inr (select subjectCol subjectFields (r\<lparr>ativa := False, updatedAt := now\<rparr>)),
              u\<lparr>rows := map (\<lambda>x. if id' x = n then x\<lparr>ativa := False, updatedAt := now\<rparr> else x)
                            (rows u)\<rparr>)"
    by blast
qed

theorem update_empty_patch_and_active_false_witness:
  "updateQuestion 20 exQuestions (JNum (Fin 1)) emptyObj =
     (Inr [(''id'', DInt 1), (''enunciado'', DStr ''2+2=?''), (''dificuldade'', DInt 1),
           (''respostaCorreta'', DStr ''4''), (''disciplinaId'', DInt 1), (''autorId'', DInt 3),
           (''ativa'', DBool True), (''createdAt'', DDate 10), (''updatedAt'', DDate 10)],
      exQuestions)
   \<and> updateQuestion 20 exQuestions (JNum (Fin 1)) (emptyObj(''ativa'' := JBool False)) =
     (Inr [(''id'', DInt 1), (''enunciado'', DStr ''2+2=?''), (''dificuldade'', DInt 1),
           (''respostaCorreta'', DStr ''4''), (''disciplinaId'', DInt 1), (''autorId'', DInt 3),
           (''ativa'', DBool False), (''createdAt'', DDate 10), (''updatedAt'', DDate 20)],
      \<lparr>rows = [exQuestion1\<lparr>ativa := False, updatedAt := 20\<rparr>, exQuestion2], nextId = 4\<rparr>)
   \<and> updateSubject 20 exSubjects (JNum (Fin 1)) emptyObj =
     (Inr [(''id'', DInt 1), (''nome'', DStr ''Algebra''), (''ativa'', DBool True),
           (''professorId'', DInt 7), (''createdAt'', DDate 5), (''updatedAt'', DDate 5)],
      exSubjects)
   \<and> updateSubject 20 exSubjects (JNum (Fin 1)) (emptyObj(''ativa'' := JBool False)) =
     (Inr [(''id'', DInt 1), (''nome'', DStr ''Algebra''), (''ativa'', DBool False),
           (''professorId'', DInt 7), (''createdAt'', DDate 5), (''updatedAt'', DDate 20)],
      \<lparr>rows = [exSubject1\<lparr>ativa := False, updatedAt := 20\<rparr>], nextId = 2\<rparr>)"
proof -
  have pos: "positiveNumeric (JNum (Fin 1))" by (simp add: positiveNumeric_def)
  have w: "whereId (parseInt (JNum (Fin 1))) = Some 1"
    using whereId_parseInt_of_int [of 1] by simp
  have p: "parseInt (JNum (Fin 1)) = Some 1" using w by (simp add: whereId_Some_iff)
  have f: "find (\<lambda>x. id' x = 1) (rows exQuestions) = Some exQuestion1"
    "find (\<lambda>x. id' x = 1) (rows exSubjects) = Some exSubject1"
    by (simp_all add: ex_defs)
  have q: "getQuestionById exQuestions (JNum (Fin 1)) =
      Inr (Some (select questionCol questionFields exQuestion1))"
    using pos w f(1) by (rule getQuestionById_found)
  have s: "getSubjectById exSubjects (JNum (Fin 1)) =
      Inr (Some (select subjectCol subjectFields exSubject1))"
    using pos w f(2) by (rule getSubjectById_found)
  from update_empty_patch_and_active_false
    [where t = exQuestions and v = "JNum (Fin 1)" and u = exSubjects and w = "JNum (Fin 1)"
       and now = 20, THEN conjunct1, rule_format, OF q]
       update_empty_patch_and_active_false
    [where t = exQuestions and v = "JNum (Fin 1)" and u = exSubjects and w = "JNum (Fin 1)"
       and now = 20, THEN conjunct2, rule_format, OF s]
  show ?thesis
    unfolding p f by (auto simp: ex_defs store_eval)
qed

section \<open>What a successful update did\<close>

lemma updateQuestion_Inr:
  assumes "updateQuestion now t v d = (Inr ob, t')"
  obtains n r where "positiveNumeric v" "whereId (parseInt v) = Some n"
    "find (\<lambda>r. id' r = n) (rows t) = Some r"
    "ob = select questionCol questionFields (questionPatch now (questionDadosAtualizacao d) r)"
    "t' = t\<lparr>rows := map (\<lambda>x. if id' x = n
                              then questionPatch now (questionDadosAtualizacao d) x else x)
                        (rows t)\<rparr>"
    "\<not> (truthy (d ''enunciado'') \<and> d ''enunciado'' \<noteq> JStr (enunciado r)
        \<and> (\<exists>x \<in> set (rows t). JStr (enunciado x) = d ''enunciado''))"
    "\<not> (truthy (d ''dificuldade'')
        \<and> (ltNum (d ''dificuldade'') 1 \<or> gtNum (d ''dificuldade'') 5))"
proof -
  from assms have pos: "positiveNumeric v"
    by (subst (asm) updateQuestion_not_found) (simp split: if_splits)
  from assms pos obtain n where n: "whereId (parseInt v) = Some n"
    by (subst (asm) updateQuestion_not_found) (simp split: option.splits)
  from assms pos n obtain r where r: "find (\<lambda>r. id' r = n) (rows t) = Some r"
    by (subst (asm) updateQuestion_not_found) (simp split: option.splits)
  from n have fit: "fitsInt64 n" by (simp add: whereId_Some_iff)
  from assms show ?thesis
    unfolding updateQuestion_found [OF pos n r] questionUpdate_found [OF r fit]
    by (intro that [OF pos n r]) (simp_all split: if_splits)
qed

lemma updateSubject_Inr:
  assumes "updateSubject now t v d = (Inr ob, t')"
  obtains n r where "positiveNumeric v" "whereId (parseInt v) = Some n"
    "find (\<lambda>r. id' r = n) (rows t) = Some r"
    "ob = select subjectCol subjectFields (subjectPatch now (subjectDadosAtualizacao d) r)"
    "t' = t\<lparr>rows := map (\<lambda>x. if id' x = n
                              then subjectPatch now (subjectDadosAtualizacao d) x else x)
                        (rows t)\<rparr>"
    "\<not> (truthy (d ''nome'') \<and> d ''nome'' \<noteq> JStr (nome r)
        \<and> (\<exists>x \<in> set (rows t). JStr (nome x) = d ''nome''))"
proof -
  from assms have pos: "positiveNumeric v"
    by (subst (asm) updateSubject_not_found) (simp split: if_splits)
  from assms pos obtain n where n: "whereId (parseInt v) = Some n"
    by (subst (asm) updateSubject_not_found) (simp split: option.splits)
  from assms pos n obtain r where r: "find (\<lambda>r. id' r = n) (rows t) = Some r"
    by (subst (asm) updateSubject_not_found) (simp split: option.splits)
  from n have fit: "fitsInt64 n" by (simp add: whereId_Some_iff)
  from assms show ?thesis
    unfolding updateSubject_found [OF pos n r] subjectUpdate_found [OF r fit]
    by (intro that [OF pos n r]) (simp_all split: if_splits)
qed

section \<open>Properties that are not truthy\<close>

lemma dados_truthy:
  assumes "(if truthy a then a else JUndefined) = (if truthy b then b else JUndefined)"
  shows "truthy a = truthy b" "truthy a \<Longrightarrow> a = b"
  using assms by (auto split: if_splits)

lemma updateQuestion_invalid:
  "\<not> positiveNumeric v \<Longrightarrow> updateQuestion now t v d = (Inl IdInvalido, t)"
  by (subst updateQuestion_not_found) simp

lemma updateQuestion_nan:
  "positiveNumeric v \<Longrightarrow> whereId (parseInt v) = None \<Longrightarrow> updateQuestion now t v d = (Inl PrismaError, t)"
  by (subst updateQuestion_not_found) simp

lemma updateQuestion_absent:
  "positiveNumeric v \<Longrightarrow> whereId (parseInt v) = Some n \<Longrightarrow> find (\<lambda>r. id' r = n) (rows t) = None \<Longrightarrow>
     updateQuestion now t v d = (Inl QuestaoNaoEncontrada, t)"
  by (subst updateQuestion_not_found) simp

lemma updateSubject_invalid:
  "\<not> positiveNumeric v \<Longrightarrow> updateSubject now t v d = (Inl IdInvalido, t)"
  by (subst updateSubject_not_found) simp

lemma updateSubject_nan:
  "positiveNumeric v \<Longrightarrow> whereId (parseInt v) = None \<Longrightarrow> updateSubject now t v d = (Inl PrismaError, t)"
  by (subst updateSubject_not_found) simp

lemma updateSubject_absent:
  "positiveNumeric v \<Longrightarrow> whereId (parseInt v) = Some n \<Longrightarrow> find (\<lambda>r. id' r = n) (rows t) = None \<Longrightarrow>
     updateSubject now t v d = (Inl DisciplinaNaoEncontrada, t)"
  by (subst updateSubject_not_found) simp

lemma id_cases:
  obtains "\<not> positiveNumeric v"
  | "positiveNumeric v" "whereId (parseInt v) = None"
  | n where "positiveNumeric v" "whereId (parseInt v) = Some n" "find (\<lambda>r. id' r = n) xs = None"
  | n r where "positiveNumeric v" "whereId (parseInt v) = Some n" "find (\<lambda>r. id' r = n) xs = Some r"
proof (cases "positiveNumeric v")
  case False
  then show ?thesis by (rule that(1))
next
  case pos: True
  show ?thesis
  proof (cases "whereId (parseInt v)")
    case None
    with pos show ?thesis by (rule that(2))
  next
    case (Some n)
    show ?thesis
    proof (cases "find (\<lambda>r. id' r = n) xs")
      case None
      with pos Some show ?thesis by (rule that(3))
    next
      case (Some r)
      with pos \<open>whereId (parseInt v) = Some n\<close> show ?thesis by (rule that(4))
    qed
  qed
qed

lemma updateQuestion_dados_cong:
  assumes "questionDadosAtualizacao d = questionDadosAtualizacao d'"
  shows "updateQuestion now t v d = updateQuestion now t v d'"
proof -
  from assms have "questionDadosAtualizacao d ''enunciado'' = questionDadosAtualizacao d' ''enunciado''"
    and "questionDadosAtualizacao d ''dificuldade'' = questionDadosAtualizacao d' ''dificuldade''"
    by simp_all
  then have e: "(if truthy (d ''enunciado'') then d ''enunciado'' else JUndefined)
        = (if truthy (d' ''enunciado'') then d' ''enunciado'' else JUndefined)"
    and f: "(if truthy (d ''dificuldade'') then d ''dificuldade'' else JUndefined)
        = (if truthy (d' ''dificuldade'') then d' ''dificuldade'' else JUndefined)"
    by (simp_all add: questionDados_apply)
  note te = dados_truthy [OF e] and tf = dados_truthy [OF f]
  show ?thesis
  proof (cases rule: id_cases [where v = v and xs = "rows t"])
    case 1
    then show ?thesis by (simp add: updateQuestion_invalid)
  next
    case 2
    then show ?thesis by (simp add: updateQuestion_nan)
  next
    case 3
    then show ?thesis by (simp add: updateQuestion_absent)
  next
    case (4 n r)
    have c1: "(truthy (d ''enunciado'') \<and> d ''enunciado'' \<noteq> JStr (enunciado r)
                \<and> asString (d ''enunciado'') = None)
          = (truthy (d' ''enunciado'') \<and> d' ''enunciado'' \<noteq> JStr (enunciado r)
                \<and> asString (d' ''enunciado'') = None)"
      using te by (cases "truthy (d ''enunciado'')") auto
    have c2: "(truthy (d ''enunciado'') \<and> d ''enunciado'' \<noteq> JStr (enunciado r)
                \<and> (\<exists>x \<in> set (rows t). JStr (enunciado x) = d ''enunciado''))
          = (truthy (d' ''enunciado'') \<and> d' ''enunciado'' \<noteq> JStr (enunciado r)
                \<and> (\<exists>x \<in> set (rows t). JStr (enunciado x) = d' ''enunciado''))"
      using te by (cases "truthy (d ''enunciado'')") auto
    have c3: "(truthy (d ''dificuldade'')
                \<and> (ltNum (d ''dificuldade'') 1 \<or> gtNum (d ''dificuldade'') 5))
          = (truthy (d' ''dificuldade'')
                \<and> (ltNum (d' ''dificuldade'') 1 \<or> gtNum (d' ''dificuldade'') 5))"
      using tf by (cases "truthy (d ''dificuldade'')") auto
    show ?thesis
      unfolding updateQuestion_found [OF 4] assms c1 c2 c3 ..
  qed
qed

lemma updateSubject_dados_cong:
  assumes "subjectDadosAtualizacao d = subjectDadosAtualizacao d'"
  shows "updateSubject now t v d = updateSubject now t v d'"
proof -
  from assms have "subjectDadosAtualizacao d ''nome'' = subjectDadosAtualizacao d' ''nome''"
    by simp
  then have e: "(if truthy (d ''nome'') then d ''nome'' else JUndefined)
        = (if truthy (d' ''nome'') then d' ''nome'' else JUndefined)"
    by (simp add: subjectDados_apply)
  note te = dados_truthy [OF e]
  show ?thesis
  proof (cases rule: id_cases [where v = v and xs = "rows t"])
    case 1
    then show ?thesis by (simp add: updateSubject_invalid)
  next
    case 2
    then show ?thesis by (simp add: updateSubject_nan)
  next
    case 3
    then show ?thesis by (simp add: updateSubject_absent)
  next
    case (4 n r)
    have c1: "(truthy (d ''nome'') \<and> d ''nome'' \<noteq> JStr (nome r) \<and> asString (d ''nome'') = None)
          = (truthy (d' ''nome'') \<and> d' ''nome'' \<noteq> JStr (nome r) \<and> asString (d' ''nome'') = None)"
      using te by (cases "truthy (d ''nome'')") auto
    have c2: "(truthy (d ''nome'') \<and> d ''nome'' \<noteq> JStr (nome r)
                \<and> (\<exists>x \<in> set (rows t). JStr (nome x) = d ''nome''))
          = (truthy (d' ''nome'') \<and> d' ''nome'' \<noteq> JStr (nome r)
                \<and> (\<exists>x \<in> set (rows t). JStr (nome x) = d' ''nome''))"
      using te by (cases "truthy (d ''nome'')") auto
    show ?thesis
      unfolding updateSubject_found [OF 4] assms c1 c2 ..
  qed
qed

lemma questionDados_falsy:
  assumes "f \<in> set [''enunciado'', ''dificuldade'', ''respostaCorreta'', ''disciplinaId'', ''autorId'']"
    and "\<not> truthy x"
  shows "questionDadosAtualizacao (d(f := x)) = questionDadosAtualizacao (d(f := JUndefined))"
proof (rule ext)
  fix g
  from assms show "questionDadosAtualizacao (d(f := x)) g
      = questionDadosAtualizacao (d(f := JUndefined)) g"
    unfolding questionDados_apply by (cases "g = f") auto
qed

lemma subjectDados_falsy:
  assumes "f \<in> set [''nome'', ''professorId'']" and "\<not> truthy x"
  shows "subjectDadosAtualizacao (d(f := x)) = subjectDadosAtualizacao (d(f := JUndefined))"
proof (rule ext)
  fix g
  from assms show "subjectDadosAtualizacao (d(f := x)) g
      = subjectDadosAtualizacao (d(f := JUndefined)) g"
    unfolding subjectDados_apply by (cases "g = f") auto
qed

lemma map_col_unchanged:
  assumes "\<And>x. col (upd x) = col x"
  shows "map col (map (\<lambda>x. if P x then upd x else x) xs) = map col xs"
  using assms by (induction xs) simp_all

lemma patched_undefined_col:
  "enunciado (questionPatch now p x) = patched asString (p ''enunciado'') (enunciado x)"
  "dificuldade (questionPatch now p x) = patched asInt (p ''dificuldade'') (dificuldade x)"
  "respostaCorreta (questionPatch now p x) = patched asString (p ''respostaCorreta'') (respostaCorreta x)"
  "disciplinaId (questionPatch now p x) = patched asInt (p ''disciplinaId'') (disciplinaId x)"
  "autorId (questionPatch now p x) = patched asInt (p ''autorId'') (autorId x)"
  "nome (subjectPatch now p y) = patched asString (p ''nome'') (nome y)"
  "professorId (subjectPatch now p y) = patched asInt (p ''professorId'') (professorId y)"
  by (simp_all add: questionPatch_def subjectPatch_def)

text \<open>
  Claim C10. In an update, a property other than \<open>ativa\<close> whose value is given but not
  truthy (the empty string for \<open>enunciado\<close>, \<open>respostaCorreta\<close> or \<open>nome\<close>; \<open>0\<close> for
  \<open>dificuldade\<close>, \<open>disciplinaId\<close>, \<open>autorId\<close> or \<open>professorId\<close>) is dropped without a word:
  the call behaves in every respect, outcome and table, as the call with that property
  left out, so no error is raised on its account; and after an update that succeeds the
  column of such a property holds in every row what it held before.
\<close>

theorem update_drops_falsy_fields:
  "(f \<in> set [''enunciado'', ''dificuldade'', ''respostaCorreta'', ''disciplinaId'', ''autorId'']
      \<and> \<not> truthy x \<longrightarrow>
      updateQuestion now t v (d(f := x)) = updateQuestion now t v (d(f := JUndefined)))
   \<and> (g \<in> set [''nome'', ''professorId''] \<and> \<not> truthy y \<longrightarrow>
      updateSubject now u w (e(g := y)) = updateSubject now u w (e(g := JUndefined)))
   \<and> (updateQuestion now t v d = (Inr ob, t') \<longrightarrow>
        (\<not> truthy (d ''enunciado'') \<longrightarrow> map enunciado (rows t') = map enunciado (rows t))
      \<and> (\<not> truthy (d ''dificuldade'') \<longrightarrow> map dificuldade (rows t') = map dificuldade (rows t))
      \<and> (\<not> truthy (d ''respostaCorreta'') \<longrightarrow>
            map respostaCorreta (rows t') = map respostaCorreta (rows t))
      \<and> (\<not> truthy (d ''disciplinaId'') \<longrightarrow> map disciplinaId (rows t') = map disciplinaId (rows t))
      \<and> (\<not> truthy (d ''autorId'') \<longrightarrow> map autorId (rows t') = map autorId (rows t)))
   \<and> (updateSubject now u w e = (Inr sb, u') \<longrightarrow>
        (\<not> truthy (e ''nome'') \<longrightarrow> map nome (rows u') = map nome (rows u))
      \<and> (\<not> truthy (e ''professorId'') \<longrightarrow> map professorId (rows u') = map professorId (rows u)))"
proof (intro conjI impI)
  assume "f \<in> set [''enunciado'', ''dificuldade'', ''respostaCorreta'', ''disciplinaId'', ''autorId'']
      \<and> \<not> truthy x"
  then have "questionDadosAtualizacao (d(f := x)) = questionDadosAtualizacao (d(f := JUndefined))"
    by (intro questionDados_falsy) blast+
  then show "updateQuestion now t v (d(f := x)) = updateQuestion now t v (d(f := JUndefined))"
    by (rule updateQuestion_dados_cong)
next
  assume "g \<in> set [''nome'', ''professorId''] \<and> \<not> truthy y"
  then have "subjectDadosAtualizacao (e(g := y)) = subjectDadosAtualizacao (e(g := JUndefined))"
    by (intro subjectDados_falsy) blast+
  then show "updateSubject now u w (e(g := y)) = updateSubject now u w (e(g := JUndefined))"
    by (rule updateSubject_dados_cong)
next
  assume a: "updateQuestion now t v d = (Inr ob, t')"
  then obtain n where t': "t' = t\<lparr>rows := map (\<lambda>x. if id' x = n
                              then questionPatch now (questionDadosAtualizacao d) x else x)
                        (rows t)\<rparr>"
    by (rule updateQuestion_Inr)
  { assume "\<not> truthy (d ''enunciado'')"
    then show "map enunciado (rows t') = map enunciado (rows t)"
      unfolding t' by (simp add: map_col_unchanged patched_undefined_col questionDados_apply) }
  { assume "\<not> truthy (d ''dificuldade'')"
    then show "map dificuldade (rows t') = map dificuldade (rows t)"
      unfolding t' by (simp add: map_col_unchanged patched_undefined_col questionDados_apply) }
  { assume "\<not> truthy (d ''respostaCorreta'')"
    then show "map respostaCorreta (rows t') = map respostaCorreta (rows t)"
      unfolding t' by (simp add: map_col_unchanged patched_undefined_col questionDados_apply) }
  { assume "\<not> truthy (d ''disciplinaId'')"
    then show "map disciplinaId (rows t') = map disciplinaId (rows t)"
      unfolding t' by (simp add: map_col_unchanged patched_undefined_col questionDados_apply) }
  { assume "\<not> truthy (d ''autorId'')"
    then show "map autorId (rows t') = map autorId (rows t)"
      unfolding t' by (simp add: map_col_unchanged patched_undefined_col questionDados_apply) }
next
  assume a: "updateSubject now u w e = (Inr sb, u')"
  then obtain n where u': "u' = u\<lparr>rows := map (\<lambda>x. if id' x = n
                              then subjectPatch now (subjectDadosAtualizacao e) x else x)
                        (rows u)\<rparr>"
    by (rule updateSubject_Inr)
  { assume "\<not> truthy (e ''nome'')"
    then show "map nome (rows u') = map nome (rows u)"
      unfolding u' by (simp add: map_col_unchanged patched_undefined_col subjectDados_apply) }
  { assume "\<not> truthy (e ''professorId'')"
    then show "map professorId (rows u') = map professorId (rows u)"
      unfolding u' by (simp add: map_col_unchanged patched_undefined_col subjectDados_apply) }
qed

theorem update_drops_falsy_fields_witness:
  "updateQuestion 20 exQuestions (JNum (Fin 1)) (emptyObj(''dificuldade'' := JNum (Fin 0))) =
     (Inr [(''id'', DInt 1), (''enunciado'', DStr ''2+2=?''), (''dificuldade'', DInt 1),
           (''respostaCorreta'', DStr ''4''), (''disciplinaId'', DInt 1), (''autorId'', DInt 3),
           (''ativa'', DBool True), (''createdAt'', DDate 10), (''updatedAt'', DDate 10)],
      exQuestions)
   \<and> map dificuldade
         (rows (snd (updateQuestion 20 exQuestions (JNum (Fin 1))
                       (emptyObj(''dificuldade'' := JNum (Fin 0))))))
       = map dificuldade (rows exQuestions)
   \<and> updateSubject 20 exSubjects (JNum (Fin 1)) (emptyObj(''nome'' := JStr [])) =
     (Inr [(''id'', DInt 1), (''nome'', DStr ''Algebra''), (''ativa'', DBool True),
           (''professorId'', DInt 7), (''createdAt'', DDate 5), (''updatedAt'', DDate 5)],
      exSubjects)
   \<and> map nome (rows (snd (updateSubject 20 exSubjects (JNum (Fin 1))
                            (emptyObj(''nome'' := JStr [])))))
       = map nome (rows exSubjects)"
proof -
  have pos: "positiveNumeric (JNum (Fin 1))" by (simp add: positiveNumeric_def)
  have p: "whereId (parseInt (JNum (Fin 1))) = Some 1"
    using whereId_parseInt_of_int [of 1] by simp
  have fq: "find (\<lambda>x. id' x = 1) (rows exQuestions) = Some exQuestion1"
    and fs: "find (\<lambda>x. id' x = 1) (rows exSubjects) = Some exSubject1"
    by (simp_all add: ex_defs)
  have u: "emptyObj(''dificuldade'' := JUndefined) = emptyObj"
    "emptyObj(''nome'' := JUndefined) = emptyObj"
    by (auto simp: emptyObj_def fun_eq_iff)
  have fz: "''dificuldade'' \<in> set [''enunciado'', ''dificuldade'', ''respostaCorreta'',
        ''disciplinaId'', ''autorId''] \<and> \<not> truthy (JNum (Fin 0))"
    "''nome'' \<in> set [''nome'', ''professorId''] \<and> \<not> truthy (JStr [])"
    by simp_all
  note inst = update_drops_falsy_fields
    [where f = "''dificuldade''" and x = "JNum (Fin 0)" and d = emptyObj and now = 20
       and t = exQuestions and v = "JNum (Fin 1)"
       and g = "''nome''" and y = "JStr []" and e = emptyObj and u = exSubjects
       and w = "JNum (Fin 1)"]
  from inst fz have "updateQuestion 20 exQuestions (JNum (Fin 1)) (emptyObj(''dificuldade'' := JNum (Fin 0)))
      = updateQuestion 20 exQuestions (JNum (Fin 1)) (emptyObj(''dificuldade'' := JUndefined))"
    by blast
  then have 1: "updateQuestion 20 exQuestions (JNum (Fin 1)) (emptyObj(''dificuldade'' := JNum (Fin 0))) =
     (Inr [(''id'', DInt 1), (''enunciado'', DStr ''2+2=?''), (''dificuldade'', DInt 1),
           (''respostaCorreta'', DStr ''4''), (''disciplinaId'', DInt 1), (''autorId'', DInt 3),
           (''ativa'', DBool True), (''createdAt'', DDate 10), (''updatedAt'', DDate 10)],
      exQuestions)"
    unfolding u updateQuestion_empty [OF pos p fq] by (simp add: ex_defs store_eval)
  from inst fz have "updateSubject 20 exSubjects (JNum (Fin 1)) (emptyObj(''nome'' := JStr []))
      = updateSubject 20 exSubjects (JNum (Fin 1)) (emptyObj(''nome'' := JUndefined))"
    by blast
  then have 2: "updateSubject 20 exSubjects (JNum (Fin 1)) (emptyObj(''nome'' := JStr [])) =
     (Inr [(''id'', DInt 1), (''nome'', DStr ''Algebra''), (''ativa'', DBool True),
           (''professorId'', DInt 7), (''createdAt'', DDate 5), (''updatedAt'', DDate 5)],
      exSubjects)"
    unfolding u updateSubject_empty [OF pos p fs] by (simp add: ex_defs store_eval)
  have tz: "\<not> truthy ((emptyObj(''dificuldade'' := JNum (Fin 0))) ''dificuldade'')"
    "\<not> truthy ((emptyObj(''nome'' := JStr [])) ''nome'')"
    by simp_all
  from update_drops_falsy_fields
    [where d = "emptyObj(''dificuldade'' := JNum (Fin 0))" and now = 20 and t = exQuestions
       and v = "JNum (Fin 1)", THEN conjunct2, THEN conjunct2, THEN conjunct1, rule_format, OF 1]
    tz(1)
  have 3: "map dificuldade (rows exQuestions) = map dificuldade (rows exQuestions)"
    by blast
  from update_drops_falsy_fields
    [where e = "emptyObj(''nome'' := JStr [])" and now = 20 and u = exSubjects
       and w = "JNum (Fin 1)", THEN conjunct2, THEN conjunct2, THEN conjunct2, rule_format, OF 2]
    tz(2)
  have 4: "map nome (rows exSubjects) = map nome (rows exSubjects)"
    by blast
  from 1 2 3 4 show ?thesis by simp
qed

section \<open>Reading by an identifier that is invalid or has no record\<close>

lemma updateQuestion_absent_NotFound:
  assumes "positiveNumeric v" "whereId (parseInt v) = Some n"
    "find (\<lambda>r. id' r = n) (rows t) = None"
  shows "failsWith (fst (updateQuestion now t v d)) NotFound"
  by (simp add: updateQuestion_absent [OF assms] failsWith_def)

lemma updateSubject_absent_NotFound:
  assumes "positiveNumeric v" "whereId (parseInt v) = Some n"
    "find (\<lambda>r. id' r = n) (rows t) = None"
  shows "failsWith (fst (updateSubject now t v d)) NotFound"
  by (simp add: updateSubject_absent [OF assms] failsWith_def)

lemma deleteQuestion_absent_NotFound:
  assumes "positiveNumeric v" "whereId (parseInt v) = Some n"
    "find (\<lambda>r. id' r = n) (rows t) = None"
  shows "failsWith (fst (deleteQuestion t v)) NotFound"
  using assms by (simp add: deleteQuestion_cases failsWith_def)

lemma deleteSubject_absent_NotFound:
  assumes "positiveNumeric v" "whereId (parseInt v) = Some n"
    "find (\<lambda>r. id' r = n) (rows t) = None"
  shows "failsWith (fst (deleteSubject t v)) NotFound"
  using assms by (simp add: deleteSubject_cases failsWith_def)

text \<open>
  Claim C6 does not hold as it is written. The string \<open>"1e1"\<close> is the positive integer
  10, no question has that identifier, and the read returns the question 1, because
  \<open>parseInt\<close> stops at the letter; so does the read by the Number \<open>10\<^sup>2\<^sup>1\<close>, which is
  written \<open>1e+21\<close>. And the boolean \<open>true\<close>, which is no number, passes the check of the
  identifier and fails in the client, not with \<open>InvalidArgument\<close>.
\<close>

theorem getById_exponent_string_and_boolean:
  "toNumber (JStr ''1e1'') = Fin 10
   \<and> map id' (rows exQuestions) = [1, 3]
   \<and> getQuestionById exQuestions (JStr ''1e1'')
       = Inr (Some (select questionCol questionFields exQuestion1))
   \<and> getQuestionById exQuestions (JNum (Fin (10 ^ 21)))
       = Inr (Some (select questionCol questionFields exQuestion1))
   \<and> getQuestionById exQuestions (JBool True) = Inl PrismaError
   \<and> \<not> failsWith (getQuestionById exQuestions (JBool True)) InvalidArgument"
proof -
  have n: "toNumber (JStr ''1e1'') = Fin 10" by (simp add: str_eval toDouble_eval)
  have p: "parseInt (JStr ''1e1'') = Some 1" by (simp add: str_eval toDouble_eval)
  have pos: "positiveNumeric (JStr ''1e1'')" unfolding positiveNumeric_def n by simp
  have w: "whereId (parseInt (JStr ''1e1'')) = Some 1"
    unfolding p by (simp add: whereId_def fitsInt64_def)
  have f: "find (\<lambda>r. id' r = 1) (rows exQuestions) = Some exQuestion1" by (simp add: ex_defs)
  have g: "getQuestionById exQuestions (JStr ''1e1'')
       = Inr (Some (select questionCol questionFields exQuestion1))"
    using pos w f by (rule getQuestionById_found)
  have pos': "positiveNumeric (JNum (Fin (10 ^ 21)))" by (simp add: positiveNumeric_def)
  have w': "whereId (parseInt (JNum (Fin (10 ^ 21)))) = Some 1"
    unfolding parseInt_1e21 by (simp add: whereId_def fitsInt64_def)
  have g': "getQuestionById exQuestions (JNum (Fin (10 ^ 21)))
       = Inr (Some (select questionCol questionFields exQuestion1))"
    using pos' w' f by (rule getQuestionById_found)
  have b: "getQuestionById exQuestions (JBool True) = Inl PrismaError"
    by (simp add: getQuestionById_alt positiveNumeric_def findUniqueById_def whereId_def)
  have i: "map id' (rows exQuestions) = [1, 3]" by (simp add: ex_defs)
  from n i g g' b show ?thesis by (simp only: failsWith_def) simp
qed

text \<open>
  Claim C6, amended. \<open>getQuestionById\<close> and \<open>getSubjectById\<close> fail with
  \<open>InvalidArgument\<close> for an identifier that is missing (\<open>undefined\<close>, \<open>null\<close>), whose
  Number value is \<open>NaN\<close> (as for \<open>"abc"\<close>) or that is not positive (as for \<open>-1\<close> and \<open>0\<close>).
  For a positive integer below \<open>2\<^sup>5\<^sup>3\<close> with no record, given as a Number or as a string
  of decimal digits, they return the absent result, where \<open>update\<close> and \<open>delete\<close> fail
  with \<open>NotFound\<close>. No read fails with \<open>NotFound\<close>, whatever the identifier.
\<close>

theorem getById_invalid_or_absent:
  "((v = JUndefined \<or> v = JNull \<or> toNumber v = NaN \<or> toNumber v = NegInf
       \<or> (\<exists>q. toNumber v = Fin q \<and> q \<le> 0)) \<longrightarrow>
      failsWith (getQuestionById t v) InvalidArgument
      \<and> failsWith (getSubjectById u v) InvalidArgument)
   \<and> (0 < n \<and> n < 2 ^ 53 \<longrightarrow>
        ((\<forall>r \<in> set (rows t). id' r \<noteq> n) \<longrightarrow>
           getQuestionById t (JNum (Fin (of_int n))) = Inr None
           \<and> failsWith (fst (updateQuestion now t (JNum (Fin (of_int n))) d)) NotFound
           \<and> failsWith (fst (deleteQuestion t (JNum (Fin (of_int n))))) NotFound)
        \<and> ((\<forall>r \<in> set (rows u). id' r \<noteq> n) \<longrightarrow>
           getSubjectById u (JNum (Fin (of_int n))) = Inr None
           \<and> failsWith (fst (updateSubject now u (JNum (Fin (of_int n))) e)) NotFound
           \<and> failsWith (fst (deleteSubject u (JNum (Fin (of_int n))))) NotFound))
   \<and> (allDigits 10 s \<and> 0 < digitsVal 10 s \<and> digitsVal 10 s < 2 ^ 53 \<longrightarrow>
        ((\<forall>r \<in> set (rows t). id' r \<noteq> int (digitsVal 10 s)) \<longrightarrow>
           getQuestionById t (JStr s) = Inr None
           \<and> failsWith (fst (updateQuestion now t (JStr s) d)) NotFound
           \<and> failsWith (fst (deleteQuestion t (JStr s))) NotFound)
        \<and> ((\<forall>r \<in> set (rows u). id' r \<noteq> int (digitsVal 10 s)) \<longrightarrow>
           getSubjectById u (JStr s) = Inr None
           \<and> failsWith (fst (updateSubject now u (JStr s) e)) NotFound
           \<and> failsWith (fst (deleteSubject u (JStr s))) NotFound))
   \<and> \<not> failsWith (getQuestionById t v) NotFound
   \<and> \<not> failsWith (getSubjectById u v) NotFound"
proof (intro conjI impI)
  assume "v = JUndefined \<or> v = JNull \<or> toNumber v = NaN \<or> toNumber v = NegInf
       \<or> (\<exists>q. toNumber v = Fin q \<and> q \<le> 0)"
  then have "\<not> positiveNumeric v" by (rule not_positive)
  then show "failsWith (getQuestionById t v) InvalidArgument"
    "failsWith (getSubjectById u v) InvalidArgument"
    by (simp_all add: getQuestionById_alt getSubjectById_alt failsWith_def)
next
  assume n: "0 < n \<and> n < 2 ^ 53"
  then have "0 < n" and "n < 2 ^ 53" by blast+
  then have p: "whereId (parseInt (JNum (Fin (of_int n)))) = Some n"
    by (rule whereId_parseInt_of_int)
  have pos: "positiveNumeric (JNum (Fin (of_int n)))"
    using \<open>0 < n\<close> by (simp only: positiveNumeric_int)
  { assume "\<forall>r \<in> set (rows t). id' r \<noteq> n"
    then have f: "find (\<lambda>r. id' r = n) (rows t) = None" by (rule find_absent)
    from pos p f show "getQuestionById t (JNum (Fin (of_int n))) = Inr None"
      by (rule getQuestionById_absent)
    from pos p f show "failsWith (fst (updateQuestion now t (JNum (Fin (of_int n))) d)) NotFound"
      by (rule updateQuestion_absent_NotFound)
    from pos p f show "failsWith (fst (deleteQuestion t (JNum (Fin (of_int n))))) NotFound"
      by (rule deleteQuestion_absent_NotFound) }
  { assume "\<forall>r \<in> set (rows u). id' r \<noteq> n"
    then have f: "find (\<lambda>r. id' r = n) (rows u) = None" by (rule find_absent)
    from pos p f show "getSubjectById u (JNum (Fin (of_int n))) = Inr None"
      by (rule getSubjectById_absent)
    from pos p f show "failsWith (fst (updateSubject now u (JNum (Fin (of_int n))) e)) NotFound"
      by (rule updateSubject_absent_NotFound)
    from pos p f show "failsWith (fst (deleteSubject u (JNum (Fin (of_int n))))) NotFound"
      by (rule deleteSubject_absent_NotFound) }
next
  assume d: "allDigits 10 s \<and> 0 < digitsVal 10 s \<and> digitsVal 10 s < 2 ^ 53"
  then have ad: "allDigits 10 s" and gt: "0 < digitsVal 10 s" and lt: "digitsVal 10 s < 2 ^ 53"
    by blast+
  from ad lt have p: "whereId (parseInt (JStr s)) = Some (int (digitsVal 10 s))"
    by (rule whereId_parseInt_digits)
  from gt have pos: "positiveNumeric (JStr s)"
    by (simp only: positiveNumeric_digits [OF ad lt])
  { assume "\<forall>r \<in> set (rows t). id' r \<noteq> int (digitsVal 10 s)"
    then have f: "find (\<lambda>r. id' r = int (digitsVal 10 s)) (rows t) = None"
      by (rule find_absent)
    from pos p f show "getQuestionById t (JStr s) = Inr None"
      by (rule getQuestionById_absent)
    from pos p f show "failsWith (fst (updateQuestion now t (JStr s) d)) NotFound"
      by (rule updateQuestion_absent_NotFound)
    from pos p f show "failsWith (fst (deleteQuestion t (JStr s))) NotFound"
      by (rule deleteQuestion_absent_NotFound) }
  { assume "\<forall>r \<in> set (rows u). id' r \<noteq> int (digitsVal 10 s)"
    then have f: "find (\<lambda>r. id' r = int (digitsVal 10 s)) (rows u) = None"
      by (rule find_absent)
    from pos p f show "getSubjectById u (JStr s) = Inr None"
      by (rule getSubjectById_absent)
    from pos p f show "failsWith (fst (updateSubject now u (JStr s) e)) NotFound"
      by (rule updateSubject_absent_NotFound)
    from pos p f show "failsWith (fst (deleteSubject u (JStr s))) NotFound"
      by (rule deleteSubject_absent_NotFound) }
next
  show "\<not> failsWith (getQuestionById t v) NotFound" by (rule getQuestionById_never_NotFound)
  show "\<not> failsWith (getSubjectById u v) NotFound" by (rule getSubjectById_never_NotFound)
qed

theorem getById_invalid_or_absent_witness:
  "failsWith (getQuestionById exQuestions (JNum (Fin (- 1)))) InvalidArgument
   \<and> failsWith (getQuestionById exQuestions (JNum (Fin 0))) InvalidArgument
   \<and> failsWith (getQuestionById exQuestions (JStr ''abc'')) InvalidArgument
   \<and> failsWith (getSubjectById exSubjects JUndefined) InvalidArgument
   \<and> getQuestionById exQuestions (JNum (Fin 7)) = Inr None
   \<and> failsWith (fst (deleteQuestion exQuestions (JNum (Fin 7)))) NotFound
   \<and> getSubjectById exSubjects (JStr ''42'') = Inr None
   \<and> failsWith (fst (updateSubject 20 exSubjects (JStr ''42'') exSubjectData)) NotFound"
proof -
  have a: "toNumber (JStr ''abc'') = NaN" by (simp add: str_eval)
  have b: "\<exists>q. toNumber (JNum (Fin (- 1))) = Fin q \<and> q \<le> 0"
    "\<exists>q. toNumber (JNum (Fin 0)) = Fin q \<and> q \<le> 0" by simp_all
  have c: "\<forall>r \<in> set (rows exQuestions). id' r \<noteq> 7" by (simp add: ex_defs)
  have d: "allDigits 10 ''42''" "digitsVal 10 ''42'' = 42"
    by (simp_all add: str_eval)
  have n7: "(0::int) < 7 \<and> (7::int) < 2 ^ 53" by simp
  have d42: "allDigits 10 ''42'' \<and> 0 < digitsVal 10 ''42'' \<and> digitsVal 10 ''42'' < 2 ^ 53"
    by (simp add: d)
  have e: "\<forall>r \<in> set (rows exSubjects). id' r \<noteq> int (digitsVal 10 ''42'')"
    by (simp add: ex_defs d)
  from getById_invalid_or_absent [where v = "JNum (Fin (- 1))" and t = exQuestions] b(1)
  have 1: "failsWith (getQuestionById exQuestions (JNum (Fin (- 1)))) InvalidArgument" by blast
  from getById_invalid_or_absent [where v = "JNum (Fin 0)" and t = exQuestions] b(2)
  have 2: "failsWith (getQuestionById exQuestions (JNum (Fin 0))) InvalidArgument" by blast
  from getById_invalid_or_absent [where v = "JStr ''abc''" and t = exQuestions] a
  have 3: "failsWith (getQuestionById exQuestions (JStr ''abc'')) InvalidArgument" by blast
  from getById_invalid_or_absent [where v = JUndefined and u = exSubjects]
  have 4: "failsWith (getSubjectById exSubjects JUndefined) InvalidArgument" by blast
  from getById_invalid_or_absent [where n = 7 and t = exQuestions,
      THEN conjunct2, THEN conjunct1, THEN mp, OF n7, THEN conjunct1, THEN mp, OF c]
  have 5: "getQuestionById exQuestions (JNum (Fin 7)) = Inr None"
    "failsWith (fst (deleteQuestion exQuestions (JNum (Fin 7)))) NotFound"
    by simp_all
  from getById_invalid_or_absent [where s = "''42''" and u = exSubjects and now = 20
      and e = exSubjectData,
      THEN conjunct2, THEN conjunct2, THEN conjunct1, THEN mp, OF d42, THEN conjunct2,
      THEN mp, OF e]
  have 6: "getSubjectById exSubjects (JStr ''42'') = Inr None"
    "failsWith (fst (updateSubject 20 exSubjects (JStr ''42'') exSubjectData)) NotFound"
    by simp_all
  from 1 2 3 4 5 6 show ?thesis by (intro conjI)
qed

section \<open>Creating\<close>


lemma validateSubjectData_ok:
  "validateSubjectData d = Inr () \<longleftrightarrow> truthy (d ''nome'') \<and> truthy (d ''professorId'')"
  by (auto simp: validateSubjectData_def)

lemma validateQuestionData_kind:
  "validateQuestionData d = Inl e \<Longrightarrow> kind e = ValidationError"
  by (auto simp: validateQuestionData_def split: if_splits)

lemma validateSubjectData_kind:
  "validateSubjectData d = Inl e \<Longrightarrow> kind e = ValidationError"
  by (auto simp: validateSubjectData_def split: if_splits)

lemma createQuestion_cases:
  "createQuestion now t d =
     (case validateQuestionData d of
        Inl e \<Rightarrow> (Inl e, t)
      | Inr _ \<Rightarrow>
          (case asString (d ''enunciado'') of
             None \<Rightarrow> (Inl PrismaError, t)
           | Some s \<Rightarrow>
               if \<exists>r \<in> set (rows t). enunciado r = s then (Inl EnunciadoJaCadastrado, t)
               else (case (asInt (d ''dificuldade''), asString (d ''respostaCorreta''),
                           asInt (d ''disciplinaId''), asInt (d ''autorId''),
                           asBool (nullish (d ''ativa'') (JBool True))) of
                       (Some di, Some rc, Some ds, Some au, Some av) \<Rightarrow>
                         (Inr (select questionCol questionFields
                                 \<lparr>id' = nextId t, ativa = av, createdAt = now, updatedAt = now,
                                  enunciado = s, dificuldade = di, respostaCorreta = rc,
                                  disciplinaId = ds, autorId = au\<rparr>),
                          t\<lparr>rows := rows t @
                                [\<lparr>id' = nextId t, ativa = av, createdAt = now, updatedAt = now,
                                  enunciado = s, dificuldade = di, respostaCorreta = rc,
                                  disciplinaId = ds, autorId = au\<rparr>],
                            nextId := nextId t + 1\<rparr>)
                     | _ \<Rightarrow> (Inl PrismaError, t))))"
  by (simp add: createQuestion_def enunciadoExists_eq questionCreate_def emptyObj_def Let_def
           split: sum.splits option.splits)

lemma createSubject_cases:
  "createSubject now t d =
     (case validateSubjectData d of
        Inl e \<Rightarrow> (Inl e, t)
      | Inr _ \<Rightarrow>
          (case asString (d ''nome'') of
             None \<Rightarrow> (Inl PrismaError, t)
           | Some s \<Rightarrow>
               if \<exists>r \<in> set (rows t). nome r = s then (Inl NomeJaCadastrado, t)
               else (case (asBool (nullish (d ''ativa'') (JBool True)), asInt (d ''professorId'')) of
                       (Some av, Some p) \<Rightarrow>
                         (Inr (select subjectCol subjectFields
                                 \<lparr>id' = nextId t, ativa = av, createdAt = now, updatedAt = now,
                                  nome = s, professorId = p\<rparr>),
                          t\<lparr>rows := rows t @
                                [\<lparr>id' = nextId t, ativa = av, createdAt = now, updatedAt = now,
                                  nome = s, professorId = p\<rparr>],
                            nextId := nextId t + 1\<rparr>)
                     | _ \<Rightarrow> (Inl PrismaError, t))))"
  by (simp add: createSubject_def nomeExists_eq subjectCreate_def emptyObj_def Let_def
           split: sum.splits option.splits)

lemma createQuestion_Inr:
  assumes "createQuestion now t d = (Inr ob, t')"
  obtains s di rc ds au av where
    "validateQuestionData d = Inr ()" "d ''enunciado'' = JStr s"
    "\<forall>r \<in> set (rows t). enunciado r \<noteq> s"
    "asInt (d ''dificuldade'') = Some di" "asBool (nullish (d ''ativa'') (JBool True)) = Some av"
    "ob = select questionCol questionFields
            \<lparr>id' = nextId t, ativa = av, createdAt = now, updatedAt = now,
             enunciado = s, dificuldade = di, respostaCorreta = rc,
             disciplinaId = ds, autorId = au\<rparr>"
    "t' = t\<lparr>rows := rows t @
                [\<lparr>id' = nextId t, ativa = av, createdAt = now, updatedAt = now,
                  enunciado = s, dificuldade = di, respostaCorreta = rc,
                  disciplinaId = ds, autorId = au\<rparr>],
            nextId := nextId t + 1\<rparr>"
  using assms unfolding createQuestion_cases
  by (auto simp: asString_Some_iff split: sum.splits option.splits if_splits)

lemma createSubject_Inr:
  assumes "createSubject now t d = (Inr ob, t')"
  obtains s p av where
    "validateSubjectData d = Inr ()" "d ''nome'' = JStr s"
    "\<forall>r \<in> set (rows t). nome r \<noteq> s"
    "asBool (nullish (d ''ativa'') (JBool True)) = Some av"
    "ob = select subjectCol subjectFields
            \<lparr>id' = nextId t, ativa = av, createdAt = now, updatedAt = now,
             nome = s, professorId = p\<rparr>"
    "t' = t\<lparr>rows := rows t @
                [\<lparr>id' = nextId t, ativa = av, createdAt = now, updatedAt = now,
                  nome = s, professorId = p\<rparr>],
            nextId := nextId t + 1\<rparr>"
  using assms unfolding createSubject_cases
  by (auto simp: asString_Some_iff split: sum.splits option.splits if_splits)

lemma nullish_ativa:
  "asBool (nullish (JBool b) (JBool True)) = Some b"
  "asBool (nullish JUndefined (JBool True)) = Some True"
  "asBool (nullish JNull (JBool True)) = Some True"
  by (simp_all add: nullish_def asBool_def)

lemma select_question_ativa:
  "map_of (select questionCol questionFields r) ''ativa'' = Some (DBool (ativa r))"
  by (simp add: select_def questionCol_def rowCol_def)

lemma select_subject_ativa:
  "map_of (select subjectCol subjectFields r) ''ativa'' = Some (DBool (ativa r))"
  by (simp add: select_def subjectCol_def rowCol_def)

lemma exCreateQuestion:
  "createQuestion 30 exQuestions exQuestionData =
     (Inr [(''id'', DInt 4), (''enunciado'', DStr ''5-3=?''), (''dificuldade'', DInt 2),
           (''respostaCorreta'', DStr ''2''), (''disciplinaId'', DInt 1), (''autorId'', DInt 3),
           (''ativa'', DBool True), (''createdAt'', DDate 30), (''updatedAt'', DDate 30)],
      \<lparr>rows = [exQuestion1, exQuestion2,
               \<lparr>id' = 4, ativa = True, createdAt = 30, updatedAt = 30, enunciado = ''5-3=?'',
                dificuldade = 2, respostaCorreta = ''2'', disciplinaId = 1, autorId = 3\<rparr>],
        nextId = 5\<rparr>)"
  by (simp add: create_eval js_eval store_eval ex_defs)

lemma exCreateQuestionInactive:
  "createQuestion 30 exQuestions (exQuestionData(''ativa'' := JBool False)) =
     (Inr [(''id'', DInt 4), (''enunciado'', DStr ''5-3=?''), (''dificuldade'', DInt 2),
           (''respostaCorreta'', DStr ''2''), (''disciplinaId'', DInt 1), (''autorId'', DInt 3),
           (''ativa'', DBool False), (''createdAt'', DDate 30), (''updatedAt'', DDate 30)],
      \<lparr>rows = [exQuestion1, exQuestion2,
               \<lparr>id' = 4, ativa = False, createdAt = 30, updatedAt = 30, enunciado = ''5-3=?'',
                dificuldade = 2, respostaCorreta = ''2'', disciplinaId = 1, autorId = 3\<rparr>],
        nextId = 5\<rparr>)"
  by (simp add: create_eval js_eval store_eval ex_defs)

lemma exCreateSubject:
  "createSubject 30 exSubjects exSubjectData =
     (Inr [(''id'', DInt 2), (''nome'', DStr ''Geometry''), (''ativa'', DBool True),
           (''professorId'', DInt 7), (''createdAt'', DDate 30), (''updatedAt'', DDate 30)],
      \<lparr>rows = [exSubject1,
               \<lparr>id' = 2, ativa = True, createdAt = 30, updatedAt = 30, nome = ''Geometry'',
                professorId = 7\<rparr>],
        nextId = 3\<rparr>)"
  by (simp add: create_eval js_eval store_eval ex_defs)

text \<open>
  Claim C7. When \<open>createQuestion\<close> or \<open>createSubject\<close> succeeds, one row is appended to
  the table, the object returned is the selection of that row, and the active flag of both
  is the boolean given in the input, or \<open>true\<close> when the input has no \<open>ativa\<close> property.
\<close>

theorem create_active_default:
  "(createQuestion now t d = (Inr ob, t') \<longrightarrow>
      (\<exists>r. rows t' = rows t @ [r] \<and> ob = select questionCol questionFields r
         \<and> map_of ob ''ativa'' = Some (DBool (ativa r))
         \<and> (\<forall>b. d ''ativa'' = JBool b \<longrightarrow> ativa r = b)
         \<and> (d ''ativa'' = JUndefined \<longrightarrow> ativa r = True)))
   \<and> (createSubject now u e = (Inr sb, u') \<longrightarrow>
      (\<exists>r. rows u' = rows u @ [r] \<and> sb = select subjectCol subjectFields r
         \<and> map_of sb ''ativa'' = Some (DBool (ativa r))
         \<and> (\<forall>b. e ''ativa'' = JBool b \<longrightarrow> ativa r = b)
         \<and> (e ''ativa'' = JUndefined \<longrightarrow> ativa r = True)))"
proof (intro conjI impI)
  assume "createQuestion now t d = (Inr ob, t')"
  then obtain s di rc ds au av where
    av: "asBool (nullish (d ''ativa'') (JBool True)) = Some av"
    and ob: "ob = select questionCol questionFields
            \<lparr>id' = nextId t, ativa = av, createdAt = now, updatedAt = now,
             enunciado = s, dificuldade = di, respostaCorreta = rc,
             disciplinaId = ds, autorId = au\<rparr>"
    and t': "t' = t\<lparr>rows := rows t @
                [\<lparr>id' = nextId t, ativa = av, createdAt = now, updatedAt = now,
                  enunciado = s, dificuldade = di, respostaCorreta = rc,
                  disciplinaId = ds, autorId = au\<rparr>],
            nextId := nextId t + 1\<rparr>"
    by (rule createQuestion_Inr)
  let ?r = "\<lparr>id' = nextId t, ativa = av, createdAt = now, updatedAt = now,
             enunciado = s, dificuldade = di, respostaCorreta = rc,
             disciplinaId = ds, autorId = au\<rparr>"
  have "rows t' = rows t @ [?r]" using t' by simp
  moreover have "map_of ob ''ativa'' = Some (DBool (ativa ?r))"
    unfolding ob by (rule select_question_ativa)
  moreover have "\<forall>b. d ''ativa'' = JBool b \<longrightarrow> ativa ?r = b"
    using av by (auto simp: nullish_ativa)
  moreover have "d ''ativa'' = JUndefined \<longrightarrow> ativa ?r = True"
    using av by (auto simp: nullish_ativa)
  ultimately show "\<exists>r. rows t' = rows t @ [r] \<and> ob = select questionCol questionFields r
         \<and> map_of ob ''ativa'' = Some (DBool (ativa r))
         \<and> (\<forall>b. d ''ativa'' = JBool b \<longrightarrow> ativa r = b)
         \<and> (d ''ativa'' = JUndefined \<longrightarrow> ativa r = True)"
    using ob by blast
next
  assume "createSubject now u e = (Inr sb, u')"
  then obtain s p av where
    av: "asBool (nullish (e ''ativa'') (JBool True)) = Some av"
    and sb: "sb = select subjectCol subjectFields
            \<lparr>id' = nextId u, ativa = av, createdAt = now, updatedAt = now,
             nome = s, professorId = p\<rparr>"
    and u': "u' = u\<lparr>rows := rows u @
                [\<lparr>id' = nextId u, ativa = av, createdAt = now, updatedAt = now,
                  nome = s, professorId = p\<rparr>],
            nextId := nextId u + 1\<rparr>"
    by (rule createSubject_Inr)
  let ?r = "\<lparr>id' = nextId u, ativa = av, createdAt = now, updatedAt = now,
             nome = s, professorId = p\<rparr>"
  have "rows u' = rows u @ [?r]" using u' by simp
  moreover have "map_of sb ''ativa'' = Some (DBool (ativa ?r))"
    unfolding sb by (rule select_subject_ativa)
  moreover have "\<forall>b. e ''ativa'' = JBool b \<longrightarrow> ativa ?r = b"
    using av by (auto simp: nullish_ativa)
  moreover have "e ''ativa'' = JUndefined \<longrightarrow> ativa ?r = True"
    using av by (auto simp: nullish_ativa)
  ultimately show "\<exists>r. rows u' = rows u @ [r] \<and> sb = select subjectCol subjectFields r
         \<and> map_of sb ''ativa'' = Some (DBool (ativa r))
         \<and> (\<forall>b. e ''ativa'' = JBool b \<longrightarrow> ativa r = b)
         \<and> (e ''ativa'' = JUndefined \<longrightarrow> ativa r = True)"
    using sb by blast
qed

theorem create_active_default_witness:
  "(\<exists>ob t'. createQuestion 30 exQuestions exQuestionData = (Inr ob, t')
       \<and> map_of ob ''ativa'' = Some (DBool True) \<and> ativa (last (rows t')) = True)
   \<and> (\<exists>ob t'. createQuestion 30 exQuestions (exQuestionData(''ativa'' := JBool False)) = (Inr ob, t')
       \<and> map_of ob ''ativa'' = Some (DBool False) \<and> ativa (last (rows t')) = False)
   \<and> (\<exists>sb u'. createSubject 30 exSubjects exSubjectData = (Inr sb, u')
       \<and> map_of sb ''ativa'' = Some (DBool True) \<and> ativa (last (rows u')) = True)"
proof -
  have u: "exQuestionData ''ativa'' = JUndefined" "exSubjectData ''ativa'' = JUndefined"
    "(exQuestionData(''ativa'' := JBool False)) ''ativa'' = JBool False"
    by (simp_all add: exQuestionData_def exSubjectData_def emptyObj_def)
  from create_active_default [THEN conjunct1, rule_format, OF exCreateQuestion] u(1)
  have 1: "\<exists>ob t'. createQuestion 30 exQuestions exQuestionData = (Inr ob, t')
       \<and> map_of ob ''ativa'' = Some (DBool True) \<and> ativa (last (rows t')) = True"
    unfolding exCreateQuestion by (auto simp: select_question_ativa)
  from create_active_default [THEN conjunct1, rule_format, OF exCreateQuestionInactive] u(3)
  have 2: "\<exists>ob t'. createQuestion 30 exQuestions (exQuestionData(''ativa'' := JBool False)) = (Inr ob, t')
       \<and> map_of ob ''ativa'' = Some (DBool False) \<and> ativa (last (rows t')) = False"
    unfolding exCreateQuestionInactive by (auto simp: select_question_ativa)
  from create_active_default [THEN conjunct2, rule_format, OF exCreateSubject] u(2)
  have 3: "\<exists>sb u'. createSubject 30 exSubjects exSubjectData = (Inr sb, u')
       \<and> map_of sb ''ativa'' = Some (DBool True) \<and> ativa (last (rows u')) = True"
    unfolding exCreateSubject by (auto simp: select_subject_ativa)
  from 1 2 3 show ?thesis by blast
qed

section \<open>Uniqueness of the statement and of the name\<close>

lemma createQuestion_conflict:
  assumes "validateQuestionData d = Inr ()"
    and "\<exists>r \<in> set (rows t). JStr (enunciado r) = d ''enunciado''"
  shows "createQuestion now t d = (Inl EnunciadoJaCadastrado, t)"
proof -
  from assms(2) obtain r where "r \<in> set (rows t)" "d ''enunciado'' = JStr (enunciado r)"
    by auto
  then have "asString (d ''enunciado'') = Some (enunciado r)"
    "\<exists>x \<in> set (rows t). enunciado x = enunciado r"
    by (auto simp: asString_Some_iff)
  with assms(1) show ?thesis by (simp add: createQuestion_cases)
qed

lemma createSubject_conflict:
  assumes "validateSubjectData d = Inr ()"
    and "\<exists>r \<in> set (rows t). JStr (nome r) = d ''nome''"
  shows "createSubject now t d = (Inl NomeJaCadastrado, t)"
proof -
  from assms(2) obtain r where "r \<in> set (rows t)" "d ''nome'' = JStr (nome r)"
    by auto
  then have "asString (d ''nome'') = Some (nome r)" "\<exists>x \<in> set (rows t). nome x = nome r"
    by (auto simp: asString_Some_iff)
  with assms(1) show ?thesis by (simp add: createSubject_cases)
qed

lemma createQuestion_twice:
  assumes "createQuestion now t d = (Inr ob, t')" "validateQuestionData d2 = Inr ()"
    "d2 ''enunciado'' = d ''enunciado''"
  shows "createQuestion now2 t' d2 = (Inl EnunciadoJaCadastrado, t')"
proof -
  from assms(1) obtain s r where "d ''enunciado'' = JStr s" "rows t' = rows t @ [r]"
    "enunciado r = s"
    by (rule createQuestion_Inr) simp
  with assms(3) have "\<exists>r \<in> set (rows t'). JStr (enunciado r) = d2 ''enunciado''" by auto
  with assms(2) show ?thesis by (rule createQuestion_conflict)
qed

lemma createSubject_twice:
  assumes "createSubject now t d = (Inr ob, t')" "validateSubjectData d2 = Inr ()"
    "d2 ''nome'' = d ''nome''"
  shows "createSubject now2 t' d2 = (Inl NomeJaCadastrado, t')"
proof -
  from assms(1) obtain s r where "d ''nome'' = JStr s" "rows t' = rows t @ [r]" "nome r = s"
    by (rule createSubject_Inr) simp
  with assms(3) have "\<exists>r \<in> set (rows t'). JStr (nome r) = d2 ''nome''" by auto
  with assms(2) show ?thesis by (rule createSubject_conflict)
qed

lemma updateQuestion_conflict_only:
  assumes "failsWith (fst (updateQuestion now t v d)) Conflict"
  shows "truthy (d ''enunciado'') \<and>
     (\<exists>n r. parseInt v = Some n \<and> find (\<lambda>x. id' x = n) (rows t) = Some r
        \<and> d ''enunciado'' \<noteq> JStr (enunciado r)
        \<and> (\<exists>x \<in> set (rows t). JStr (enunciado x) = d ''enunciado''))"
proof (cases rule: id_cases [where v = v and xs = "rows t"])
  case 1
  with assms show ?thesis by (simp add: updateQuestion_invalid failsWith_def)
next
  case 2
  with assms show ?thesis by (simp add: updateQuestion_nan failsWith_def)
next
  case (3 n)
  with assms show ?thesis by (simp add: updateQuestion_absent failsWith_def)
next
  case (4 n r)
  from 4(2) have pv: "parseInt v = Some n" and fit: "fitsInt64 n"
    by (simp_all add: whereId_Some_iff)
  from assms have "truthy (d ''enunciado'') \<and> d ''enunciado'' \<noteq> JStr (enunciado r)
      \<and> (\<exists>x \<in> set (rows t). JStr (enunciado x) = d ''enunciado'')"
    unfolding updateQuestion_found [OF 4] questionUpdate_found [OF 4(3) fit]
    by (simp add: failsWith_def split: if_splits)
  with 4(3) pv show ?thesis by blast
qed

lemma updateSubject_conflict_only:
  assumes "failsWith (fst (updateSubject now t v d)) Conflict"
  shows "truthy (d ''nome'') \<and>
     (\<exists>n r. parseInt v = Some n \<and> find (\<lambda>x. id' x = n) (rows t) = Some r
        \<and> d ''nome'' \<noteq> JStr (nome r)
        \<and> (\<exists>x \<in> set (rows t). JStr (nome x) = d ''nome''))"
proof (cases rule: id_cases [where v = v and xs = "rows t"])
  case 1
  with assms show ?thesis by (simp add: updateSubject_invalid failsWith_def)
next
  case 2
  with assms show ?thesis by (simp add: updateSubject_nan failsWith_def)
next
  case (3 n)
  with assms show ?thesis by (simp add: updateSubject_absent failsWith_def)
next
  case (4 n r)
  from 4(2) have pv: "parseInt v = Some n" and fit: "fitsInt64 n"
    by (simp_all add: whereId_Some_iff)
  from assms have "truthy (d ''nome'') \<and> d ''nome'' \<noteq> JStr (nome r)
      \<and> (\<exists>x \<in> set (rows t). JStr (nome x) = d ''nome'')"
    unfolding updateSubject_found [OF 4] subjectUpdate_found [OF 4(3) fit]
    by (simp add: failsWith_def split: if_splits)
  with 4(3) pv show ?thesis by blast
qed

lemma updateQuestion_own_enunciado:
  assumes "positiveNumeric v" "whereId (parseInt v) = Some n"
    "find (\<lambda>r. id' r = n) (rows t) = Some r"
  shows "fst (updateQuestion now t v (emptyObj(''enunciado'' := JStr (enunciado r))))
      = Inr (select questionCol questionFields
               (r\<lparr>updatedAt := (if enunciado r = [] then updatedAt r else now)\<rparr>))"
proof -
  from assms(2) have fit: "fitsInt64 n" by (simp add: whereId_Some_iff)
  show ?thesis
    unfolding updateQuestion_found [OF assms] questionUpdate_found [OF assms(3) fit]
    by (simp add: questionDados_apply questionPatch_def noData_def emptyObj_def patchOk_def
          patched_def asString_def asInt_def asBool_def)
qed

lemma updateSubject_own_nome:
  assumes "positiveNumeric v" "whereId (parseInt v) = Some n"
    "find (\<lambda>r. id' r = n) (rows t) = Some r"
  shows "fst (updateSubject now t v (emptyObj(''nome'' := JStr (nome r))))
      = Inr (select subjectCol subjectFields
               (r\<lparr>updatedAt := (if nome r = [] then updatedAt r else now)\<rparr>))"
proof -
  from assms(2) have fit: "fitsInt64 n" by (simp add: whereId_Some_iff)
  show ?thesis
    unfolding updateSubject_found [OF assms] subjectUpdate_found [OF assms(3) fit]
    by (simp add: subjectDados_apply subjectPatch_def noData_def emptyObj_def patchOk_def
          patched_def asString_def asInt_def asBool_def)
qed

lemma updateQuestion_conflict:
  assumes "positiveNumeric v" "whereId (parseInt v) = Some n"
    "find (\<lambda>r. id' r = n) (rows t) = Some r"
    and "s \<noteq> []" "s \<noteq> enunciado r" "\<exists>x \<in> set (rows t). enunciado x = s"
  shows "updateQuestion now t v (d(''enunciado'' := JStr s)) = (Inl EnunciadoEmUso, t)"
  unfolding updateQuestion_found [OF assms(1-3)]
  using assms(4-6) by (simp add: asString_def)

lemma updateSubject_conflict:
  assumes "positiveNumeric v" "whereId (parseInt v) = Some n"
    "find (\<lambda>r. id' r = n) (rows t) = Some r"
    and "s \<noteq> []" "s \<noteq> nome r" "\<exists>x \<in> set (rows t). nome x = s"
  shows "updateSubject now t v (d(''nome'' := JStr s)) = (Inl NomeEmUso, t)"
  unfolding updateSubject_found [OF assms(1-3)]
  using assms(4-6) by (simp add: asString_def)

text \<open>
  Claim C5. Creating a record whose statement (for a subject, name) is that of a record
  in the table fails with \<open>Conflict\<close> and leaves the table as it was; so does the second
  of two creates with the same statement. An update fails with \<open>Conflict\<close> only when the
  statement given is truthy, differs from the current one of the record and is that of
  some record; it does fail then; and an update of a record to its own current statement
  succeeds. The identifier of the record is an integer that fits the identifier column;
  the update to the own statement is a write, which sets \<open>updatedAt\<close>, unless that
  statement is empty and therefore dropped from the data.
\<close>

theorem uniqueness_conflict:
  "(validateQuestionData d = Inr () \<and> (\<exists>x \<in> set (rows t). JStr (enunciado x) = d ''enunciado'') \<longrightarrow>
      failsWith (fst (createQuestion now t d)) Conflict \<and> snd (createQuestion now t d) = t)
   \<and> (createQuestion now t d = (Inr ob, t') \<and> validateQuestionData dd = Inr ()
        \<and> dd ''enunciado'' = d ''enunciado'' \<longrightarrow>
      failsWith (fst (createQuestion later t' dd)) Conflict \<and> snd (createQuestion later t' dd) = t')
   \<and> (failsWith (fst (updateQuestion now t v d)) Conflict \<longrightarrow>
        truthy (d ''enunciado'') \<and>
        (\<exists>n r. parseInt v = Some n \<and> find (\<lambda>x. id' x = n) (rows t) = Some r
           \<and> d ''enunciado'' \<noteq> JStr (enunciado r)
           \<and> (\<exists>x \<in> set (rows t). JStr (enunciado x) = d ''enunciado'')))
   \<and> (positiveNumeric v \<and> parseInt v = Some n \<and> fitsInt64 n
        \<and> find (\<lambda>x. id' x = n) (rows t) = Some r \<longrightarrow>
        fst (updateQuestion now t v (emptyObj(''enunciado'' := JStr (enunciado r))))
          = Inr (select questionCol questionFields
                   (r\<lparr>updatedAt := (if enunciado r = [] then updatedAt r else now)\<rparr>))
        \<and> (s \<noteq> [] \<and> s \<noteq> enunciado r \<and> (\<exists>x \<in> set (rows t). enunciado x = s) \<longrightarrow>
             failsWith (fst (updateQuestion now t v (d(''enunciado'' := JStr s)))) Conflict
             \<and> snd (updateQuestion now t v (d(''enunciado'' := JStr s))) = t))
   \<and> (validateSubjectData e = Inr () \<and> (\<exists>x \<in> set (rows u). JStr (nome x) = e ''nome'') \<longrightarrow>
      failsWith (fst (createSubject now u e)) Conflict \<and> snd (createSubject now u e) = u)
   \<and> (createSubject now u e = (Inr sb, u') \<and> validateSubjectData ee = Inr ()
        \<and> ee ''nome'' = e ''nome'' \<longrightarrow>
      failsWith (fst (createSubject later u' ee)) Conflict \<and> snd (createSubject later u' ee) = u')
   \<and> (failsWith (fst (updateSubject now u w e)) Conflict \<longrightarrow>
        truthy (e ''nome'') \<and>
        (\<exists>n r. parseInt w = Some n \<and> find (\<lambda>x. id' x = n) (rows u) = Some r
           \<and> e ''nome'' \<noteq> JStr (nome r)
           \<and> (\<exists>x \<in> set (rows u). JStr (nome x) = e ''nome'')))
   \<and> (positiveNumeric w \<and> parseInt w = Some m \<and> fitsInt64 m
        \<and> find (\<lambda>x. id' x = m) (rows u) = Some p \<longrightarrow>
        fst (updateSubject now u w (emptyObj(''nome'' := JStr (nome p))))
          = Inr (select subjectCol subjectFields
                   (p\<lparr>updatedAt := (if nome p = [] then updatedAt p else now)\<rparr>))
        \<and> (z \<noteq> [] \<and> z \<noteq> nome p \<and> (\<exists>x \<in> set (rows u). nome x = z) \<longrightarrow>
             failsWith (fst (updateSubject now u w (e(''nome'' := JStr z)))) Conflict
             \<and> snd (updateSubject now u w (e(''nome'' := JStr z))) = u))"
proof (intro conjI impI)
  assume "validateQuestionData d = Inr () \<and> (\<exists>x \<in> set (rows t). JStr (enunciado x) = d ''enunciado'')"
  then have "createQuestion now t d = (Inl EnunciadoJaCadastrado, t)"
    by (intro createQuestion_conflict) blast+
  then show "failsWith (fst (createQuestion now t d)) Conflict" "snd (createQuestion now t d) = t"
    by (simp_all add: failsWith_def)
next
  assume "createQuestion now t d = (Inr ob, t') \<and> validateQuestionData dd = Inr ()
        \<and> dd ''enunciado'' = d ''enunciado''"
  then have "createQuestion later t' dd = (Inl EnunciadoJaCadastrado, t')"
    by (intro createQuestion_twice [where d = d and t = t]) blast+
  then show "failsWith (fst (createQuestion later t' dd)) Conflict"
    "snd (createQuestion later t' dd) = t'"
    by (simp_all add: failsWith_def)
next
  assume "failsWith (fst (updateQuestion now t v d)) Conflict"
  then have c: "truthy (d ''enunciado'') \<and>
        (\<exists>n r. parseInt v = Some n \<and> find (\<lambda>x. id' x = n) (rows t) = Some r
           \<and> d ''enunciado'' \<noteq> JStr (enunciado r)
           \<and> (\<exists>x \<in> set (rows t). JStr (enunciado x) = d ''enunciado''))"
    by (rule updateQuestion_conflict_only)
  from c show "truthy (d ''enunciado'')" ..
  from c show "\<exists>n r. parseInt v = Some n \<and> find (\<lambda>x. id' x = n) (rows t) = Some r
           \<and> d ''enunciado'' \<noteq> JStr (enunciado r)
           \<and> (\<exists>x \<in> set (rows t). JStr (enunciado x) = d ''enunciado'')" ..
next
  assume a: "positiveNumeric v \<and> parseInt v = Some n \<and> fitsInt64 n
        \<and> find (\<lambda>x. id' x = n) (rows t) = Some r"
  then have h: "positiveNumeric v" "whereId (parseInt v) = Some n"
      "find (\<lambda>x. id' x = n) (rows t) = Some r"
    by (simp_all add: whereId_Some_iff)
  show "fst (updateQuestion now t v (emptyObj(''enunciado'' := JStr (enunciado r))))
          = Inr (select questionCol questionFields
                   (r\<lparr>updatedAt := (if enunciado r = [] then updatedAt r else now)\<rparr>))"
    using h by (rule updateQuestion_own_enunciado)
  { assume "s \<noteq> [] \<and> s \<noteq> enunciado r \<and> (\<exists>x \<in> set (rows t). enunciado x = s)"
    then have "updateQuestion now t v (d(''enunciado'' := JStr s)) = (Inl EnunciadoEmUso, t)"
      by (intro updateQuestion_conflict [OF h]) blast+
    then show "failsWith (fst (updateQuestion now t v (d(''enunciado'' := JStr s)))) Conflict"
      "snd (updateQuestion now t v (d(''enunciado'' := JStr s))) = t"
      by (simp_all add: failsWith_def) }
next
  assume "validateSubjectData e = Inr () \<and> (\<exists>x \<in> set (rows u). JStr (nome x) = e ''nome'')"
  then have "createSubject now u e = (Inl NomeJaCadastrado, u)"
    by (intro createSubject_conflict) blast+
  then show "failsWith (fst (createSubject now u e)) Conflict" "snd (createSubject now u e) = u"
    by (simp_all add: failsWith_def)
next
  assume "createSubject now u e = (Inr sb, u') \<and> validateSubjectData ee = Inr ()
        \<and> ee ''nome'' = e ''nome''"
  then have "createSubject later u' ee = (Inl NomeJaCadastrado, u')"
    by (intro createSubject_twice [where d = e and t = u]) blast+
  then show "failsWith (fst (createSubject later u' ee)) Conflict"
    "snd (createSubject later u' ee) = u'"
    by (simp_all add: failsWith_def)
next
  assume "failsWith (fst (updateSubject now u w e)) Conflict"
  then have c: "truthy (e ''nome'') \<and>
        (\<exists>n r. parseInt w = Some n \<and> find (\<lambda>x. id' x = n) (rows u) = Some r
           \<and> e ''nome'' \<noteq> JStr (nome r)
           \<and> (\<exists>x \<in> set (rows u). JStr (nome x) = e ''nome''))"
    by (rule updateSubject_conflict_only)
  from c show "truthy (e ''nome'')" ..
  from c show "\<exists>n r. parseInt w = Some n \<and> find (\<lambda>x. id' x = n) (rows u) = Some r
           \<and> e ''nome'' \<noteq> JStr (nome r)
           \<and> (\<exists>x \<in> set (rows u). JStr (nome x) = e ''nome'')" ..
next
  assume a: "positiveNumeric w \<and> parseInt w = Some m \<and> fitsInt64 m
        \<and> find (\<lambda>x. id' x = m) (rows u) = Some p"
  then have h: "positiveNumeric w" "whereId (parseInt w) = Some m"
      "find (\<lambda>x. id' x = m) (rows u) = Some p"
    by (simp_all add: whereId_Some_iff)
  show "fst (updateSubject now u w (emptyObj(''nome'' := JStr (nome p))))
          = Inr (select subjectCol subjectFields
                   (p\<lparr>updatedAt := (if nome p = [] then updatedAt p else now)\<rparr>))"
    using h by (rule updateSubject_own_nome)
  { assume "z \<noteq> [] \<and> z \<noteq> nome p \<and> (\<exists>x \<in> set (rows u). nome x = z)"
    then have "updateSubject now u w (e(''nome'' := JStr z)) = (Inl NomeEmUso, u)"
      by (intro updateSubject_conflict [OF h]) blast+
    then show "failsWith (fst (updateSubject now u w (e(''nome'' := JStr z)))) Conflict"
      "snd (updateSubject now u w (e(''nome'' := JStr z))) = u"
      by (simp_all add: failsWith_def) }
qed

theorem uniqueness_conflict_witness:
  "failsWith (fst (createQuestion 40 exQuestions (exQuestionData(''enunciado'' := JStr ''2+2=?''))))
     Conflict
   \<and> snd (createQuestion 40 exQuestions (exQuestionData(''enunciado'' := JStr ''2+2=?'')))
       = exQuestions
   \<and> (\<exists>ob t'. createQuestion 30 exQuestions exQuestionData = (Inr ob, t')
         \<and> failsWith (fst (createQuestion 40 t' exQuestionData)) Conflict
         \<and> snd (createQuestion 40 t' exQuestionData) = t')
   \<and> failsWith (fst (updateQuestion 40 exQuestions (JNum (Fin 3))
                       (emptyObj(''enunciado'' := JStr ''2+2=?'')))) Conflict
   \<and> fst (updateQuestion 40 exQuestions (JNum (Fin 1)) (emptyObj(''enunciado'' := JStr ''2+2=?'')))
       = Inr (select questionCol questionFields (exQuestion1\<lparr>updatedAt := 40\<rparr>))
   \<and> failsWith (fst (createSubject 40 exSubjects (exSubjectData(''nome'' := JStr ''Algebra''))))
       Conflict
   \<and> fst (updateSubject 40 exSubjects (JNum (Fin 1)) (emptyObj(''nome'' := JStr ''Algebra'')))
       = Inr (select subjectCol subjectFields (exSubject1\<lparr>updatedAt := 40\<rparr>))"
proof -
  have v: "validateQuestionData (exQuestionData(''enunciado'' := JStr ''2+2=?'')) = Inr ()"
    "validateQuestionData exQuestionData = Inr ()"
    "validateSubjectData (exSubjectData(''nome'' := JStr ''Algebra'')) = Inr ()"
    by (simp_all add: validateQuestionData_def validateSubjectData_def exQuestionData_def
          exSubjectData_def emptyObj_def js_eval)
  have x: "\<exists>x \<in> set (rows exQuestions).
             JStr (enunciado x) = (exQuestionData(''enunciado'' := JStr ''2+2=?'')) ''enunciado''"
    "\<exists>x \<in> set (rows exSubjects).
             JStr (nome x) = (exSubjectData(''nome'' := JStr ''Algebra'')) ''nome''"
    by (simp_all add: ex_defs)
  have p: "positiveNumeric (JNum (Fin 1))" "parseInt (JNum (Fin 1)) = Some 1"
    "positiveNumeric (JNum (Fin 3))" "parseInt (JNum (Fin 3)) = Some 3"
    by (simp_all add: js_eval)
  have i: "fitsInt64 1" "fitsInt64 3" by (simp_all add: fitsInt64_def)
  have f: "find (\<lambda>x. id' x = 1) (rows exQuestions) = Some exQuestion1"
    "find (\<lambda>x. id' x = 3) (rows exQuestions) = Some exQuestion2"
    "find (\<lambda>x. id' x = 1) (rows exSubjects) = Some exSubject1"
    by (simp_all add: ex_defs)
  have c: "''2+2=?'' \<noteq> [] \<and> ''2+2=?'' \<noteq> enunciado exQuestion2
           \<and> (\<exists>x \<in> set (rows exQuestions). enunciado x = ''2+2=?'')"
    by (simp add: ex_defs)
  have own: "enunciado exQuestion1 = ''2+2=?''" "nome exSubject1 = ''Algebra''"
    by (simp_all add: ex_defs)
  note c1 = uniqueness_conflict [THEN conjunct1, rule_format]
  note c2 = uniqueness_conflict [where later = 40, THEN conjunct2, THEN conjunct1, rule_format]
  note c4 = uniqueness_conflict [where now = 40 and d = emptyObj,
      THEN conjunct2, THEN conjunct2, THEN conjunct2, THEN conjunct1, rule_format]
  note c5 = uniqueness_conflict [THEN conjunct2, THEN conjunct2, THEN conjunct2, THEN conjunct2,
      THEN conjunct1, rule_format]
  note c8 = uniqueness_conflict [where now = 40,
      THEN conjunct2, THEN conjunct2, THEN conjunct2, THEN conjunct2,
      THEN conjunct2, THEN conjunct2, THEN conjunct2, rule_format]
  from c1 [OF conjI [OF v(1) x(1)]]
  have 1: "failsWith (fst (createQuestion 40 exQuestions
                             (exQuestionData(''enunciado'' := JStr ''2+2=?'')))) Conflict
     \<and> snd (createQuestion 40 exQuestions (exQuestionData(''enunciado'' := JStr ''2+2=?'')))
         = exQuestions" .
  from c5 [OF conjI [OF v(3) x(2)]]
  have 5: "failsWith (fst (createSubject 40 exSubjects (exSubjectData(''nome'' := JStr ''Algebra''))))
       Conflict" ..
  from c2 [OF conjI [OF exCreateQuestion conjI [OF v(2) refl]]]
  have 2: "\<exists>ob t'. createQuestion 30 exQuestions exQuestionData = (Inr ob, t')
         \<and> failsWith (fst (createQuestion 40 t' exQuestionData)) Conflict
         \<and> snd (createQuestion 40 t' exQuestionData) = t'"
    using exCreateQuestion by blast
  from c4 [OF conjI [OF p(3) conjI [OF p(4) conjI [OF i(2) f(2)]]], THEN conjunct2, rule_format, OF c]
  have 3: "failsWith (fst (updateQuestion 40 exQuestions (JNum (Fin 3))
                       (emptyObj(''enunciado'' := JStr ''2+2=?'')))) Conflict" ..
  from c4 [OF conjI [OF p(1) conjI [OF p(2) conjI [OF i(1) f(1)]]], THEN conjunct1]
  have 4: "fst (updateQuestion 40 exQuestions (JNum (Fin 1))
                          (emptyObj(''enunciado'' := JStr ''2+2=?'')))
       = Inr (select questionCol questionFields (exQuestion1\<lparr>updatedAt := 40\<rparr>))"
    by (simp add: own)
  from c8 [OF conjI [OF p(1) conjI [OF p(2) conjI [OF i(1) f(3)]]], THEN conjunct1]
  have 6: "fst (updateSubject 40 exSubjects (JNum (Fin 1)) (emptyObj(''nome'' := JStr ''Algebra'')))
       = Inr (select subjectCol subjectFields (exSubject1\<lparr>updatedAt := 40\<rparr>))"
    by (simp add: own)
  from 1 2 3 4 5 6 show ?thesis by blast
qed

section \<open>The shape of the objects returned\<close>

lemma map_fst_select_question:
  "map fst (select questionCol questionFields r) = questionFields"
  "map fst (select questionCol [''id'', ''enunciado'', ''dificuldade'', ''respostaCorreta'',
                                ''disciplinaId'', ''autorId''] r)
     = [''id'', ''enunciado'', ''dificuldade'', ''respostaCorreta'', ''disciplinaId'', ''autorId'']"
  by (simp_all add: select_def questionCol_def rowCol_def)

lemma map_fst_select_subject:
  "map fst (select subjectCol subjectFields r) = subjectFields"
  "map fst (select subjectCol [''id'', ''nome'', ''ativa'', ''professorId''] r)
     = [''id'', ''nome'', ''ativa'', ''professorId'']"
  by (simp_all add: select_def subjectCol_def rowCol_def)

lemma deleteQuestion_Inr:
  assumes "deleteQuestion t v = (Inr ob, t')"
  obtains r where "ob = select questionCol [''id'', ''enunciado'', ''dificuldade'',
                         ''respostaCorreta'', ''disciplinaId'', ''autorId''] r"
  using assms unfolding deleteQuestion_cases
  by (auto split: if_splits option.splits)

lemma deleteSubject_Inr:
  assumes "deleteSubject t v = (Inr ob, t')"
  obtains r where "ob = select subjectCol [''id'', ''nome'', ''ativa'', ''professorId''] r"
  using assms unfolding deleteSubject_cases
  by (auto split: if_splits option.splits)

text \<open>
  Claim C4 says that every record returned, the one returned by \<open>delete\<close> included, has
  the identifier, the business columns and both timestamps. The objects returned by
  \<open>deleteQuestion\<close> and \<open>deleteSubject\<close> have no timestamps: each function selects a
  shorter list of columns for the record it reads before deleting.
\<close>

theorem delete_snapshot_has_no_timestamps:
  "fst (deleteQuestion exQuestions (JNum (Fin 1))) =
     Inr [(''id'', DInt 1), (''enunciado'', DStr ''2+2=?''), (''dificuldade'', DInt 1),
          (''respostaCorreta'', DStr ''4''), (''disciplinaId'', DInt 1), (''autorId'', DInt 3)]
   \<and> fst (deleteSubject exSubjects (JNum (Fin 1))) =
     Inr [(''id'', DInt 1), (''nome'', DStr ''Algebra''), (''ativa'', DBool True),
          (''professorId'', DInt 7)]"
  by (simp add: deleteQuestion_def deleteSubject_def ex_defs js_eval store_eval)

text \<open>
  Claim C4, amended. Listing, reading, creating and updating return objects with exactly
  the identifier, the business columns and \<open>createdAt\<close> and \<open>updatedAt\<close>. Deleting returns
  an object with the identifier and business columns and without the timestamps:
  exactly \<open>id\<close>, \<open>nome\<close>, \<open>ativa\<close>, \<open>professorId\<close> for a subject; for a question \<open>id\<close>,
  \<open>enunciado\<close>, \<open>dificuldade\<close>, \<open>respostaCorreta\<close>, \<open>disciplinaId\<close>, \<open>autorId\<close>, each once,
  and nothing else, except that \<open>ativa\<close> is left open: the selection of
  \<open>deleteQuestion\<close> does not name it while that of \<open>deleteSubject\<close> does, and the
  statement takes no side on which of the two is meant.
\<close>

theorem result_shapes:
  "(\<forall>ob \<in> set (getAllQuestions t). map fst ob = questionFields)
   \<and> (getQuestionById t v = Inr (Some ob) \<longrightarrow> map fst ob = questionFields)
   \<and> (createQuestion now t d = (Inr ob, t') \<longrightarrow> map fst ob = questionFields)
   \<and> (updateQuestion now t v d = (Inr ob, t') \<longrightarrow> map fst ob = questionFields)
   \<and> (deleteQuestion t v = (Inr ob, t') \<longrightarrow>
        set [''id'', ''enunciado'', ''dificuldade'', ''respostaCorreta'', ''disciplinaId'',
             ''autorId''] \<subseteq> set (map fst ob)
        \<and> set (map fst ob) \<subseteq> set [''id'', ''enunciado'', ''dificuldade'', ''respostaCorreta'',
             ''disciplinaId'', ''autorId'', ''ativa'']
        \<and> distinct (map fst ob)
        \<and> ''createdAt'' \<notin> set (map fst ob) \<and> ''updatedAt'' \<notin> set (map fst ob))
   \<and> (\<forall>sb \<in> set (getAllSubjects u). map fst sb = subjectFields)
   \<and> (getSubjectById u w = Inr (Some sb) \<longrightarrow> map fst sb = subjectFields)
   \<and> (createSubject now u e = (Inr sb, u') \<longrightarrow> map fst sb = subjectFields)
   \<and> (updateSubject now u w e = (Inr sb, u') \<longrightarrow> map fst sb = subjectFields)
   \<and> (deleteSubject u w = (Inr sb, u') \<longrightarrow>
        map fst sb = [''id'', ''nome'', ''ativa'', ''professorId''])"
proof (intro conjI impI ballI)
  fix x assume "x \<in> set (getAllQuestions t)"
  then obtain r where "x = select questionCol questionFields r"
    by (auto simp: getAllQuestions_def findMany_def)
  then show "map fst x = questionFields" by (simp only: map_fst_select_question)
next
  assume "getQuestionById t v = Inr (Some ob)"
  then obtain r where "ob = select questionCol questionFields r"
    by (auto simp: getQuestionById_Some_iff)
  then show "map fst ob = questionFields" by (simp only: map_fst_select_question)
next
  assume "createQuestion now t d = (Inr ob, t')"
  then obtain r where "ob = select questionCol questionFields r"
    by (rule createQuestion_Inr)
  then show "map fst ob = questionFields" by (simp only: map_fst_select_question)
next
  assume "updateQuestion now t v d = (Inr ob, t')"
  then obtain r where "ob = select questionCol questionFields r"
    by (rule updateQuestion_Inr)
  then show "map fst ob = questionFields" by (simp only: map_fst_select_question)
next
  assume "deleteQuestion t v = (Inr ob, t')"
  then obtain r where "ob = select questionCol [''id'', ''enunciado'', ''dificuldade'',
                         ''respostaCorreta'', ''disciplinaId'', ''autorId''] r"
    by (rule deleteQuestion_Inr)
  then have m: "map fst ob = [''id'', ''enunciado'', ''dificuldade'', ''respostaCorreta'',
      ''disciplinaId'', ''autorId'']"
    by (simp only: map_fst_select_question)
  show "set [''id'', ''enunciado'', ''dificuldade'', ''respostaCorreta'', ''disciplinaId'',
             ''autorId''] \<subseteq> set (map fst ob)"
    unfolding m by simp
  show "set (map fst ob) \<subseteq> set [''id'', ''enunciado'', ''dificuldade'', ''respostaCorreta'',
             ''disciplinaId'', ''autorId'', ''ativa'']"
    unfolding m by simp
  show "distinct (map fst ob)" unfolding m by simp
  show "''createdAt'' \<notin> set (map fst ob)" unfolding m by simp
  show "''updatedAt'' \<notin> set (map fst ob)" unfolding m by simp
next
  fix x assume "x \<in> set (getAllSubjects u)"
  then obtain r where "x = select subjectCol subjectFields r"
    by (auto simp: getAllSubjects_def findMany_def)
  then show "map fst x = subjectFields" by (simp only: map_fst_select_subject)
next
  assume "getSubjectById u w = Inr (Some sb)"
  then obtain r where "sb = select subjectCol subjectFields r"
    by (auto simp: getSubjectById_Some_iff)
  then show "map fst sb = subjectFields" by (simp only: map_fst_select_subject)
next
  assume "createSubject now u e = (Inr sb, u')"
  then obtain r where "sb = select subjectCol subjectFields r"
    by (rule createSubject_Inr)
  then show "map fst sb = subjectFields" by (simp only: map_fst_select_subject)
next
  assume "updateSubject now u w e = (Inr sb, u')"
  then obtain r where "sb = select subjectCol subjectFields r"
    by (rule updateSubject_Inr)
  then show "map fst sb = subjectFields" by (simp only: map_fst_select_subject)
next
  assume "deleteSubject u w = (Inr sb, u')"
  then obtain r where "sb = select subjectCol [''id'', ''nome'', ''ativa'', ''professorId''] r"
    by (rule deleteSubject_Inr)
  then show "map fst sb = [''id'', ''nome'', ''ativa'', ''professorId'']"
    by (simp only: map_fst_select_subject)
qed

theorem result_shapes_witness:
  "map fst (hd (getAllQuestions exQuestions)) = questionFields
   \<and> map fst (hd (getAllSubjects exSubjects)) = subjectFields
   \<and> (\<exists>ob. getQuestionById exQuestions (JNum (Fin 1)) = Inr (Some ob)
          \<and> map fst ob = questionFields)
   \<and> (\<exists>ob t'. createQuestion 30 exQuestions exQuestionData = (Inr ob, t')
          \<and> map fst ob = questionFields)
   \<and> (\<exists>ob t'. updateQuestion 20 exQuestions (JNum (Fin 1)) emptyObj = (Inr ob, t')
          \<and> map fst ob = questionFields)
   \<and> (\<exists>ob t'. deleteQuestion exQuestions (JNum (Fin 1)) = (Inr ob, t')
          \<and> ''enunciado'' \<in> set (map fst ob) \<and> distinct (map fst ob)
          \<and> ''createdAt'' \<notin> set (map fst ob) \<and> ''updatedAt'' \<notin> set (map fst ob))
   \<and> (\<exists>sb u'. createSubject 30 exSubjects exSubjectData = (Inr sb, u')
          \<and> map fst sb = subjectFields)
   \<and> (\<exists>sb u'. deleteSubject exSubjects (JNum (Fin 1)) = (Inr sb, u')
          \<and> map fst sb = [''id'', ''nome'', ''ativa'', ''professorId''])"
proof -
  have pos: "positiveNumeric (JNum (Fin 1))" by (simp add: js_eval)
  have p: "whereId (parseInt (JNum (Fin 1))) = Some 1"
    using whereId_parseInt_of_int [of 1] by simp
  have fq: "find (\<lambda>x. id' x = 1) (rows exQuestions) = Some exQuestion1"
    and fs: "find (\<lambda>x. id' x = 1) (rows exSubjects) = Some exSubject1"
    by (simp_all add: ex_defs)
  have "getAllQuestions exQuestions =
      [select questionCol questionFields exQuestion2, select questionCol questionFields exQuestion1]"
    by (simp add: getAllQuestions_def findMany_def exQuestions_def exQuestion1_def exQuestion2_def)
  then have la: "hd (getAllQuestions exQuestions) \<in> set (getAllQuestions exQuestions)"
    by simp
  have "getAllSubjects exSubjects = [select subjectCol subjectFields exSubject1]"
    by (simp add: getAllSubjects_def findMany_def exSubjects_def)
  then have ls: "hd (getAllSubjects exSubjects) \<in> set (getAllSubjects exSubjects)"
    by simp
  have g: "getQuestionById exQuestions (JNum (Fin 1)) =
      Inr (Some (select questionCol questionFields exQuestion1))"
    using pos p fq by (rule getQuestionById_found)
  note up = updateQuestion_empty [OF pos p fq, where now = 20]
  have dq: "deleteQuestion exQuestions (JNum (Fin 1)) =
      (Inr (select questionCol [''id'', ''enunciado'', ''dificuldade'', ''respostaCorreta'',
                                ''disciplinaId'', ''autorId''] exQuestion1),
       exQuestions\<lparr>rows := filter (\<lambda>x. id' x \<noteq> 1) (rows exQuestions)\<rparr>)"
    using pos p fq by (simp add: deleteQuestion_cases)
  have ds: "deleteSubject exSubjects (JNum (Fin 1)) =
      (Inr (select subjectCol [''id'', ''nome'', ''ativa'', ''professorId''] exSubject1),
       exSubjects\<lparr>rows := filter (\<lambda>x. id' x \<noteq> 1) (rows exSubjects)\<rparr>)"
    using pos p fs by (simp add: deleteSubject_cases)
  from result_shapes [THEN conjunct1, rule_format, OF la]
  have 1: "map fst (hd (getAllQuestions exQuestions)) = questionFields" .
  from result_shapes [THEN conjunct2, THEN conjunct2, THEN conjunct2, THEN conjunct2,
      THEN conjunct2, THEN conjunct1, rule_format, OF ls]
  have 0: "map fst (hd (getAllSubjects exSubjects)) = subjectFields" .
  from result_shapes [THEN conjunct2, THEN conjunct1, rule_format, OF g] g
  have 2: "\<exists>ob. getQuestionById exQuestions (JNum (Fin 1)) = Inr (Some ob)
          \<and> map fst ob = questionFields"
    by simp
  from result_shapes [THEN conjunct2, THEN conjunct2, THEN conjunct1, rule_format,
      OF exCreateQuestion] exCreateQuestion
  have 3: "\<exists>ob t'. createQuestion 30 exQuestions exQuestionData = (Inr ob, t')
          \<and> map fst ob = questionFields"
    by simp
  from result_shapes [THEN conjunct2, THEN conjunct2, THEN conjunct2, THEN conjunct1,
      rule_format, OF up] up
  have 4: "\<exists>ob t'. updateQuestion 20 exQuestions (JNum (Fin 1)) emptyObj = (Inr ob, t')
          \<and> map fst ob = questionFields"
    by simp
  from result_shapes [THEN conjunct2, THEN conjunct2, THEN conjunct2, THEN conjunct2,
      THEN conjunct1, rule_format, OF dq] dq
  have 5: "\<exists>ob t'. deleteQuestion exQuestions (JNum (Fin 1)) = (Inr ob, t')
          \<and> ''enunciado'' \<in> set (map fst ob) \<and> distinct (map fst ob)
          \<and> ''createdAt'' \<notin> set (map fst ob) \<and> ''updatedAt'' \<notin> set (map fst ob)"
    by simp
  from result_shapes [THEN conjunct2, THEN conjunct2, THEN conjunct2, THEN conjunct2,
      THEN conjunct2, THEN conjunct2, THEN conjunct2, THEN conjunct1, rule_format,
      OF exCreateSubject] exCreateSubject
  have 6: "\<exists>sb u'. createSubject 30 exSubjects exSubjectData = (Inr sb, u')
          \<and> map fst sb = subjectFields"
    by simp
  from result_shapes [THEN conjunct2, THEN conjunct2, THEN conjunct2, THEN conjunct2,
      THEN conjunct2, THEN conjunct2, THEN conjunct2, THEN conjunct2, THEN conjunct2,
      rule_format, OF ds] ds
  have 7: "\<exists>sb u'. deleteSubject exSubjects (JNum (Fin 1)) = (Inr sb, u')
          \<and> map fst sb = [''id'', ''nome'', ''ativa'', ''professorId'']"
    by simp
  from 0 1 2 3 4 5 6 7 show ?thesis by (intro conjI)
qed

section \<open>The range of the difficulty\<close>

lemma num_cmp [simp]:
  "truthy (JNum (Fin q)) = (q \<noteq> 0)"
  "ltNum (JNum (Fin q)) k = (q < k)"
  "gtNum (JNum (Fin q)) k = (k < q)"
  by (simp_all add: ltNum_def gtNum_def)

lemma asInt_of_int [simp]: "fitsInt64 k \<Longrightarrow> asInt (JNum (Fin (of_int k))) = Some k"
  by (simp add: asInt_def)











section \<open>The identifier as \<open>parseInt\<close> reads it\<close>

lemma getQuestionById_id_cong:
  "positiveNumeric v \<Longrightarrow> positiveNumeric w \<Longrightarrow> parseInt v = parseInt w \<Longrightarrow>
     getQuestionById t v = getQuestionById t w"
  by (simp add: getQuestionById_alt)

lemma getSubjectById_id_cong:
  "positiveNumeric v \<Longrightarrow> positiveNumeric w \<Longrightarrow> parseInt v = parseInt w \<Longrightarrow>
     getSubjectById t v = getSubjectById t w"
  by (simp add: getSubjectById_alt)

lemma deleteQuestion_id_cong:
  "positiveNumeric v \<Longrightarrow> positiveNumeric w \<Longrightarrow> parseInt v = parseInt w \<Longrightarrow>
     deleteQuestion t v = deleteQuestion t w"
  by (simp add: deleteQuestion_cases)

lemma deleteSubject_id_cong:
  "positiveNumeric v \<Longrightarrow> positiveNumeric w \<Longrightarrow> parseInt v = parseInt w \<Longrightarrow>
     deleteSubject t v = deleteSubject t w"
  by (simp add: deleteSubject_cases)

lemma updateQuestion_id_cong:
  assumes "positiveNumeric v" "positiveNumeric w" "parseInt v = parseInt w"
  shows "updateQuestion now t v d = updateQuestion now t w d"
  unfolding updateQuestion_def guard_iff assms(3) using assms(1,2) by simp

lemma updateSubject_id_cong:
  assumes "positiveNumeric v" "positiveNumeric w" "parseInt v = parseInt w"
  shows "updateSubject now t v d = updateSubject now t w d"
  unfolding updateSubject_def guard_iff assms(3) using assms(1,2) by simp

lemma positive_not_InvalidArgument:
  assumes "positiveNumeric v"
  shows "\<not> failsWith (getQuestionById t v) InvalidArgument"
    "\<not> failsWith (fst (updateQuestion now t v d)) InvalidArgument"
    "\<not> failsWith (fst (deleteQuestion t v)) InvalidArgument"
    "\<not> failsWith (getSubjectById u v) InvalidArgument"
    "\<not> failsWith (fst (updateSubject now u v e)) InvalidArgument"
    "\<not> failsWith (fst (deleteSubject u v)) InvalidArgument"
proof -
  show "\<not> failsWith (getQuestionById t v) InvalidArgument"
    using assms by (simp add: getQuestionById_alt findUniqueById_def failsWith_def split: option.splits)
  show "\<not> failsWith (getSubjectById u v) InvalidArgument"
    using assms by (simp add: getSubjectById_alt findUniqueById_def failsWith_def split: option.splits)
  show "\<not> failsWith (fst (deleteQuestion t v)) InvalidArgument"
    using assms by (simp add: deleteQuestion_cases failsWith_def split: option.splits)
  show "\<not> failsWith (fst (deleteSubject u v)) InvalidArgument"
    using assms by (simp add: deleteSubject_cases failsWith_def split: option.splits)
  show "\<not> failsWith (fst (updateQuestion now t v d)) InvalidArgument"
  proof (cases "whereId (parseInt v)")
    case None
    with assms show ?thesis
      by (subst updateQuestion_not_found) (simp add: failsWith_def)
  next
    case (Some n)
    show ?thesis
    proof (cases "find (\<lambda>r. id' r = n) (rows t)")
      case None
      with assms Some show ?thesis
        by (subst updateQuestion_not_found) (simp add: failsWith_def)
    next
      case (Some r)
      with assms \<open>whereId (parseInt v) = Some n\<close> show ?thesis
        by (simp add: updateQuestion_found questionUpdate_def whereId_def failsWith_def)
    qed
  qed
  show "\<not> failsWith (fst (updateSubject now u v e)) InvalidArgument"
  proof (cases "whereId (parseInt v)")
    case None
    with assms show ?thesis
      by (subst updateSubject_not_found) (simp add: failsWith_def)
  next
    case (Some n)
    show ?thesis
    proof (cases "find (\<lambda>r. id' r = n) (rows u)")
      case None
      with assms Some show ?thesis
        by (subst updateSubject_not_found) (simp add: failsWith_def)
    next
      case (Some r)
      with assms \<open>whereId (parseInt v) = Some n\<close> show ?thesis
        by (simp add: updateSubject_found subjectUpdate_def whereId_def failsWith_def)
    qed
  qed
qed

lemma toDouble_37_10: "toDouble (37 / 10) = Fin (4165829655317709 / 2 ^ 50)"
proof -
  have "bitLength 3 = 2" by (simp add: bitLength.simps)
  then have "ilog2 (37 / 10) = 1" by (simp add: ilog2_def floor_rat_numeral_div)
  then show ?thesis
    by (simp add: toDouble_def roundPositive_def pow2_def Let_def roundHalfEven_def
          floor_rat_numeral_div)
qed

lemma safe_id:
  assumes "parseInt v = Some n" "0 \<le> n" "n < 2 ^ 53"
  shows "whereId (parseInt v) = Some n"
  using assms by (simp add: whereId_Some_iff fitsInt64_safe)

text \<open>The string \<open>"1e-324"\<close> spells a positive number, but its Number value is zero and
  the check of the identifier refuses it.\<close>

lemma tiny_string_is_invalid:
  "\<not> positiveNumeric (JStr ''1e-324'')"
  "getQuestionById t (JStr ''1e-324'') = Inl IdInvalido"
  "getSubjectById u (JStr ''1e-324'') = Inl IdInvalido"
proof -
  show a: "\<not> positiveNumeric (JStr ''1e-324'')"
    unfolding positiveNumeric_def toNumber_1e_324 by simp
  then show "getQuestionById t (JStr ''1e-324'') = Inl IdInvalido"
    "getSubjectById u (JStr ''1e-324'') = Inl IdInvalido"
    by (simp_all add: getQuestionById_alt getSubjectById_alt)
qed

text \<open>
  Claim C9 does not hold as it is written. The string \<open>"1e1"\<close> is the number 10, whose
  integer part is 10, but \<open>parseInt\<close> reads 1 and the subject 1 is returned. And
  \<open>Infinity\<close> is a Number above zero that the three functions do not accept: it passes
  the check of the identifier, \<open>parseInt\<close> of it is \<open>NaN\<close>, and the client raises.
\<close>

theorem id_exponent_string_and_infinity:
  "toNumber (JStr ''1e1'') = Fin 10
   \<and> parseInt (JStr ''1e1'') = Some 1
   \<and> getSubjectById exSubjects (JStr ''1e1'')
       = Inr (Some (select subjectCol subjectFields exSubject1))
   \<and> id' exSubject1 = 1
   \<and> positiveNumeric (JNum PosInf)
   \<and> getQuestionById exQuestions (JNum PosInf) = Inl PrismaError
   \<and> updateQuestion 20 exQuestions (JNum PosInf) emptyObj = (Inl PrismaError, exQuestions)
   \<and> deleteQuestion exQuestions (JNum PosInf) = (Inl PrismaError, exQuestions)"
proof -
  have n: "toNumber (JStr ''1e1'') = Fin 10" by (simp add: str_eval toDouble_eval)
  have p: "parseInt (JStr ''1e1'') = Some 1" by (simp add: str_eval toDouble_eval)
  have pos: "positiveNumeric (JStr ''1e1'')" unfolding positiveNumeric_def n by simp
  have w: "whereId (parseInt (JStr ''1e1'')) = Some 1"
    using p by (rule safe_id) simp_all
  have f: "find (\<lambda>r. id' r = 1) (rows exSubjects) = Some exSubject1" by (simp add: ex_defs)
  have g: "getSubjectById exSubjects (JStr ''1e1'')
       = Inr (Some (select subjectCol subjectFields exSubject1))"
    using pos w f by (rule getSubjectById_found)
  have i: "id' exSubject1 = 1" by (simp add: ex_defs)
  have inf: "positiveNumeric (JNum PosInf)" by (simp add: positiveNumeric_def)
  have wi: "whereId (parseInt (JNum PosInf)) = None" by (simp add: parseIntNum_def whereId_def)
  have a: "getQuestionById exQuestions (JNum PosInf) = Inl PrismaError"
    using inf wi by (simp add: getQuestionById_alt findUniqueById_def)
  have b: "updateQuestion 20 exQuestions (JNum PosInf) emptyObj = (Inl PrismaError, exQuestions)"
    using inf wi by (rule updateQuestion_nan)
  have c: "deleteQuestion exQuestions (JNum PosInf) = (Inl PrismaError, exQuestions)"
    using inf wi by (simp add: deleteQuestion_cases)
  from n p g i inf a b c show ?thesis by (intro conjI)
qed

text \<open>
  Claim C9, amended. \<open>getById\<close>, \<open>update\<close> and \<open>delete\<close> of both services never answer
  \<open>InvalidArgument\<close> to an identifier whose Number value is above zero, be it an integer,
  a fraction such as \<open>3.7\<close> or a numeric string such as \<open>"3"\<close>. When \<open>parseInt\<close> of the
  identifier is an integer \<open>n\<close> from 0 to below \<open>2\<^sup>5\<^sup>3\<close>, they work on the record whose
  identifier is \<open>n\<close>: the read returns that row, or the absent result; \<open>delete\<close> returns
  its selected columns and removes the rows with that identifier, or fails with
  \<open>NotFound\<close> and leaves the table; \<open>update\<close> fails with \<open>NotFound\<close> and leaves the table
  when there is no such row, an update that succeeds returns that row patched and
  patches the rows with that identifier and no other, and the update with
  \<open>{ativa: b}\<close> does succeed on it; and, when \<open>n\<close> is positive, each function does what it
  does for the Number \<open>n\<close> itself. For a Number from \<open>10\<^sup>-\<^sup>6\<close> up to \<open>10\<^sup>2\<^sup>1\<close> \<open>parseInt\<close>
  is the integer part, and for a string of decimal digits below \<open>2\<^sup>5\<^sup>3\<close> it is the
  number spelled.
\<close>

theorem id_read_by_parseInt:
  "(positiveNumeric v \<longrightarrow>
      \<not> failsWith (getQuestionById t v) InvalidArgument
      \<and> \<not> failsWith (fst (updateQuestion now t v d)) InvalidArgument
      \<and> \<not> failsWith (fst (deleteQuestion t v)) InvalidArgument
      \<and> \<not> failsWith (getSubjectById u v) InvalidArgument
      \<and> \<not> failsWith (fst (updateSubject now u v e)) InvalidArgument
      \<and> \<not> failsWith (fst (deleteSubject u v)) InvalidArgument)
   \<and> (positiveNumeric v \<and> parseInt v = Some n \<and> 0 \<le> n \<and> n < 2 ^ 53 \<longrightarrow>
        getQuestionById t v =
          Inr (map_option (select questionCol questionFields) (find (\<lambda>r. id' r = n) (rows t)))
        \<and> deleteQuestion t v =
          (case find (\<lambda>r. id' r = n) (rows t) of
             None \<Rightarrow> (Inl QuestaoNaoEncontrada, t)
           | Some r \<Rightarrow>
               (Inr (select questionCol
                       [''id'', ''enunciado'', ''dificuldade'', ''respostaCorreta'',
                        ''disciplinaId'', ''autorId''] r),
                t\<lparr>rows := filter (\<lambda>x. id' x \<noteq> n) (rows t)\<rparr>))
        \<and> (find (\<lambda>r. id' r = n) (rows t) = None \<longrightarrow>
             updateQuestion now t v d = (Inl QuestaoNaoEncontrada, t))
        \<and> (updateQuestion now t v d = (Inr ob, t') \<longrightarrow>
             (\<exists>r. find (\<lambda>r. id' r = n) (rows t) = Some r
                \<and> ob = select questionCol questionFields
                          (questionPatch now (questionDadosAtualizacao d) r))
             \<and> t' = t\<lparr>rows := map (\<lambda>x. if id' x = n
                                         then questionPatch now (questionDadosAtualizacao d) x
                                         else x) (rows t)\<rparr>)
        \<and> (find (\<lambda>r. id' r = n) (rows t) = Some qr \<longrightarrow>
             updateQuestion now t v (emptyObj(''ativa'' := JBool b)) =
               (Inr (select questionCol questionFields (qr\<lparr>ativa := b, updatedAt := now\<rparr>)),
                t\<lparr>rows := map (\<lambda>x. if id' x = n then x\<lparr>ativa := b, updatedAt := now\<rparr> else x)
                              (rows t)\<rparr>))
        \<and> getSubjectById u v =
          Inr (map_option (select subjectCol subjectFields) (find (\<lambda>r. id' r = n) (rows u)))
        \<and> deleteSubject u v =
          (case find (\<lambda>r. id' r = n) (rows u) of
             None \<Rightarrow> (Inl DisciplinaNaoEncontrada, u)
           | Some r \<Rightarrow>
               (Inr (select subjectCol [''id'', ''nome'', ''ativa'', ''professorId''] r),
                u\<lparr>rows := filter (\<lambda>x. id' x \<noteq> n) (rows u)\<rparr>))
        \<and> (find (\<lambda>r. id' r = n) (rows u) = None \<longrightarrow>
             updateSubject now u v e = (Inl DisciplinaNaoEncontrada, u))
        \<and> (updateSubject now u v e = (Inr sb, u') \<longrightarrow>
             (\<exists>r. find (\<lambda>r. id' r = n) (rows u) = Some r
                \<and> sb = select subjectCol subjectFields
                          (subjectPatch now (subjectDadosAtualizacao e) r))
             \<and> u' = u\<lparr>rows := map (\<lambda>x. if id' x = n
                                         then subjectPatch now (subjectDadosAtualizacao e) x
                                         else x) (rows u)\<rparr>)
        \<and> (find (\<lambda>r. id' r = n) (rows u) = Some sr \<longrightarrow>
             updateSubject now u v (emptyObj(''ativa'' := JBool b)) =
               (Inr (select subjectCol subjectFields (sr\<lparr>ativa := b, updatedAt := now\<rparr>)),
                u\<lparr>rows := map (\<lambda>x. if id' x = n then x\<lparr>ativa := b, updatedAt := now\<rparr> else x)
                              (rows u)\<rparr>)))
   \<and> (positiveNumeric v \<and> parseInt v = Some n \<and> 0 < n \<and> n < 2 ^ 53 \<longrightarrow>
        getQuestionById t v = getQuestionById t (JNum (Fin (of_int n)))
        \<and> updateQuestion now t v d = updateQuestion now t (JNum (Fin (of_int n))) d
        \<and> deleteQuestion t v = deleteQuestion t (JNum (Fin (of_int n)))
        \<and> getSubjectById u v = getSubjectById u (JNum (Fin (of_int n)))
        \<and> updateSubject now u v e = updateSubject now u (JNum (Fin (of_int n))) e
        \<and> deleteSubject u v = deleteSubject u (JNum (Fin (of_int n))))
   \<and> (1 / 10 ^ 6 \<le> q \<and> q < 10 ^ 21 \<longrightarrow>
        positiveNumeric (JNum (Fin q)) \<and> parseInt (JNum (Fin q)) = Some \<lfloor>q\<rfloor>)
   \<and> (allDigits 10 s \<and> 0 < digitsVal 10 s \<and> digitsVal 10 s < 2 ^ 53 \<longrightarrow>
        positiveNumeric (JStr s) \<and> parseInt (JStr s) = Some (int (digitsVal 10 s)))"
proof (intro conjI impI)
  assume "positiveNumeric v"
  then show "\<not> failsWith (getQuestionById t v) InvalidArgument"
    "\<not> failsWith (fst (updateQuestion now t v d)) InvalidArgument"
    "\<not> failsWith (fst (deleteQuestion t v)) InvalidArgument"
    "\<not> failsWith (getSubjectById u v) InvalidArgument"
    "\<not> failsWith (fst (updateSubject now u v e)) InvalidArgument"
    "\<not> failsWith (fst (deleteSubject u v)) InvalidArgument"
    by (rule positive_not_InvalidArgument)+
next
  assume a: "positiveNumeric v \<and> parseInt v = Some n \<and> 0 \<le> n \<and> n < 2 ^ 53"
  then have pos: "positiveNumeric v" by simp
  from a have w: "whereId (parseInt v) = Some n" by (intro safe_id) simp_all
  show "getQuestionById t v =
      Inr (map_option (select questionCol questionFields) (find (\<lambda>r. id' r = n) (rows t)))"
    using pos w by (simp add: getQuestionById_alt findUniqueById_def)
  show "getSubjectById u v =
      Inr (map_option (select subjectCol subjectFields) (find (\<lambda>r. id' r = n) (rows u)))"
    using pos w by (simp add: getSubjectById_alt findUniqueById_def)
  show "deleteQuestion t v =
          (case find (\<lambda>r. id' r = n) (rows t) of
             None \<Rightarrow> (Inl QuestaoNaoEncontrada, t)
           | Some r \<Rightarrow>
               (Inr (select questionCol
                       [''id'', ''enunciado'', ''dificuldade'', ''respostaCorreta'',
                        ''disciplinaId'', ''autorId''] r),
                t\<lparr>rows := filter (\<lambda>x. id' x \<noteq> n) (rows t)\<rparr>))"
    using pos w by (simp add: deleteQuestion_cases)
  show "deleteSubject u v =
          (case find (\<lambda>r. id' r = n) (rows u) of
             None \<Rightarrow> (Inl DisciplinaNaoEncontrada, u)
           | Some r \<Rightarrow>
               (Inr (select subjectCol [''id'', ''nome'', ''ativa'', ''professorId''] r),
                u\<lparr>rows := filter (\<lambda>x. id' x \<noteq> n) (rows u)\<rparr>))"
    using pos w by (simp add: deleteSubject_cases)
  { assume "find (\<lambda>r. id' r = n) (rows t) = None"
    with pos w show "updateQuestion now t v d = (Inl QuestaoNaoEncontrada, t)"
      by (rule updateQuestion_absent) }
  { assume "find (\<lambda>r. id' r = n) (rows u) = None"
    with pos w show "updateSubject now u v e = (Inl DisciplinaNaoEncontrada, u)"
      by (rule updateSubject_absent) }
  { assume "find (\<lambda>r. id' r = n) (rows t) = Some qr"
    with pos w show "updateQuestion now t v (emptyObj(''ativa'' := JBool b)) =
               (Inr (select questionCol questionFields (qr\<lparr>ativa := b, updatedAt := now\<rparr>)),
                t\<lparr>rows := map (\<lambda>x. if id' x = n then x\<lparr>ativa := b, updatedAt := now\<rparr> else x)
                              (rows t)\<rparr>)"
      by (rule updateQuestion_ativa) }
  { assume "find (\<lambda>r. id' r = n) (rows u) = Some sr"
    with pos w show "updateSubject now u v (emptyObj(''ativa'' := JBool b)) =
               (Inr (select subjectCol subjectFields (sr\<lparr>ativa := b, updatedAt := now\<rparr>)),
                u\<lparr>rows := map (\<lambda>x. if id' x = n then x\<lparr>ativa := b, updatedAt := now\<rparr> else x)
                              (rows u)\<rparr>)"
      by (rule updateSubject_ativa) }
  { assume s: "updateQuestion now t v d = (Inr ob, t')"
    from s obtain m r where m: "whereId (parseInt v) = Some m"
        "find (\<lambda>r. id' r = m) (rows t) = Some r"
        "ob = select questionCol questionFields (questionPatch now (questionDadosAtualizacao d) r)"
        "t' = t\<lparr>rows := map (\<lambda>x. if id' x = m
                              then questionPatch now (questionDadosAtualizacao d) x else x)
                        (rows t)\<rparr>"
      by (rule updateQuestion_Inr)
    from m(1) w have mn: "m = n" by simp
    from m(2,3) show "\<exists>r. find (\<lambda>r. id' r = n) (rows t) = Some r
                \<and> ob = select questionCol questionFields
                          (questionPatch now (questionDadosAtualizacao d) r)"
      unfolding mn by blast
    from m(4) show "t' = t\<lparr>rows := map (\<lambda>x. if id' x = n
                                         then questionPatch now (questionDadosAtualizacao d) x
                                         else x) (rows t)\<rparr>"
      unfolding mn . }
  { assume s: "updateSubject now u v e = (Inr sb, u')"
    from s obtain m r where m: "whereId (parseInt v) = Some m"
        "find (\<lambda>r. id' r = m) (rows u) = Some r"
        "sb = select subjectCol subjectFields (subjectPatch now (subjectDadosAtualizacao e) r)"
        "u' = u\<lparr>rows := map (\<lambda>x. if id' x = m
                              then subjectPatch now (subjectDadosAtualizacao e) x else x)
                        (rows u)\<rparr>"
      by (rule updateSubject_Inr)
    from m(1) w have mn: "m = n" by simp
    from m(2,3) show "\<exists>r. find (\<lambda>r. id' r = n) (rows u) = Some r
                \<and> sb = select subjectCol subjectFields
                          (subjectPatch now (subjectDadosAtualizacao e) r)"
      unfolding mn by blast
    from m(4) show "u' = u\<lparr>rows := map (\<lambda>x. if id' x = n
                                         then subjectPatch now (subjectDadosAtualizacao e) x
                                         else x) (rows u)\<rparr>"
      unfolding mn . }
next
  assume a: "positiveNumeric v \<and> parseInt v = Some n \<and> 0 < n \<and> n < 2 ^ 53"
  then have "0 < n" and "n < 2 ^ 53" by simp_all
  then have "n < 10 ^ 21" by simp
  with \<open>0 < n\<close> have "parseInt (JNum (Fin (of_int n))) = Some n" by (rule parseInt_of_int)
  with a have eq: "parseInt v = parseInt (JNum (Fin (of_int n)))" by simp
  have pw: "positiveNumeric (JNum (Fin (of_int n)))"
    using \<open>0 < n\<close> by (simp only: positiveNumeric_int)
  from a have pv: "positiveNumeric v" by blast
  show "getQuestionById t v = getQuestionById t (JNum (Fin (of_int n)))"
    using pv pw eq by (rule getQuestionById_id_cong)
  show "updateQuestion now t v d = updateQuestion now t (JNum (Fin (of_int n))) d"
    using pv pw eq by (rule updateQuestion_id_cong)
  show "deleteQuestion t v = deleteQuestion t (JNum (Fin (of_int n)))"
    using pv pw eq by (rule deleteQuestion_id_cong)
  show "getSubjectById u v = getSubjectById u (JNum (Fin (of_int n)))"
    using pv pw eq by (rule getSubjectById_id_cong)
  show "updateSubject now u v e = updateSubject now u (JNum (Fin (of_int n))) e"
    using pv pw eq by (rule updateSubject_id_cong)
  show "deleteSubject u v = deleteSubject u (JNum (Fin (of_int n)))"
    using pv pw eq by (rule deleteSubject_id_cong)
next
  assume a: "1 / 10 ^ 6 \<le> q \<and> q < 10 ^ 21"
  then have lo: "1 / 10 ^ 6 \<le> q" and hi: "q < 10 ^ 21" by blast+
  have "(0::rat) < 1 / 10 ^ 6" by simp
  from this lo have "0 < q" by (rule less_le_trans)
  then show "positiveNumeric (JNum (Fin q))" by (simp add: positiveNumeric_def)
  from lo hi show "parseInt (JNum (Fin q)) = Some \<lfloor>q\<rfloor>" by (rule parseInt_floor)
next
  assume "allDigits 10 s \<and> 0 < digitsVal 10 s \<and> digitsVal 10 s < 2 ^ 53"
  then have ad: "allDigits 10 s" and gt: "0 < digitsVal 10 s" and lt: "digitsVal 10 s < 2 ^ 53"
    by blast+
  from gt show "positiveNumeric (JStr s)" by (simp only: positiveNumeric_digits [OF ad lt])
  from ad lt show "parseInt (JStr s) = Some (int (digitsVal 10 s))" by (rule digit_string_parseInt)
qed

text \<open>The Number that the literal \<open>3.7\<close> denotes is \<open>4165829655317709 / 2\<^sup>5\<^sup>0\<close>.\<close>

theorem id_read_by_parseInt_witness:
  "toNumber (JStr ''3.7'') = Fin (4165829655317709 / 2 ^ 50)
   \<and> getQuestionById exQuestions (JNum (Fin (4165829655317709 / 2 ^ 50))) =
     Inr (Some [(''id'', DInt 3), (''enunciado'', DStr ''3*3=?''), (''dificuldade'', DInt 2),
                (''respostaCorreta'', DStr ''9''), (''disciplinaId'', DInt 1),
                (''autorId'', DInt 3), (''ativa'', DBool False), (''createdAt'', DDate 12),
                (''updatedAt'', DDate 15)])
   \<and> \<not> failsWith (getQuestionById exQuestions (JNum (Fin (4165829655317709 / 2 ^ 50))))
         InvalidArgument
   \<and> getQuestionById exQuestions (JStr ''3'')
       = getQuestionById exQuestions (JNum (Fin (4165829655317709 / 2 ^ 50)))
   \<and> deleteQuestion exQuestions (JNum (Fin (4165829655317709 / 2 ^ 50))) =
     (Inr [(''id'', DInt 3), (''enunciado'', DStr ''3*3=?''), (''dificuldade'', DInt 2),
           (''respostaCorreta'', DStr ''9''), (''disciplinaId'', DInt 1), (''autorId'', DInt 3)],
      \<lparr>rows = [exQuestion1], nextId = 4\<rparr>)
   \<and> updateQuestion 20 exQuestions (JStr ''2'') emptyObj = (Inl QuestaoNaoEncontrada, exQuestions)
   \<and> updateSubject 20 exSubjects (JStr ''1'') (emptyObj(''ativa'' := JBool False)) =
     (Inr [(''id'', DInt 1), (''nome'', DStr ''Algebra''), (''ativa'', DBool False),
           (''professorId'', DInt 7), (''createdAt'', DDate 5), (''updatedAt'', DDate 20)],
      \<lparr>rows = [exSubject1\<lparr>ativa := False, updatedAt := 20\<rparr>], nextId = 2\<rparr>)
   \<and> updateSubject 20 exSubjects (JStr ''1'') exSubjectData
       = updateSubject 20 exSubjects (JNum (Fin 1)) exSubjectData"
proof -
  let ?x = "4165829655317709 / 2 ^ 50 :: rat"
  have lit: "toNumber (JStr ''3.7'') = Fin ?x" by (simp add: str_eval toDouble_37_10)
  have r: "1 / 10 ^ 6 \<le> ?x \<and> ?x < 10 ^ 21" by simp
  have fl: "\<lfloor>?x\<rfloor> = 3" by (simp add: floor_rat_numeral_div)
  from id_read_by_parseInt [where q = ?x, THEN conjunct2, THEN conjunct2, THEN conjunct2,
      THEN conjunct1, rule_format, OF r]
  have q: "positiveNumeric (JNum (Fin ?x))" "parseInt (JNum (Fin ?x)) = Some 3"
    by (simp_all only: fl)
  have d: "allDigits 10 ''3'' \<and> 0 < digitsVal 10 ''3'' \<and> digitsVal 10 ''3'' < 2 ^ 53"
    "allDigits 10 ''2'' \<and> 0 < digitsVal 10 ''2'' \<and> digitsVal 10 ''2'' < 2 ^ 53"
    "allDigits 10 ''1'' \<and> 0 < digitsVal 10 ''1'' \<and> digitsVal 10 ''1'' < 2 ^ 53"
    and dv: "digitsVal 10 ''3'' = 3" "digitsVal 10 ''2'' = 2" "digitsVal 10 ''1'' = 1"
    by (simp_all add: str_eval)
  note ds = id_read_by_parseInt [THEN conjunct2, THEN conjunct2, THEN conjunct2, THEN conjunct2,
      rule_format]
  from ds [OF d(1)] have s3: "positiveNumeric (JStr ''3'')" "parseInt (JStr ''3'') = Some 3"
    by (simp_all add: dv)
  from ds [OF d(2)] have s2: "positiveNumeric (JStr ''2'')" "parseInt (JStr ''2'') = Some 2"
    by (simp_all add: dv)
  from ds [OF d(3)] have s1: "positiveNumeric (JStr ''1'')" "parseInt (JStr ''1'') = Some 1"
    by (simp_all add: dv)
  have f: "find (\<lambda>r. id' r = 3) (rows exQuestions) = Some exQuestion2"
    "find (\<lambda>r. id' r = 2) (rows exQuestions) = None"
    "find (\<lambda>r. id' r = 1) (rows exSubjects) = Some exSubject1"
    by (simp_all add: ex_defs)
  have hx: "positiveNumeric (JNum (Fin ?x)) \<and> parseInt (JNum (Fin ?x)) = Some 3
      \<and> (0::int) \<le> 3 \<and> (3::int) < 2 ^ 53"
    using q by simp
  have h3: "positiveNumeric (JStr ''3'') \<and> parseInt (JStr ''3'') = Some 3
      \<and> (0::int) \<le> 3 \<and> (3::int) < 2 ^ 53"
    using s3 by simp
  have h2: "positiveNumeric (JStr ''2'') \<and> parseInt (JStr ''2'') = Some 2
      \<and> (0::int) \<le> 2 \<and> (2::int) < 2 ^ 53"
    using s2 by simp
  have h1: "positiveNumeric (JStr ''1'') \<and> parseInt (JStr ''1'') = Some 1
      \<and> (0::int) \<le> 1 \<and> (1::int) < 2 ^ 53"
    "positiveNumeric (JStr ''1'') \<and> parseInt (JStr ''1'') = Some 1
      \<and> (0::int) < 1 \<and> (1::int) < 2 ^ 53"
    using s1 by simp_all
  note on = id_read_by_parseInt [THEN conjunct2, THEN conjunct1, rule_format]
  note same = id_read_by_parseInt [THEN conjunct2, THEN conjunct2, THEN conjunct1, rule_format]
  from on [OF hx, where t = exQuestions, THEN conjunct1]
  have 1: "getQuestionById exQuestions (JNum (Fin ?x)) =
     Inr (Some [(''id'', DInt 3), (''enunciado'', DStr ''3*3=?''), (''dificuldade'', DInt 2),
                (''respostaCorreta'', DStr ''9''), (''disciplinaId'', DInt 1),
                (''autorId'', DInt 3), (''ativa'', DBool False), (''createdAt'', DDate 12),
                (''updatedAt'', DDate 15)])"
    by (simp add: f exQuestion2_def store_eval)
  from id_read_by_parseInt [where v = "JNum (Fin ?x)" and t = exQuestions,
      THEN conjunct1, rule_format, OF q(1), THEN conjunct1]
  have 2: "\<not> failsWith (getQuestionById exQuestions (JNum (Fin ?x))) InvalidArgument" .
  from on [OF h3, where t = exQuestions, THEN conjunct1]
    on [OF hx, where t = exQuestions, THEN conjunct1]
  have 3: "getQuestionById exQuestions (JStr ''3'') = getQuestionById exQuestions (JNum (Fin ?x))"
    by simp
  from on [OF hx, where t = exQuestions, THEN conjunct2, THEN conjunct1]
  have 4: "deleteQuestion exQuestions (JNum (Fin ?x)) =
     (Inr [(''id'', DInt 3), (''enunciado'', DStr ''3*3=?''), (''dificuldade'', DInt 2),
           (''respostaCorreta'', DStr ''9''), (''disciplinaId'', DInt 1), (''autorId'', DInt 3)],
      \<lparr>rows = [exQuestion1], nextId = 4\<rparr>)"
    by (simp add: f) (simp add: ex_defs store_eval)
  from on [OF h2, where t = exQuestions and now = 20 and d = emptyObj,
      THEN conjunct2, THEN conjunct2, THEN conjunct1, rule_format, OF f(2)]
  have 5: "updateQuestion 20 exQuestions (JStr ''2'') emptyObj
      = (Inl QuestaoNaoEncontrada, exQuestions)" .
  from on [OF h1(1), where u = exSubjects and now = 20 and b = False,
      THEN conjunct2, THEN conjunct2, THEN conjunct2, THEN conjunct2, THEN conjunct2,
      THEN conjunct2, THEN conjunct2, THEN conjunct2, THEN conjunct2, rule_format, OF f(3)]
  have 6: "updateSubject 20 exSubjects (JStr ''1'') (emptyObj(''ativa'' := JBool False)) =
     (Inr [(''id'', DInt 1), (''nome'', DStr ''Algebra''), (''ativa'', DBool False),
           (''professorId'', DInt 7), (''createdAt'', DDate 5), (''updatedAt'', DDate 20)],
      \<lparr>rows = [exSubject1\<lparr>ativa := False, updatedAt := 20\<rparr>], nextId = 2\<rparr>)"
    by (simp add: ex_defs store_eval)
  from same [OF h1(2), where u = exSubjects and now = 20 and e = exSubjectData,
      THEN conjunct2, THEN conjunct2, THEN conjunct2, THEN conjunct2, THEN conjunct1]
  have 7: "updateSubject 20 exSubjects (JStr ''1'') exSubjectData
       = updateSubject 20 exSubjects (JNum (Fin 1)) exSubjectData"
    by simp
  from lit 1 2 3 4 5 6 7 show ?thesis by (intro conjI)
qed

section \<open>Deleting\<close>

text \<open>
  Claim C3. Deleting by an identifier that is valid and has no record fails with
  \<open>NotFound\<close>, and a delete that fails, for whatever reason, leaves the table as it was.
  Deleting by the identifier of a record removes the rows with that identifier and no
  other, returns the values the record had just before (the six, or for a subject four,
  properties the function selects, as reading the record before the delete gave them), and
  reading by that identifier afterwards gives the absent result.
\<close>

theorem delete_not_found_or_snapshot:
  "(getQuestionById t v = Inr None \<longrightarrow>
      failsWith (fst (deleteQuestion t v)) NotFound \<and> snd (deleteQuestion t v) = t)
   \<and> (failsWith (fst (deleteQuestion t v)) k \<longrightarrow> snd (deleteQuestion t v) = t)
   \<and> (getQuestionById t v = Inr (Some ob) \<longrightarrow>
        (\<exists>n t'. parseInt v = Some n
           \<and> deleteQuestion t v =
               (Inr (filter (\<lambda>p. fst p \<in> set [''id'', ''enunciado'', ''dificuldade'',
                                   ''respostaCorreta'', ''disciplinaId'', ''autorId'']) ob), t')
           \<and> rows t' = filter (\<lambda>r. id' r \<noteq> n) (rows t) \<and> nextId t' = nextId t
           \<and> getQuestionById t' v = Inr None))
   \<and> (getSubjectById u w = Inr None \<longrightarrow>
        failsWith (fst (deleteSubject u w)) NotFound \<and> snd (deleteSubject u w) = u)
   \<and> (failsWith (fst (deleteSubject u w)) k' \<longrightarrow> snd (deleteSubject u w) = u)
   \<and> (getSubjectById u w = Inr (Some sb) \<longrightarrow>
        (\<exists>n u'. parseInt w = Some n
           \<and> deleteSubject u w =
               (Inr (filter (\<lambda>p. fst p \<in> set [''id'', ''nome'', ''ativa'', ''professorId'']) sb), u')
           \<and> rows u' = filter (\<lambda>r. id' r \<noteq> n) (rows u) \<and> nextId u' = nextId u
           \<and> getSubjectById u' w = Inr None))"
proof (intro conjI impI)
  assume "getQuestionById t v = Inr None"
  then show "failsWith (fst (deleteQuestion t v)) NotFound" "snd (deleteQuestion t v) = t"
    by (auto simp: getQuestionById_None_iff deleteQuestion_cases failsWith_def)
next
  assume "failsWith (fst (deleteQuestion t v)) k"
  then show "snd (deleteQuestion t v) = t"
    by (auto simp: deleteQuestion_cases failsWith_def split: if_splits option.splits)
next
  assume "getQuestionById t v = Inr (Some ob)"
  then obtain n r where h: "positiveNumeric v" "whereId (parseInt v) = Some n"
      "find (\<lambda>r. id' r = n) (rows t) = Some r" "ob = select questionCol questionFields r"
    by (auto simp: getQuestionById_Some_iff)
  from h(2) have p: "parseInt v = Some n" by (simp add: whereId_Some_iff)
  let ?t' = "t\<lparr>rows := filter (\<lambda>x. id' x \<noteq> n) (rows t)\<rparr>"
  have "deleteQuestion t v =
          (Inr (filter (\<lambda>p. fst p \<in> set [''id'', ''enunciado'', ''dificuldade'',
                                   ''respostaCorreta'', ''disciplinaId'', ''autorId'']) ob), ?t')"
    using h by (simp only: select_question_restrict deleteQuestion_cases) simp
  moreover have "getQuestionById ?t' v = Inr None"
    using h(1,2) by (simp add: getQuestionById_None_iff find_filter_None)
  ultimately show "\<exists>n t'. parseInt v = Some n
           \<and> deleteQuestion t v =
               (Inr (filter (\<lambda>p. fst p \<in> set [''id'', ''enunciado'', ''dificuldade'',
                                   ''respostaCorreta'', ''disciplinaId'', ''autorId'']) ob), t')
           \<and> rows t' = filter (\<lambda>r. id' r \<noteq> n) (rows t) \<and> nextId t' = nextId t
           \<and> getQuestionById t' v = Inr None"
    using p by (intro exI [of _ n] exI [of _ ?t']) simp
next
  assume "getSubjectById u w = Inr None"
  then show "failsWith (fst (deleteSubject u w)) NotFound" "snd (deleteSubject u w) = u"
    by (auto simp: getSubjectById_None_iff deleteSubject_cases failsWith_def)
next
  assume "failsWith (fst (deleteSubject u w)) k'"
  then show "snd (deleteSubject u w) = u"
    by (auto simp: deleteSubject_cases failsWith_def split: if_splits option.splits)
next
  assume "getSubjectById u w = Inr (Some sb)"
  then obtain n r where h: "positiveNumeric w" "whereId (parseInt w) = Some n"
      "find (\<lambda>r. id' r = n) (rows u) = Some r" "sb = select subjectCol subjectFields r"
    by (auto simp: getSubjectById_Some_iff)
  from h(2) have p: "parseInt w = Some n" by (simp add: whereId_Some_iff)
  let ?u' = "u\<lparr>rows := filter (\<lambda>x. id' x \<noteq> n) (rows u)\<rparr>"
  have "deleteSubject u w =
          (Inr (filter (\<lambda>p. fst p \<in> set [''id'', ''nome'', ''ativa'', ''professorId'']) sb), ?u')"
    using h by (simp only: select_subject_restrict deleteSubject_cases) simp
  moreover have "getSubjectById ?u' w = Inr None"
    using h(1,2) by (simp add: getSubjectById_None_iff find_filter_None)
  ultimately show "\<exists>n u'. parseInt w = Some n
           \<and> deleteSubject u w =
               (Inr (filter (\<lambda>p. fst p \<in> set [''id'', ''nome'', ''ativa'', ''professorId'']) sb), u')
           \<and> rows u' = filter (\<lambda>r. id' r \<noteq> n) (rows u) \<and> nextId u' = nextId u
           \<and> getSubjectById u' w = Inr None"
    using p by (intro exI [of _ n] exI [of _ ?u']) simp
qed

theorem delete_not_found_or_snapshot_witness:
  "getQuestionById exQuestions (JNum (Fin 7)) = Inr None
   \<and> failsWith (fst (deleteQuestion exQuestions (JNum (Fin 7)))) NotFound
   \<and> snd (deleteQuestion exQuestions (JNum (Fin 7))) = exQuestions
   \<and> (\<exists>t'. deleteQuestion exQuestions (JNum (Fin 3)) =
              (Inr [(''id'', DInt 3), (''enunciado'', DStr ''3*3=?''), (''dificuldade'', DInt 2),
                    (''respostaCorreta'', DStr ''9''), (''disciplinaId'', DInt 1),
                    (''autorId'', DInt 3)], t')
           \<and> rows t' = [exQuestion1]
           \<and> getQuestionById t' (JNum (Fin 3)) = Inr None)
   \<and> getSubjectById exSubjects (JStr ''4'') = Inr None
   \<and> failsWith (fst (deleteSubject exSubjects (JStr ''4''))) NotFound
   \<and> snd (deleteSubject exSubjects (JStr ''4'')) = exSubjects
   \<and> (\<exists>u'. deleteSubject exSubjects (JNum (Fin 1)) =
              (Inr [(''id'', DInt 1), (''nome'', DStr ''Algebra''), (''ativa'', DBool True),
                    (''professorId'', DInt 7)], u')
           \<and> rows u' = []
           \<and> getSubjectById u' (JNum (Fin 1)) = Inr None)"
proof -
  have q0: "getQuestionById exQuestions (JNum (Fin 7)) = Inr None"
    by (simp add: getQuestionById_def ex_defs js_eval store_eval)
  have q1: "getQuestionById exQuestions (JNum (Fin 3)) =
      Inr (Some [(''id'', DInt 3), (''enunciado'', DStr ''3*3=?''), (''dificuldade'', DInt 2),
                 (''respostaCorreta'', DStr ''9''), (''disciplinaId'', DInt 1),
                 (''autorId'', DInt 3), (''ativa'', DBool False), (''createdAt'', DDate 12),
                 (''updatedAt'', DDate 15)])"
    by (simp add: getQuestionById_def ex_defs js_eval store_eval)
  have s0: "getSubjectById exSubjects (JStr ''4'') = Inr None"
    by (simp add: getSubjectById_def ex_defs js_eval str_eval toDouble_eval store_eval)
  have s1: "getSubjectById exSubjects (JNum (Fin 1)) =
      Inr (Some [(''id'', DInt 1), (''nome'', DStr ''Algebra''), (''ativa'', DBool True),
                 (''professorId'', DInt 7), (''createdAt'', DDate 5), (''updatedAt'', DDate 5)])"
    by (simp add: getSubjectById_def ex_defs js_eval store_eval)
  have p: "parseInt (JNum (Fin 3)) = Some 3" "parseInt (JNum (Fin 1)) = Some 1"
    by (simp_all add: js_eval)
  note a = delete_not_found_or_snapshot
    [where t = exQuestions and v = "JNum (Fin 7)" and u = exSubjects and w = "JStr ''4''"]
  note b = delete_not_found_or_snapshot
    [where t = exQuestions and v = "JNum (Fin 3)" and u = exSubjects and w = "JNum (Fin 1)"
       and ob = "[(''id'', DInt 3), (''enunciado'', DStr ''3*3=?''), (''dificuldade'', DInt 2),
                 (''respostaCorreta'', DStr ''9''), (''disciplinaId'', DInt 1),
                 (''autorId'', DInt 3), (''ativa'', DBool False), (''createdAt'', DDate 12),
                 (''updatedAt'', DDate 15)]"
       and sb = "[(''id'', DInt 1), (''nome'', DStr ''Algebra''), (''ativa'', DBool True),
                 (''professorId'', DInt 7), (''createdAt'', DDate 5), (''updatedAt'', DDate 5)]"]
  from a q0 s0 have "failsWith (fst (deleteQuestion exQuestions (JNum (Fin 7)))) NotFound"
    "snd (deleteQuestion exQuestions (JNum (Fin 7))) = exQuestions"
    "failsWith (fst (deleteSubject exSubjects (JStr ''4''))) NotFound"
    "snd (deleteSubject exSubjects (JStr ''4'')) = exSubjects"
    by blast+
  moreover from b q1 s1 p
  have "\<exists>t'. deleteQuestion exQuestions (JNum (Fin 3)) =
              (Inr [(''id'', DInt 3), (''enunciado'', DStr ''3*3=?''), (''dificuldade'', DInt 2),
                    (''respostaCorreta'', DStr ''9''), (''disciplinaId'', DInt 1),
                    (''autorId'', DInt 3)], t')
           \<and> rows t' = [exQuestion1]
           \<and> getQuestionById t' (JNum (Fin 3)) = Inr None"
    by (auto simp: ex_defs)
  moreover from b q1 s1 p
  have "\<exists>u'. deleteSubject exSubjects (JNum (Fin 1)) =
              (Inr [(''id'', DInt 1), (''nome'', DStr ''Algebra''), (''ativa'', DBool True),
                    (''professorId'', DInt 7)], u')
           \<and> rows u' = []
           \<and> getSubjectById u' (JNum (Fin 1)) = Inr None"
    by (auto simp: ex_defs)
  ultimately show ?thesis using q0 s0 by blast
qed

section \<open>Listing\<close>

lemma findMany_desc:
  "\<exists>rs. findMany t sel key Desc = map sel rs \<and> mset rs = mset (rows t)
        \<and> sorted_wrt (\<lambda>a b. key b \<le> key a) rs"
proof -
  let ?rs = "rev (sort_key key (rows t))"
  have "sorted (map key (sort_key key (rows t)))" by (rule sorted_sort_key)
  then have "sorted_wrt (\<lambda>a b. key a \<le> key b) (sort_key key (rows t))"
    by (simp add: sorted_map)
  then have "sorted_wrt (\<lambda>a b. key b \<le> key a) ?rs"
    by (simp add: sorted_wrt_rev)
  moreover have "mset ?rs = mset (rows t)" by simp
  moreover have "findMany t sel key Desc = map sel ?rs" by (simp add: findMany_def)
  ultimately show ?thesis by blast
qed

text \<open>
  Claim C8. \<open>getAllQuestions\<close> and \<open>getAllSubjects\<close> return the selection of every row
  of their table, each row once, none filtered out and none cut off by a page, and a row
  created later never comes after a row created earlier (newest first).
\<close>

theorem listAll_all_newest_first:
  "(\<exists>rs. getAllQuestions t = map (select questionCol questionFields) rs
          \<and> mset rs = mset (rows t)
          \<and> sorted_wrt (\<lambda>a b. createdAt b \<le> createdAt a) rs)
   \<and> (\<exists>rs. getAllSubjects u = map (select subjectCol subjectFields) rs
          \<and> mset rs = mset (rows u)
          \<and> sorted_wrt (\<lambda>a b. createdAt b \<le> createdAt a) rs)"
  unfolding getAllQuestions_def getAllSubjects_def
  using findMany_desc [of t "select questionCol questionFields" createdAt]
        findMany_desc [of u "select subjectCol subjectFields" createdAt]
  by blast

end
